theory Spec2Isabelle
  imports Main
begin

section \<open>JavaScript values\<close>

text \<open>
  A thrown value is either an \<open>Error\<close> object with its message or some other value, kept
  as the string \<open>String(value)\<close> gives.  The handlers of the services turn it into a
  message with \<open>error instanceof Error ? error.message : String(error)\<close>.
\<close>

datatype js_exn = Error string | Thrown string

fun errorMessage :: "js_exn \<Rightarrow> string" where
  "errorMessage (Error m) = m"
| "errorMessage (Thrown s) = s"

text \<open>
  An optional string stands for a value that may be \<open>undefined\<close>, \<open>null\<close> or \<open>false\<close>.
  It is truthy when it is a non-empty string.
\<close>

fun truthy :: "string option \<Rightarrow> bool" where
  "truthy None = False"
| "truthy (Some s) = (s \<noteq> [])"

definition js_or :: "string option \<Rightarrow> string option \<Rightarrow> string option" where
  "js_or a b = (if truthy a then a else b)"

definition js_or_default :: "string option \<Rightarrow> string \<Rightarrow> string" where
  "js_or_default a d = (case a of None \<Rightarrow> d | Some s \<Rightarrow> if s = [] then d else s)"

text \<open>\<open>Array.prototype.join\<close>.\<close>

fun js_join :: "string \<Rightarrow> string list \<Rightarrow> string" where
  "js_join sep [] = []"
| "js_join sep [x] = x"
| "js_join sep (x # y # ys) = x @ sep @ js_join sep (y # ys)"

text \<open>\<open>String.prototype.includes\<close> and \<open>String.prototype.replace\<close> with a string pattern
  (the first occurrence only).\<close>

fun starts_with :: "string \<Rightarrow> string \<Rightarrow> bool" where
  "starts_with s [] = True"
| "starts_with [] (p # ps) = False"
| "starts_with (c # cs) (p # ps) = (c = p \<and> starts_with cs ps)"

fun js_includes :: "string \<Rightarrow> string \<Rightarrow> bool" where
  "js_includes [] pat = (pat = [])"
| "js_includes (c # cs) pat = (starts_with (c # cs) pat \<or> js_includes cs pat)"

fun js_replace :: "string \<Rightarrow> string \<Rightarrow> string \<Rightarrow> string" where
  "js_replace [] pat rep = (if pat = [] then rep else [])"
| "js_replace (c # cs) pat rep =
     (if starts_with (c # cs) pat then rep @ drop (length pat) (c # cs)
      else c # js_replace cs pat rep)"

text \<open>\<open>String.prototype.trim\<close>. A character is a code unit below 256: the white space
  and line terminators of JavaScript in that range are the six of ASCII and the no-break
  space \<open>U+00A0\<close>; the others (\<open>U+FEFF\<close>, \<open>U+2028\<close>, ...) lie beyond it.\<close>

definition js_whitespace :: "char \<Rightarrow> bool" where
  "js_whitespace c =
     (c \<in> set [CHR 0x09, CHR 0x0A, CHR 0x0B, CHR 0x0C, CHR 0x0D, CHR 0x20, CHR 0xA0])"

definition js_trim :: "string \<Rightarrow> string" where
  "js_trim s = rev (dropWhile js_whitespace (rev (dropWhile js_whitespace s)))"

text \<open>The decimal rendering of a length inside a template literal.\<close>

definition digit_char :: "nat \<Rightarrow> char" where
  "digit_char d = char_of (48 + d)"

function string_of_nat :: "nat \<Rightarrow> string" where
  "string_of_nat n =
     (if n < 10 then [digit_char n] else string_of_nat (n div 10) @ [digit_char (n mod 10)])"
  by pat_completeness auto
termination
  by (relation "measure id") auto

section \<open>The world outside the services\<close>

text \<open>The settings of the extension, as \<open>vscode.workspace.getConfiguration\<close> returns them.\<close>

record config =
  aiProvider :: "string option"
  aiModel :: "string option"
  anthropicApiKey :: "string option"
  googleApiKey :: "string option"
  openaiApiKey :: "string option"

text \<open>What the Files API answers about an uploaded file: the fields the service reads.\<close>

record remote_file =
  rf_name :: "string option"
  rf_state :: "string option"
  rf_status :: "string option"
  rf_uri :: "string option"
  rf_mimeType :: "string option"

text \<open>The request of \<open>ai.models.generateContent\<close>: the model, the text part, one file part
  (uri and mime type) for each uploaded file, and the system instruction when there is one.\<close>

record gen_request =
  rq_model :: string
  rq_text :: string
  rq_fileParts :: "(string option \<times> string) list"
  rq_systemInstruction :: "string option"

datatype content_block = TextBlock string | OtherBlock

text \<open>Every call that leaves the machine, with the credential it carries.\<close>

datatype net_call =
    FilesUpload string string string string
  | FilesGet string string
  | ModelsGenerateContent string gen_request
  | AnthropicMessagesCreate string string nat string
  | GoogleGenerateContent string string string
  | OpenAIChatCreate string string string nat

text \<open>
  The state the services act on: the files and directories of the local disk, the list of
  completed \<open>writeFile\<close> calls, \<open>process.env\<close>, the clock in milliseconds, the names of the
  files held by the remote store, and the log of network calls.
\<close>

record world =
  fs_files :: "string \<rightharpoonup> string"
  fs_dirs :: "string list"
  fs_writes :: "(string \<times> string) list"
  process_env :: "string \<rightharpoonup> string"
  clock :: nat
  remote_store :: "string list"
  net_log :: "net_call list"

text \<open>
  The libraries and services the code calls, as parameters: Node's \<open>path\<close> functions,
  \<open>mime.lookup\<close>, \<open>Date.prototype.toISOString\<close>, the parser of \<open>dotenv\<close>, the settings,
  a fault that an operation of the disk may raise, and the answers of the three providers.
  Each answer may depend on the whole state, so any failure can be injected at any call.
  A status query takes \<open>files_get_ms\<close> milliseconds.
\<close>

record env =
  path_join :: "string \<Rightarrow> string \<Rightarrow> string"
  path_dirname :: "string \<Rightarrow> string"
  path_basename :: "string \<Rightarrow> string"
  mime_lookup :: "string \<Rightarrow> string option"
  toISOString :: "nat \<Rightarrow> string"
  dotenv_parse :: "string \<Rightarrow> (string \<times> string) list"
  getConfiguration :: "world \<Rightarrow> js_exn + config"
  readFile_fault :: "world \<Rightarrow> string \<Rightarrow> js_exn option"
  mkdir_fault :: "world \<Rightarrow> string \<Rightarrow> js_exn option"
  copyFile_fault :: "world \<Rightarrow> string \<Rightarrow> string \<Rightarrow> js_exn option"
  unlink_fault :: "world \<Rightarrow> string \<Rightarrow> js_exn option"
  writeFile_fault :: "world \<Rightarrow> string \<Rightarrow> js_exn option"
  files_upload :: "world \<Rightarrow> string \<Rightarrow> string \<Rightarrow> string \<Rightarrow> js_exn + remote_file"
  files_get :: "world \<Rightarrow> string \<Rightarrow> js_exn + remote_file"
  files_get_ms :: "world \<Rightarrow> string \<Rightarrow> nat"
  models_generateContent :: "world \<Rightarrow> gen_request \<Rightarrow> js_exn + string option"
  anthropic_messages_create :: "world \<Rightarrow> string \<Rightarrow> string \<Rightarrow> js_exn + content_block list"
  google_generateContent :: "world \<Rightarrow> string \<Rightarrow> string \<Rightarrow> js_exn + string"
  openai_chat_create :: "world \<Rightarrow> string \<Rightarrow> string \<Rightarrow> js_exn + string option list"

subsection \<open>The disk\<close>

text \<open>The errors of Node for a path that does not exist, with the path in single quotes.\<close>

definition single_quoted :: "string \<Rightarrow> string" where
  "single_quoted s = [CHR 0x27] @ s @ [CHR 0x27]"

definition enoent_open :: "string \<Rightarrow> js_exn" where
  "enoent_open p = Error (''ENOENT: no such file or directory, open '' @ single_quoted p)"

definition enoent_copyfile :: "string \<Rightarrow> string \<Rightarrow> js_exn" where
  "enoent_copyfile src dst =
     Error (''ENOENT: no such file or directory, copyfile '' @ single_quoted src @
            '' -> '' @ single_quoted dst)"

definition eperm_unlink :: "string \<Rightarrow> js_exn" where
  "eperm_unlink p = Error (''EPERM: operation not permitted, unlink '' @ single_quoted p)"

definition existsSync :: "world \<Rightarrow> string \<Rightarrow> bool" where
  "existsSync w p = (fs_files w p \<noteq> None \<or> p \<in> set (fs_dirs w))"

definition mkdirSync :: "env \<Rightarrow> string \<Rightarrow> world \<Rightarrow> js_exn + world" where
  "mkdirSync env p w =
     (case mkdir_fault env w p of
        Some e \<Rightarrow> Inl e
      | None \<Rightarrow> Inr (w\<lparr>fs_dirs := fs_dirs w @ [p]\<rparr>))"

definition readFile :: "env \<Rightarrow> world \<Rightarrow> string \<Rightarrow> js_exn + string" where
  "readFile env w p =
     (case readFile_fault env w p of
        Some e \<Rightarrow> Inl e
      | None \<Rightarrow>
          (case fs_files w p of
             None \<Rightarrow> Inl (enoent_open p)
           | Some c \<Rightarrow> Inr c))"

definition copyFile :: "env \<Rightarrow> string \<Rightarrow> string \<Rightarrow> world \<Rightarrow> js_exn + world" where
  "copyFile env src dst w =
     (case copyFile_fault env w src dst of
        Some e \<Rightarrow> Inl e
      | None \<Rightarrow>
          (case fs_files w src of
             None \<Rightarrow> Inl (enoent_copyfile src dst)
           | Some c \<Rightarrow> Inr (w\<lparr>fs_files := (fs_files w)(dst \<mapsto> c)\<rparr>)))"

definition unlink :: "env \<Rightarrow> string \<Rightarrow> world \<Rightarrow> js_exn + world" where
  "unlink env p w =
     (case unlink_fault env w p of
        Some e \<Rightarrow> Inl e
      | None \<Rightarrow>
          (case fs_files w p of
             None \<Rightarrow> Inl (eperm_unlink p)
           | Some c \<Rightarrow> Inr (w\<lparr>fs_files := (fs_files w)(p := None)\<rparr>)))"

text \<open>A file is written into a directory that exists; the directory is not created. A
  write that throws is taken to leave the disk as it was.\<close>

definition writeFile :: "env \<Rightarrow> string \<Rightarrow> string \<Rightarrow> world \<Rightarrow> js_exn + world" where
  "writeFile env p content w =
     (case writeFile_fault env w p of
        Some e \<Rightarrow> Inl e
      | None \<Rightarrow>
          if path_dirname env p \<in> set (fs_dirs w) then
            Inr (w\<lparr>fs_files := (fs_files w)(p \<mapsto> content),
                   fs_writes := fs_writes w @ [(p, content)]\<rparr>)
          else Inl (enoent_open p))"

text \<open>\<open>dotenv.config\<close> reads the file and sets the variables that \<open>process.env\<close> does not
  define yet; a file it cannot read changes nothing and raises nothing.\<close>

definition dotenv_config :: "env \<Rightarrow> string \<Rightarrow> world \<Rightarrow> world" where
  "dotenv_config env envPath w =
     (case fs_files w envPath of
        None \<Rightarrow> w
      | Some content \<Rightarrow>
          w\<lparr>process_env :=
               fold (\<lambda>(k, v) m. if m k = None then m(k \<mapsto> v) else m)
                 (dotenv_parse env content) (process_env w)\<rparr>)"

text \<open>\<open>new Date().toISOString().replace(/[:.]/g, '-').slice(0, 19)\<close>\<close>

definition timestamp :: "env \<Rightarrow> world \<Rightarrow> string" where
  "timestamp env w =
     take 19 (map (\<lambda>c. if c = CHR '':'' \<or> c = CHR ''.'' then CHR ''-'' else c)
                (toISOString env (clock w)))"

subsection \<open>The network\<close>

text \<open>A call is logged, then answered. An upload that returns a name has created the
  remote file of that name. A status query lets its duration pass on the clock, and
  \<open>setTimeout\<close> lets the interval pass.\<close>

definition ai_files_upload ::
  "env \<Rightarrow> string \<Rightarrow> string \<Rightarrow> string \<Rightarrow> string \<Rightarrow> world \<Rightarrow> (js_exn + remote_file) \<times> world" where
  "ai_files_upload env apiKey file mimeType displayName w =
     (let w1 = w\<lparr>net_log := net_log w @ [FilesUpload apiKey file mimeType displayName]\<rparr>;
          r = files_upload env w1 file mimeType displayName
      in (r, case r of
               Inl e \<Rightarrow> w1
             | Inr f \<Rightarrow>
                 (case rf_name f of
                    None \<Rightarrow> w1
                  | Some n \<Rightarrow> w1\<lparr>remote_store := remote_store w1 @ [n]\<rparr>)))"

definition ai_files_get ::
  "env \<Rightarrow> string \<Rightarrow> string \<Rightarrow> world \<Rightarrow> (js_exn + remote_file) \<times> world" where
  "ai_files_get env apiKey fileName w =
     (let w1 = w\<lparr>net_log := net_log w @ [FilesGet apiKey fileName]\<rparr>
      in (files_get env w1 fileName, w1\<lparr>clock := clock w1 + files_get_ms env w1 fileName\<rparr>))"

definition ai_models_generateContent ::
  "env \<Rightarrow> string \<Rightarrow> gen_request \<Rightarrow> world \<Rightarrow> (js_exn + string option) \<times> world" where
  "ai_models_generateContent env apiKey requestConfig w =
     (let w1 = w\<lparr>net_log := net_log w @ [ModelsGenerateContent apiKey requestConfig]\<rparr>
      in (models_generateContent env w1 requestConfig, w1))"

definition setTimeout :: "nat \<Rightarrow> world \<Rightarrow> world" where
  "setTimeout intervalMs w = w\<lparr>clock := clock w + intervalMs\<rparr>"

section \<open>GeminiService\<close>

definition UPLOADS_FOLDER_NAME :: string where
  "UPLOADS_FOLDER_NAME = ''uploads-to-GenAI''"

definition TIMEOUT_MS :: nat where
  "TIMEOUT_MS = 120000"

definition POLL_INTERVAL_MS :: nat where
  "POLL_INTERVAL_MS = 1500"

definition normalizePath :: "string \<Rightarrow> string" where
  "normalizePath inputPath = map (\<lambda>c. if c = CHR 0x5C then CHR ''/'' else c) inputPath"

text \<open>
  The loop of \<open>findProjectRoot\<close>, with the number of rounds left. It returns the paths it
  has probed for \<open>.env\<close>, in order (the lines \<open>Checking for .env at\<close> of its console log),
  and the directory found, if any. The listing of the directory that the source prints
  inside its own try and catch has no effect on the result.
\<close>

fun findProjectRoot_loop :: "env \<Rightarrow> world \<Rightarrow> nat \<Rightarrow> string \<Rightarrow> string list \<times> string option" where
  "findProjectRoot_loop env w 0 currentDir = ([], None)"
| "findProjectRoot_loop env w (Suc n) currentDir =
     (let envPath = path_join env currentDir ''.env'' in
      if existsSync w envPath then ([envPath], Some currentDir)
      else
        (let parentDir = path_dirname env currentDir in
         if parentDir = currentDir then ([envPath], None)
         else
           (let (checked, found) = findProjectRoot_loop env w n parentDir
            in (envPath # checked, found))))"

definition maxLevelsUp :: nat where
  "maxLevelsUp = 5"

definition findProjectRoot_checked :: "env \<Rightarrow> world \<Rightarrow> string \<Rightarrow> string list" where
  "findProjectRoot_checked env w outputDirectory =
     fst (findProjectRoot_loop env w maxLevelsUp (normalizePath outputDirectory))"

definition anchor_not_found :: "string \<Rightarrow> js_exn" where
  "anchor_not_found outputDirectory =
     Error (''Could not find .env file. Searched up from: '' @ outputDirectory @ ''\<newline>'' @
            ''Please create a .env file with GEMINI_API_KEY=your_key in your project root directory.'')"

definition findProjectRoot :: "env \<Rightarrow> world \<Rightarrow> string \<Rightarrow> js_exn + string" where
  "findProjectRoot env w outputDirectory =
     (case snd (findProjectRoot_loop env w maxLevelsUp (normalizePath outputDirectory)) of
        Some currentDir \<Rightarrow> Inr currentDir
      | None \<Rightarrow> Inl (anchor_not_found outputDirectory))"

definition getUploadsFolderPath :: "env \<Rightarrow> string \<Rightarrow> string" where
  "getUploadsFolderPath env projectRoot = path_join env projectRoot UPLOADS_FOLDER_NAME"

definition loadEnvApiKey :: "env \<Rightarrow> string \<Rightarrow> world \<Rightarrow> (js_exn + string) \<times> world" where
  "loadEnvApiKey env projectRoot w =
     (let envPath = path_join env projectRoot ''.env'' in
      if existsSync w envPath then
        (let w1 = dotenv_config env envPath w;
             apiKey = js_or (process_env w1 ''GEMINI_API_KEY'') (process_env w1 ''GOOGLE_API_KEY'')
         in if \<not> truthy apiKey
            then (Inl (Error (''GEMINI_API_KEY not found in .env file at '' @ envPath @
                              ''. Please add: GEMINI_API_KEY=your_key'')), w1)
            else (Inr (js_or_default apiKey []), w1))
      else (Inl (Error (''No .env file found at '' @ envPath @
                        ''. Please create a .env file with GEMINI_API_KEY=your_key'')), w))"

text \<open>
  The poll loop of \<open>waitActive\<close>. An error of the status query is caught and gives
  \<open>f = null\<close>, whose state is \<open>undefined\<close>. The state is \<open>ACTIVE\<close> only when the query has
  answered, so returning the answer \<open>r\<close> returns \<open>f\<close>. The loop may run forever: it is a
  partial function, and \<open>None\<close> is the run that never returns.
\<close>

definition file_state :: "js_exn + remote_file \<Rightarrow> string option" where
  "file_state r = (case r of Inl e \<Rightarrow> None | Inr f \<Rightarrow> js_or (rf_state f) (rf_status f))"

definition failed_error :: "string \<Rightarrow> js_exn" where
  "failed_error fileName = Error (''File failed processing: '' @ fileName)"

definition timeout_error :: "string \<Rightarrow> js_exn" where
  "timeout_error fileName = Error (''Timed out waiting for ACTIVE: '' @ fileName)"

partial_function (option) waitActive_loop ::
  "env \<Rightarrow> string \<Rightarrow> string \<Rightarrow> nat \<Rightarrow> nat \<Rightarrow> nat \<Rightarrow> world \<Rightarrow> ((js_exn + remote_file) \<times> world) option" where
  "waitActive_loop env apiKey fileName timeoutMs intervalMs start w =
     (let (r, w1) = ai_files_get env apiKey fileName w;
          state = file_state r
      in if state = Some ''ACTIVE'' then Some (r, w1)
         else if state = Some ''FAILED'' then Some (Inl (failed_error fileName), w1)
         else if clock w1 - start > timeoutMs then Some (Inl (timeout_error fileName), w1)
         else waitActive_loop env apiKey fileName timeoutMs intervalMs start
                (setTimeout intervalMs w1))"

declare waitActive_loop.simps [code]

definition waitActive ::
  "env \<Rightarrow> string \<Rightarrow> string \<Rightarrow> nat \<Rightarrow> nat \<Rightarrow> world \<Rightarrow> ((js_exn + remote_file) \<times> world) option" where
  "waitActive env apiKey fileName timeoutMs intervalMs w =
     waitActive_loop env apiKey fileName timeoutMs intervalMs (clock w) w"

fun copy_loop ::
  "env \<Rightarrow> string \<Rightarrow> string list \<Rightarrow> string list \<Rightarrow> world \<Rightarrow> (js_exn + string list) \<times> world" where
  "copy_loop env uploadsFolder [] copiedFiles w = (Inr copiedFiles, w)"
| "copy_loop env uploadsFolder (filePath # rest) copiedFiles w =
     (let normalizedFilePath = normalizePath filePath;
          fileName = path_basename env normalizedFilePath;
          destPath = path_join env uploadsFolder fileName
      in case copyFile env normalizedFilePath destPath w of
           Inl e \<Rightarrow> (Inl e, w)
         | Inr w1 \<Rightarrow> copy_loop env uploadsFolder rest (copiedFiles @ [destPath]) w1)"

definition copyFilesToUploadsFolder ::
  "env \<Rightarrow> string list \<Rightarrow> string \<Rightarrow> world \<Rightarrow> (js_exn + string list) \<times> world" where
  "copyFilesToUploadsFolder env filePaths projectRoot w =
     (let uploadsFolder = getUploadsFolderPath env projectRoot in
      if \<not> existsSync w uploadsFolder then
        (case mkdirSync env uploadsFolder w of
           Inl e \<Rightarrow> (Inl e, w)
         | Inr w1 \<Rightarrow> copy_loop env uploadsFolder filePaths [] w1)
      else copy_loop env uploadsFolder filePaths [] w)"

text \<open>Each deletion has its own try and catch: a failure is logged and the loop goes on.\<close>

fun cleanupUploadsFolder :: "env \<Rightarrow> string list \<Rightarrow> world \<Rightarrow> world" where
  "cleanupUploadsFolder env [] w = w"
| "cleanupUploadsFolder env (filePath # rest) w =
     (if existsSync w filePath then
        (case unlink env filePath w of
           Inl e \<Rightarrow> cleanupUploadsFolder env rest w
         | Inr w1 \<Rightarrow> cleanupUploadsFolder env rest w1)
      else cleanupUploadsFolder env rest w)"

fun upload_loop ::
  "env \<Rightarrow> string \<Rightarrow> string list \<Rightarrow> remote_file list \<Rightarrow> world
     \<Rightarrow> ((js_exn + remote_file list) \<times> world) option" where
  "upload_loop env apiKey [] uploaded w = Some (Inr uploaded, w)"
| "upload_loop env apiKey (localPath # rest) uploaded w =
     (let mimeType = js_or_default (mime_lookup env localPath) ''application/octet-stream'';
          displayName = path_basename env localPath;
          (r, w1) = ai_files_upload env apiKey localPath mimeType displayName w
      in case r of
           Inl e \<Rightarrow> Some (Inl e, w1)
         | Inr file \<Rightarrow>
             (let fileName = js_or_default (rf_name file) [] in
              if fileName = [] then
                Some (Inl (Error (''Upload failed for '' @ displayName @
                                  '': no file name returned'')), w1)
              else
                (case waitActive env apiKey fileName TIMEOUT_MS POLL_INTERVAL_MS w1 of
                   None \<Rightarrow> None
                 | Some (Inl e, w2) \<Rightarrow> Some (Inl e, w2)
                 | Some (Inr active, w2) \<Rightarrow>
                     upload_loop env apiKey rest (uploaded @ [active]) w2)))"

definition uploadAndGenerate ::
  "env \<Rightarrow> string list \<Rightarrow> string \<Rightarrow> string \<Rightarrow> string \<Rightarrow> string option \<Rightarrow> world
     \<Rightarrow> ((js_exn + string) \<times> world) option" where
  "uploadAndGenerate env filePaths prompt projectRoot model systemInstruction w =
     (case loadEnvApiKey env projectRoot w of
        (Inl e, w1) \<Rightarrow> Some (Inl e, w1)
      | (Inr apiKey, w1) \<Rightarrow>
          (case upload_loop env apiKey filePaths [] w1 of
             None \<Rightarrow> None
           | Some (Inl e, w2) \<Rightarrow> Some (Inl e, w2)
           | Some (Inr uploaded, w2) \<Rightarrow>
               (let fileParts =
                      map (\<lambda>f. (rf_uri f,
                                 js_or_default (rf_mimeType f) ''application/octet-stream''))
                        uploaded;
                    requestConfig =
                      \<lparr>rq_model = model, rq_text = prompt, rq_fileParts = fileParts,
                       rq_systemInstruction =
                         (if truthy systemInstruction then systemInstruction else None)\<rparr>;
                    (r, w3) = ai_models_generateContent env apiKey requestConfig w2
                in case r of
                     Inl e \<Rightarrow> Some (Inl e, w3)
                   | Inr text \<Rightarrow> Some (Inr (case text of None \<Rightarrow> [] | Some t \<Rightarrow> t), w3))))"

subsection \<open>The prompts\<close>

definition specification_task :: string where
  "specification_task =
   ''# Task\<newline>'' @
   ''\<newline>'' @
   ''Based on the source documents and following the guidelines in the prompting documents, create a detailed game specification in Markdown format. The specification should include:\<newline>'' @
   ''\<newline>'' @
   ''1. **Game Overview**: Summary of the game concept and learning objectives\<newline>'' @
   ''2. **Game Mechanics**: Detailed description of how the game works\<newline>'' @
   ''3. **Content Integration**: How source document content is integrated into gameplay\<newline>'' @
   ''4. **Player Experience**: Expected player interactions and progression\<newline>'' @
   ''5. **Technical Requirements**: Any technical specifications needed for implementation\<newline>'' @
   ''6. **Success Criteria**: How to measure if the game achieves its objectives\<newline>'' @
   ''\<newline>'' @
   ''Please provide a complete, well-structured game specification document.''"

definition implementation_files :: string where
  "implementation_files =
   ''Please provide all necessary files for a working SOLUZION game, including:\<newline>'' @
   ''1. Main game logic files\<newline>'' @
   ''2. Content/data files\<newline>'' @
   ''3. Configuration files\<newline>'' @
   ''4. Any supporting assets or resources\<newline>'' @
   ''5. README with setup and usage instructions\<newline>'' @
   ''\<newline>'' @
   ''Format your response as a structured set of files that can be packaged into a zip archive.''"

definition quoted :: "string \<Rightarrow> string" where
  "quoted s = [CHR 0x22] @ s @ [CHR 0x22]"

definition gemini_specification_prompt :: "string \<Rightarrow> nat \<Rightarrow> nat \<Rightarrow> string" where
  "gemini_specification_prompt projectName sourceCount promptingCount =
   ''You are tasked with creating a game specification for the project '' @
   quoted projectName @ ''.\<newline>'' @
   ''\<newline>'' @
   ''The files uploaded include:\<newline>'' @
   ''- Source documents ('' @ string_of_nat sourceCount @
   '' files): These provide the context and content for the game\<newline>'' @
   ''- Prompting/Guideline documents ('' @ string_of_nat promptingCount @
   '' files): These provide guidelines and instructions\<newline>'' @
   ''\<newline>'' @
   specification_task"

definition gemini_specification_system :: string where
  "gemini_specification_system =
   ''You are an expert game designer specializing in educational gamification. You create engaging, pedagogically sound game specifications that transform academic content into interactive learning experiences.''"

definition gemini_implementation_prompt :: "string \<Rightarrow> string" where
  "gemini_implementation_prompt projectName =
   ''You are tasked with implementing a SOLUZION game for the project '' @
   quoted projectName @ ''.\<newline>'' @
   ''\<newline>'' @
   ''The uploaded files contain game specification(s) that describe the game to be implemented.\<newline>'' @
   ''\<newline>'' @
   ''# Task\<newline>'' @
   ''\<newline>'' @
   ''Based on the game specification(s), create a complete SOLUZION game implementation.\<newline>'' @
   ''\<newline>'' @
   implementation_files"

definition gemini_implementation_system :: string where
  "gemini_implementation_system =
   ''You are an expert SOLUZION game developer. You create complete, functional game implementations based on specifications, with clean code and clear documentation.''"

subsection \<open>The two operations\<close>

record GenerationResult =
  success :: bool
  outputPath :: "string option"
  error :: "string option"

text \<open>
  The body of the \<open>try\<close> block. Next to its outcome (the path written, or the value
  thrown) it returns the local variable \<open>copiedFiles\<close> as the \<open>catch\<close> block finds it: the
  variable is assigned only when \<open>copyFilesToUploadsFolder\<close> has returned.
\<close>

definition GeminiService_generateGameSpecification_try ::
  "env \<Rightarrow> string list \<Rightarrow> string list \<Rightarrow> string \<Rightarrow> string \<Rightarrow> string \<Rightarrow> world
     \<Rightarrow> ((js_exn + string) \<times> string list \<times> world) option" where
  "GeminiService_generateGameSpecification_try env sourceDocuments promptingDocuments
       outputDirectory projectName model w =
     (case findProjectRoot env w outputDirectory of
        Inl e \<Rightarrow> Some (Inl e, [], w)
      | Inr projectRoot \<Rightarrow>
          (let allFiles = sourceDocuments @ promptingDocuments in
           case copyFilesToUploadsFolder env allFiles projectRoot w of
             (Inl e, w1) \<Rightarrow> Some (Inl e, [], w1)
           | (Inr copiedFiles, w1) \<Rightarrow>
               (let prompt = gemini_specification_prompt projectName
                               (length sourceDocuments) (length promptingDocuments);
                    systemInstruction = gemini_specification_system
                in case uploadAndGenerate env copiedFiles prompt projectRoot model
                          (Some systemInstruction) w1 of
                     None \<Rightarrow> None
                   | Some (Inl e, w2) \<Rightarrow> Some (Inl e, copiedFiles, w2)
                   | Some (Inr result, w2) \<Rightarrow>
                       (let outputFileName =
                              projectName @ ''-spec-'' @ timestamp env w2 @ ''.md'';
                            outputPath = path_join env outputDirectory outputFileName
                        in case writeFile env outputPath result w2 of
                             Inl e \<Rightarrow> Some (Inl e, copiedFiles, w2)
                           | Inr w3 \<Rightarrow>
                               Some (Inr outputPath, copiedFiles,
                                     cleanupUploadsFolder env copiedFiles w3)))))"

definition GeminiService_generateGameSpecification ::
  "env \<Rightarrow> string list \<Rightarrow> string list \<Rightarrow> string \<Rightarrow> string \<Rightarrow> string \<Rightarrow> world
     \<Rightarrow> (GenerationResult \<times> world) option" where
  "GeminiService_generateGameSpecification env sourceDocuments promptingDocuments
       outputDirectory projectName model w =
     (case GeminiService_generateGameSpecification_try env sourceDocuments promptingDocuments
             outputDirectory projectName model w of
        None \<Rightarrow> None
      | Some (Inr path, copiedFiles, w1) \<Rightarrow>
          Some (\<lparr>success = True, outputPath = Some path, error = None\<rparr>, w1)
      | Some (Inl e, copiedFiles, w1) \<Rightarrow>
          Some (\<lparr>success = False, outputPath = None, error = Some (errorMessage e)\<rparr>,
                if copiedFiles \<noteq> [] then cleanupUploadsFolder env copiedFiles w1 else w1))"

definition GeminiService_implementGame_try ::
  "env \<Rightarrow> string list \<Rightarrow> string \<Rightarrow> string \<Rightarrow> string \<Rightarrow> world
     \<Rightarrow> ((js_exn + string) \<times> string list \<times> world) option" where
  "GeminiService_implementGame_try env gameSpecifications outputDirectory projectName model w =
     (case findProjectRoot env w outputDirectory of
        Inl e \<Rightarrow> Some (Inl e, [], w)
      | Inr projectRoot \<Rightarrow>
          (case copyFilesToUploadsFolder env gameSpecifications projectRoot w of
             (Inl e, w1) \<Rightarrow> Some (Inl e, [], w1)
           | (Inr copiedFiles, w1) \<Rightarrow>
               (let prompt = gemini_implementation_prompt projectName;
                    systemInstruction = gemini_implementation_system
                in case uploadAndGenerate env copiedFiles prompt projectRoot model
                          (Some systemInstruction) w1 of
                     None \<Rightarrow> None
                   | Some (Inl e, w2) \<Rightarrow> Some (Inl e, copiedFiles, w2)
                   | Some (Inr result, w2) \<Rightarrow>
                       (let outputFileName =
                              projectName @ ''-game-'' @ timestamp env w2 @ ''.txt'';
                            outputPath = path_join env outputDirectory outputFileName
                        in case writeFile env outputPath result w2 of
                             Inl e \<Rightarrow> Some (Inl e, copiedFiles, w2)
                           | Inr w3 \<Rightarrow>
                               Some (Inr outputPath, copiedFiles,
                                     cleanupUploadsFolder env copiedFiles w3)))))"

definition GeminiService_implementGame ::
  "env \<Rightarrow> string list \<Rightarrow> string \<Rightarrow> string \<Rightarrow> string \<Rightarrow> world
     \<Rightarrow> (GenerationResult \<times> world) option" where
  "GeminiService_implementGame env gameSpecifications outputDirectory projectName model w =
     (case GeminiService_implementGame_try env gameSpecifications outputDirectory
             projectName model w of
        None \<Rightarrow> None
      | Some (Inr path, copiedFiles, w1) \<Rightarrow>
          Some (\<lparr>success = True, outputPath = Some path, error = None\<rparr>, w1)
      | Some (Inl e, copiedFiles, w1) \<Rightarrow>
          Some (\<lparr>success = False, outputPath = None, error = Some (errorMessage e)\<rparr>,
                if copiedFiles \<noteq> [] then cleanupUploadsFolder env copiedFiles w1 else w1))"

section \<open>ClaudeService\<close>

text \<open>
  \<open>Promise.all\<close> over the documents: each is read and rendered as a block, and the blocks
  keep the order of the input. Of several failing reads the model throws the first in the
  list; at run time it is the one that fails first.
\<close>

definition document_block :: "env \<Rightarrow> string \<Rightarrow> string \<Rightarrow> string \<Rightarrow> string" where
  "document_block env kind filePath content =
     ''### '' @ kind @ '': '' @ path_basename env filePath @ ''\<newline>\<newline>'' @ content"

fun read_documents :: "env \<Rightarrow> world \<Rightarrow> string \<Rightarrow> string list \<Rightarrow> js_exn + string list" where
  "read_documents env w kind [] = Inr []"
| "read_documents env w kind (filePath # rest) =
     (case readFile env w filePath of
        Inl e \<Rightarrow> Inl e
      | Inr content \<Rightarrow>
          (case read_documents env w kind rest of
             Inl e \<Rightarrow> Inl e
           | Inr blocks \<Rightarrow> Inr (document_block env kind filePath content # blocks)))"

definition block_separator :: string where
  "block_separator = ''\<newline>\<newline>---\<newline>\<newline>''"

text \<open>The two templates, with their fixed text named: what stands before the first
  group of blocks, between the groups, and after the last.\<close>

definition specification_head :: "string \<Rightarrow> string" where
  "specification_head projectName =
   ''You are tasked with creating a game specification for the project '' @
   quoted projectName @ ''.\<newline>'' @
   ''\<newline>'' @
   ''# Source Documents\<newline>'' @
   ''\<newline>'' @
   ''The following source documents provide the context and content for the game:\<newline>'' @
   ''\<newline>''"

definition specification_middle :: string where
  "specification_middle =
   ''\<newline>'' @
   ''\<newline>'' @
   ''# Prompting/Guideline Documents\<newline>'' @
   ''\<newline>'' @
   ''The following documents provide guidelines and instructions for creating the game specification:\<newline>'' @
   ''\<newline>''"

definition specification_tail :: string where
  "specification_tail =
   ''\<newline>'' @
   ''\<newline>'' @
   specification_task"

definition buildSpecificationPrompt :: "string list \<Rightarrow> string list \<Rightarrow> string \<Rightarrow> string" where
  "buildSpecificationPrompt sourceContents promptingContents projectName =
   specification_head projectName @
   js_join block_separator sourceContents @
   specification_middle @
   js_join block_separator promptingContents @
   specification_tail"

definition implementation_head :: "string \<Rightarrow> string" where
  "implementation_head projectName =
   ''You are tasked with implementing a SOLUZION game for the project '' @
   quoted projectName @ ''.\<newline>'' @
   ''\<newline>'' @
   ''# Game Specifications\<newline>'' @
   ''\<newline>''"

definition implementation_tail :: string where
  "implementation_tail =
   ''\<newline>'' @
   ''\<newline>'' @
   ''# Task\<newline>'' @
   ''\<newline>'' @
   ''Based on the game specification(s) above, create a complete SOLUZION game implementation.\<newline>'' @
   ''\<newline>'' @
   implementation_files"

definition buildImplementationPrompt :: "string list \<Rightarrow> string \<Rightarrow> string" where
  "buildImplementationPrompt specContents projectName =
   implementation_head projectName @
   js_join block_separator specContents @
   implementation_tail"

subsection \<open>The direct providers\<close>

text \<open>\<open>!apiKey || apiKey.trim() === ''\<close>\<close>

definition credential_missing :: "string option \<Rightarrow> bool" where
  "credential_missing apiKey = (\<not> truthy apiKey \<or> js_trim (js_or_default apiKey []) = [])"

definition anthropic_key_error :: js_exn where
  "anthropic_key_error = Error ''Anthropic API key not configured. Please set it in Settings: Gamification Dashboard > Anthropic Api Key. Get your API key from https://console.anthropic.com/''"

definition google_key_error :: js_exn where
  "google_key_error = Error ''Google API key not configured. Please set it in Settings: Gamification Dashboard > Google Api Key. Get your API key from https://aistudio.google.com/apikey''"

definition openai_key_error :: js_exn where
  "openai_key_error = Error ''OpenAI API key not configured. Please set it in Settings: Gamification Dashboard > Openai Api Key. Get your API key from https://platform.openai.com/api-keys''"

definition block_text :: "content_block \<Rightarrow> string" where
  "block_text block = (case block of TextBlock t \<Rightarrow> t | OtherBlock \<Rightarrow> [])"

definition sendToAnthropic :: "env \<Rightarrow> string \<Rightarrow> string \<Rightarrow> world \<Rightarrow> (js_exn + string) \<times> world" where
  "sendToAnthropic env prompt model w =
     (case getConfiguration env w of
        Inl e \<Rightarrow> (Inl e, w)
      | Inr config \<Rightarrow>
          (let apiKey = anthropicApiKey config in
           if credential_missing apiKey then (Inl anthropic_key_error, w)
           else
             (let w1 = w\<lparr>net_log := net_log w @
                         [AnthropicMessagesCreate (js_or_default apiKey []) model 8192 prompt]\<rparr>
              in case anthropic_messages_create env w1 model prompt of
                   Inl e \<Rightarrow> (Inl e, w1)
                 | Inr content \<Rightarrow> (Inr (concat (map block_text content)), w1))))"

definition sendToGoogle :: "env \<Rightarrow> string \<Rightarrow> string \<Rightarrow> world \<Rightarrow> (js_exn + string) \<times> world" where
  "sendToGoogle env prompt model w =
     (case getConfiguration env w of
        Inl e \<Rightarrow> (Inl e, w)
      | Inr config \<Rightarrow>
          (let apiKey = googleApiKey config in
           if credential_missing apiKey then (Inl google_key_error, w)
           else
             (let w1 = w\<lparr>net_log := net_log w @
                         [GoogleGenerateContent (js_or_default apiKey []) model prompt]\<rparr>
              in case google_generateContent env w1 model prompt of
                   Inl e \<Rightarrow> (Inl e, w1)
                 | Inr text \<Rightarrow> (Inr text, w1))))"

text \<open>The answer of the chat completion is the list of the contents of its choices;
  the code takes \<open>completion.choices[0]?.message?.content || ''\<close>.\<close>

definition sendToOpenAI :: "env \<Rightarrow> string \<Rightarrow> string \<Rightarrow> world \<Rightarrow> (js_exn + string) \<times> world" where
  "sendToOpenAI env prompt model w =
     (case getConfiguration env w of
        Inl e \<Rightarrow> (Inl e, w)
      | Inr config \<Rightarrow>
          (let apiKey = openaiApiKey config in
           if credential_missing apiKey then (Inl openai_key_error, w)
           else
             (let w1 = w\<lparr>net_log := net_log w @
                         [OpenAIChatCreate (js_or_default apiKey []) model prompt 8192]\<rparr>
              in case openai_chat_create env w1 model prompt of
                   Inl e \<Rightarrow> (Inl e, w1)
                 | Inr choices \<Rightarrow>
                     (Inr (case choices of
                             [] \<Rightarrow> []
                           | content # others \<Rightarrow> js_or_default content []), w1))))"

definition sendToAI_try :: "env \<Rightarrow> string \<Rightarrow> world \<Rightarrow> (js_exn + string) \<times> world" where
  "sendToAI_try env prompt w =
     (case getConfiguration env w of
        Inl e \<Rightarrow> (Inl e, w)
      | Inr config \<Rightarrow>
          (let provider = js_or_default (aiProvider config) ''anthropic'';
               model = js_or_default (aiModel config) ''claude-3-5-sonnet-20241022''
           in if provider = ''anthropic'' then sendToAnthropic env prompt model w
              else if provider = ''google'' then sendToGoogle env prompt model w
              else if provider = ''openai'' then sendToOpenAI env prompt model w
              else (Inl (Error (''Unknown AI provider: '' @ provider)), w)))"

definition sendToAI :: "env \<Rightarrow> string \<Rightarrow> world \<Rightarrow> (js_exn + string) \<times> world" where
  "sendToAI env prompt w =
     (case sendToAI_try env prompt w of
        (Inl e, w1) \<Rightarrow>
          (Inl (Error (''Failed to communicate with AI: '' @ errorMessage e)), w1)
      | (Inr text, w1) \<Rightarrow> (Inr text, w1))"

subsection \<open>The prompt of a request\<close>

text \<open>The statements of the two operations that read the documents and build the prompt.\<close>

definition specification_prompt ::
  "env \<Rightarrow> world \<Rightarrow> string list \<Rightarrow> string list \<Rightarrow> string \<Rightarrow> js_exn + string" where
  "specification_prompt env w sourceDocuments promptingDocuments projectName =
     (case read_documents env w ''Source Document'' sourceDocuments of
        Inl e \<Rightarrow> Inl e
      | Inr sourceContents \<Rightarrow>
          (case read_documents env w ''Prompting Document'' promptingDocuments of
             Inl e \<Rightarrow> Inl e
           | Inr promptingContents \<Rightarrow>
               Inr (buildSpecificationPrompt sourceContents promptingContents projectName)))"

definition implementation_prompt ::
  "env \<Rightarrow> world \<Rightarrow> string list \<Rightarrow> string \<Rightarrow> js_exn + string" where
  "implementation_prompt env w gameSpecifications projectName =
     (case read_documents env w ''Game Specification'' gameSpecifications of
        Inl e \<Rightarrow> Inl e
      | Inr specContents \<Rightarrow> Inr (buildImplementationPrompt specContents projectName))"

subsection \<open>The two public operations\<close>

text \<open>
  The body of the \<open>try\<close> block returns either a thrown value or the result it returns:
  for the provider \<open>google\<close> that is the result of \<open>GeminiService\<close>, failures included.
\<close>

definition ClaudeService_generateGameSpecification_try ::
  "env \<Rightarrow> string list \<Rightarrow> string list \<Rightarrow> string \<Rightarrow> string \<Rightarrow> world
     \<Rightarrow> ((js_exn + GenerationResult) \<times> world) option" where
  "ClaudeService_generateGameSpecification_try env sourceDocuments promptingDocuments
       outputDirectory projectName w =
     (case getConfiguration env w of
        Inl e \<Rightarrow> Some (Inl e, w)
      | Inr config \<Rightarrow>
          (let provider = js_or_default (aiProvider config) ''anthropic'';
               model = js_or_default (aiModel config) ''gemini-2.5-flash''
           in if provider = ''google'' then
                (let geminiModel =
                       (if js_includes model ''gemini'' then model else ''gemini-2.5-flash'')
                 in case GeminiService_generateGameSpecification env sourceDocuments
                           promptingDocuments outputDirectory projectName geminiModel w of
                      None \<Rightarrow> None
                    | Some (res, w1) \<Rightarrow> Some (Inr res, w1))
              else
                (case specification_prompt env w sourceDocuments promptingDocuments
                        projectName of
                   Inl e \<Rightarrow> Some (Inl e, w)
                 | Inr prompt \<Rightarrow>
                     (case sendToAI env prompt w of
                        (Inl e, w1) \<Rightarrow> Some (Inl e, w1)
                      | (Inr result, w1) \<Rightarrow>
                          (let outputFileName =
                                 projectName @ ''-spec-'' @ timestamp env w1 @ ''.md'';
                               outputPath = path_join env outputDirectory outputFileName
                           in case writeFile env outputPath result w1 of
                                Inl e \<Rightarrow> Some (Inl e, w1)
                              | Inr w2 \<Rightarrow>
                                  Some (Inr \<lparr>success = True,
                                             outputPath = Some outputPath,
                                             error = None\<rparr>, w2))))))"

definition ClaudeService_generateGameSpecification ::
  "env \<Rightarrow> string list \<Rightarrow> string list \<Rightarrow> string \<Rightarrow> string \<Rightarrow> world
     \<Rightarrow> (GenerationResult \<times> world) option" where
  "ClaudeService_generateGameSpecification env sourceDocuments promptingDocuments
       outputDirectory projectName w =
     (case ClaudeService_generateGameSpecification_try env sourceDocuments promptingDocuments
             outputDirectory projectName w of
        None \<Rightarrow> None
      | Some (Inr res, w1) \<Rightarrow> Some (res, w1)
      | Some (Inl e, w1) \<Rightarrow>
          Some (\<lparr>success = False, outputPath = None, error = Some (errorMessage e)\<rparr>, w1))"

definition ClaudeService_implementGame_try ::
  "env \<Rightarrow> string list \<Rightarrow> string \<Rightarrow> string \<Rightarrow> world
     \<Rightarrow> ((js_exn + GenerationResult) \<times> world) option" where
  "ClaudeService_implementGame_try env gameSpecifications outputDirectory projectName w =
     (case getConfiguration env w of
        Inl e \<Rightarrow> Some (Inl e, w)
      | Inr config \<Rightarrow>
          (let provider = js_or_default (aiProvider config) ''anthropic'';
               model = js_or_default (aiModel config) ''gemini-2.5-flash''
           in if provider = ''google'' then
                (let geminiModel =
                       (if js_includes model ''gemini'' then model else ''gemini-2.5-flash'')
                 in case GeminiService_implementGame env gameSpecifications outputDirectory
                           projectName geminiModel w of
                      None \<Rightarrow> None
                    | Some (res, w1) \<Rightarrow> Some (Inr res, w1))
              else
                (case implementation_prompt env w gameSpecifications projectName of
                   Inl e \<Rightarrow> Some (Inl e, w)
                 | Inr prompt \<Rightarrow>
                     (case sendToAI env prompt w of
                        (Inl e, w1) \<Rightarrow> Some (Inl e, w1)
                      | (Inr result, w1) \<Rightarrow>
                          (let outputFileName =
                                 projectName @ ''-game-'' @ timestamp env w1 @ ''.zip'';
                               outputPath = path_join env outputDirectory outputFileName
                           in case writeFile env (js_replace outputPath ''.zip'' ''.txt'')
                                     result w1 of
                                Inl e \<Rightarrow> Some (Inl e, w1)
                              | Inr w2 \<Rightarrow>
                                  Some (Inr \<lparr>success = True,
                                             outputPath =
                                               Some (js_replace outputPath ''.zip'' ''.txt''),
                                             error = None\<rparr>, w2))))))"

definition ClaudeService_implementGame ::
  "env \<Rightarrow> string list \<Rightarrow> string \<Rightarrow> string \<Rightarrow> world \<Rightarrow> (GenerationResult \<times> world) option" where
  "ClaudeService_implementGame env gameSpecifications outputDirectory projectName w =
     (case ClaudeService_implementGame_try env gameSpecifications outputDirectory
             projectName w of
        None \<Rightarrow> None
      | Some (Inr res, w1) \<Rightarrow> Some (res, w1)
      | Some (Inl e, w1) \<Rightarrow>
          Some (\<lparr>success = False, outputPath = None, error = Some (errorMessage e)\<rparr>, w1))"

section \<open>An environment for the examples\<close>

text \<open>
  The examples run on absolute paths without dot segments or a trailing slash, where
  these three functions agree with Node's \<open>path.join\<close>, \<open>path.dirname\<close> and
  \<open>path.basename\<close>. The file \<open>.env\<close> holds one line, and the clock reads one instant.
\<close>

definition simple_join :: "string \<Rightarrow> string \<Rightarrow> string" where
  "simple_join a b = (if a \<noteq> [] \<and> last a = CHR ''/'' then a @ b else a @ ''/'' @ b)"

definition simple_dirname :: "string \<Rightarrow> string" where
  "simple_dirname p =
     (let r = dropWhile (\<lambda>c. c \<noteq> CHR ''/'') (rev p)
      in if r = [] then ''.'' else if tl r = [] then ''/'' else rev (tl r))"

definition simple_basename :: "string \<Rightarrow> string" where
  "simple_basename p = rev (takeWhile (\<lambda>c. c \<noteq> CHR ''/'') (rev p))"

definition one_line_parse :: "string \<Rightarrow> (string \<times> string) list" where
  "one_line_parse content =
     [(takeWhile (\<lambda>c. c \<noteq> CHR ''='') content, drop 1 (dropWhile (\<lambda>c. c \<noteq> CHR ''='') content))]"

definition no_config :: config where
  "no_config = \<lparr>aiProvider = None, aiModel = None, anthropicApiKey = None,
                 googleApiKey = None, openaiApiKey = None\<rparr>"

definition active_file :: "string \<Rightarrow> remote_file" where
  "active_file n = \<lparr>rf_name = Some n, rf_state = Some ''ACTIVE'', rf_status = None,
                     rf_uri = Some (''https://files/'' @ n), rf_mimeType = Some ''text/markdown''\<rparr>"

definition pending_file :: "string \<Rightarrow> remote_file" where
  "pending_file n = \<lparr>rf_name = Some n, rf_state = Some ''PROCESSING'', rf_status = None,
                      rf_uri = None, rf_mimeType = None\<rparr>"

definition example_env :: env where
  "example_env =
     \<lparr>path_join = simple_join, path_dirname = simple_dirname, path_basename = simple_basename,
      mime_lookup = (\<lambda>p. None),
      toISOString = (\<lambda>t. ''2025-01-02T03:04:05.678Z''),
      dotenv_parse = one_line_parse,
      getConfiguration = (\<lambda>w. Inr no_config),
      readFile_fault = (\<lambda>w p. None),
      mkdir_fault = (\<lambda>w p. None),
      copyFile_fault = (\<lambda>w src dst. None),
      unlink_fault = (\<lambda>w p. None),
      writeFile_fault = (\<lambda>w p. None),
      files_upload = (\<lambda>w file mimeType displayName. Inr (pending_file (''files/'' @ displayName))),
      files_get = (\<lambda>w n. Inr (active_file n)),
      files_get_ms = (\<lambda>w n. 0),
      models_generateContent = (\<lambda>w rq. Inr (Some ''# Game'')),
      anthropic_messages_create = (\<lambda>w model prompt. Inr [TextBlock ''# Game'']),
      google_generateContent = (\<lambda>w model prompt. Inr ''# Game''),
      openai_chat_create = (\<lambda>w model prompt. Inr [Some ''# Game''])\<rparr>"

definition example_world :: world where
  "example_world =
     \<lparr>fs_files = [''/proj/.env'' \<mapsto> ''GEMINI_API_KEY=k1'', ''/docs/a.md'' \<mapsto> ''alpha'',
                  ''/docs/b.md'' \<mapsto> ''beta''],
      fs_dirs = [''/'', ''/proj'', ''/proj/out'', ''/docs''],
      fs_writes = [],
      process_env = Map.empty,
      clock = 1000,
      remote_store = [],
      net_log = []\<rparr>"

text \<open>A remote file that stays in processing, with status queries of five seconds each;
  and a status query that fails while the clock is before 2000, then reports \<open>ACTIVE\<close>.\<close>

definition slow_env :: env where
  "slow_env = example_env\<lparr>files_get := (\<lambda>w n. Inr (pending_file n)),
                          files_get_ms := (\<lambda>w n. 5000)\<rparr>"

definition flaky_env :: env where
  "flaky_env = example_env\<lparr>files_get :=
     (\<lambda>w n. if clock w < 2000 then Inl (Error ''ECONNRESET'') else Inr (active_file n))\<rparr>"

text \<open>Settings for the direct providers: a key for Anthropic, the default provider; a
  key of two spaces for OpenAI; and a keyed OpenAI that answers with no choice at all.\<close>

definition anthropic_env :: env where
  "anthropic_env =
     example_env\<lparr>getConfiguration := (\<lambda>w. Inr (no_config\<lparr>anthropicApiKey := Some ''sk-a''\<rparr>))\<rparr>"

definition blank_key_env :: env where
  "blank_key_env =
     example_env\<lparr>getConfiguration :=
       (\<lambda>w. Inr (no_config\<lparr>aiProvider := Some ''openai'', openaiApiKey := Some ''  ''\<rparr>))\<rparr>"

definition empty_answer_env :: env where
  "empty_answer_env =
     example_env\<lparr>getConfiguration :=
                   (\<lambda>w. Inr (no_config\<lparr>aiProvider := Some ''openai'',
                                         openaiApiKey := Some ''sk-o''\<rparr>)),
                 openai_chat_create := (\<lambda>w model prompt. Inr [])\<rparr>"

text \<open>A credential that is absent, empty or made of white space only.\<close>

definition blank_credential :: "string option \<Rightarrow> bool" where
  "blank_credential apiKey = (case apiKey of None \<Rightarrow> True | Some s \<Rightarrow> list_all js_whitespace s)"

text \<open>A later state of the disk and the network, with the same documents.\<close>

definition later_world :: world where
  "later_world =
     example_world\<lparr>fs_files := (fs_files example_world)(''/docs/c.md'' \<mapsto> ''gamma''),
                   clock := 5000,
                   net_log := [FilesGet ''k1'' ''files/a.md'']\<rparr>"

text \<open>A disk where the staging folder exists and holds a file under the name of a
  document; and a deletion that always throws.\<close>

definition stale_world :: world where
  "stale_world =
     example_world\<lparr>fs_files := (fs_files example_world)(''/proj/uploads-to-GenAI/a.md'' \<mapsto> ''stale''),
                   fs_dirs := fs_dirs example_world @ [''/proj/uploads-to-GenAI'']\<rparr>"

definition busy_env :: env where
  "busy_env = example_env\<lparr>unlink_fault := (\<lambda>w p. Some (Error ''EBUSY: resource busy or locked''))\<rparr>"

text \<open>Faults for the stages of a request: settings that cannot be read, a provider call
  that throws, an upload that throws, a remote file reported as \<open>FAILED\<close>, a generation
  call that throws, and a file \<open>.env\<close> without a key.\<close>

definition failed_file :: "string \<Rightarrow> remote_file" where
  "failed_file n = \<lparr>rf_name = Some n, rf_state = Some ''FAILED'', rf_status = None,
                     rf_uri = None, rf_mimeType = None\<rparr>"

definition settings_fault_env :: env where
  "settings_fault_env =
     example_env\<lparr>getConfiguration := (\<lambda>w. Inl (Error ''settings unavailable''))\<rparr>"

definition provider_fault_env :: env where
  "provider_fault_env =
     anthropic_env\<lparr>anthropic_messages_create := (\<lambda>w model prompt. Inl (Error ''overloaded''))\<rparr>"

definition upload_fault_env :: env where
  "upload_fault_env =
     example_env\<lparr>files_upload :=
       (\<lambda>w file mimeType displayName. Inl (Error ''quota exceeded''))\<rparr>"

definition rejecting_env :: env where
  "rejecting_env = example_env\<lparr>files_get := (\<lambda>w n. Inr (failed_file n))\<rparr>"

definition generate_fault_env :: env where
  "generate_fault_env =
     example_env\<lparr>models_generateContent := (\<lambda>w rq. Inl (Error ''internal error''))\<rparr>"

definition keyless_world :: world where
  "keyless_world =
     example_world\<lparr>fs_files := (fs_files example_world)(''/proj/.env'' \<mapsto> ''OTHER=x'')\<rparr>"


section \<open>Predicates and shapes used by the theorems\<close>

text \<open>A step that writes no artifact and adds \<open>n\<close> files to the remote store, removing
  none.\<close>

definition uploaded_only :: "nat \<Rightarrow> world \<Rightarrow> world \<Rightarrow> bool" where
  "uploaded_only n w w' =
     (fs_writes w' = fs_writes w \<and>
      (\<exists>created. remote_store w' = remote_store w @ created \<and> length created = n))"

text \<open>The common shape of the two operations of \<open>GeminiService\<close>, which differ in the
  files, the prompt, the system instruction and the file name; and of their \<open>catch\<close>
  blocks.\<close>

definition gemini_request ::
  "env \<Rightarrow> string list \<Rightarrow> string \<Rightarrow> string \<Rightarrow> string \<Rightarrow> (string \<Rightarrow> string) \<Rightarrow> string \<Rightarrow> world
     \<Rightarrow> ((js_exn + string) \<times> string list \<times> world) option" where
  "gemini_request env files prompt systemInstruction outputDirectory fileName model w =
     (case findProjectRoot env w outputDirectory of
        Inl e \<Rightarrow> Some (Inl e, [], w)
      | Inr projectRoot \<Rightarrow>
          (case copyFilesToUploadsFolder env files projectRoot w of
             (Inl e, w1) \<Rightarrow> Some (Inl e, [], w1)
           | (Inr copiedFiles, w1) \<Rightarrow>
               (case uploadAndGenerate env copiedFiles prompt projectRoot model
                       (Some systemInstruction) w1 of
                  None \<Rightarrow> None
                | Some (Inl e, w2) \<Rightarrow> Some (Inl e, copiedFiles, w2)
                | Some (Inr result, w2) \<Rightarrow>
                    (case writeFile env
                            (path_join env outputDirectory (fileName (timestamp env w2)))
                            result w2 of
                       Inl e \<Rightarrow> Some (Inl e, copiedFiles, w2)
                     | Inr w3 \<Rightarrow>
                         Some (Inr (path_join env outputDirectory (fileName (timestamp env w2))),
                               copiedFiles, cleanupUploadsFolder env copiedFiles w3)))))"

definition gemini_catch ::
  "env \<Rightarrow> ((js_exn + string) \<times> string list \<times> world) option
     \<Rightarrow> (GenerationResult \<times> world) option" where
  "gemini_catch env run =
     (case run of
        None \<Rightarrow> None
      | Some (Inr path, copiedFiles, w1) \<Rightarrow>
          Some (\<lparr>success = True, outputPath = Some path, error = None\<rparr>, w1)
      | Some (Inl e, copiedFiles, w1) \<Rightarrow>
          Some (\<lparr>success = False, outputPath = None, error = Some (errorMessage e)\<rparr>,
                if copiedFiles \<noteq> [] then cleanupUploadsFolder env copiedFiles w1 else w1))"

text \<open>A result is a success with the path of the one artifact the request has written, or
  a failure with a message and no artifact written.\<close>

definition atomic_result :: "world \<Rightarrow> GenerationResult \<Rightarrow> world \<Rightarrow> bool" where
  "atomic_result w r w' =
     ((success r \<longleftrightarrow>
         (\<exists>path content. outputPath r = Some path \<and>
                          fs_writes w' = fs_writes w @ [(path, content)])) \<and>
      (\<not> success r \<longleftrightarrow> (\<exists>message. error r = Some message) \<and> fs_writes w' = fs_writes w) \<and>
      (outputPath r \<noteq> None \<longleftrightarrow> error r = None))"

text \<open>The common end of the two operations of \<open>ClaudeService\<close> for the direct providers:
  send the prompt, name the artifact, write it. And their \<open>catch\<close> blocks.\<close>

definition direct_request ::
  "env \<Rightarrow> string \<Rightarrow> (string \<Rightarrow> string) \<Rightarrow> world \<Rightarrow> ((js_exn + GenerationResult) \<times> world) option" where
  "direct_request env prompt path_of w =
     (case sendToAI env prompt w of
        (Inl e, w1) \<Rightarrow> Some (Inl e, w1)
      | (Inr result, w1) \<Rightarrow>
          (case writeFile env (path_of (timestamp env w1)) result w1 of
             Inl e \<Rightarrow> Some (Inl e, w1)
           | Inr w2 \<Rightarrow>
               Some (Inr \<lparr>success = True, outputPath = Some (path_of (timestamp env w1)),
                          error = None\<rparr>, w2)))"

definition claude_catch ::
  "((js_exn + GenerationResult) \<times> world) option \<Rightarrow> (GenerationResult \<times> world) option" where
  "claude_catch run =
     (case run of
        None \<Rightarrow> None
      | Some (Inr res, w1) \<Rightarrow> Some (res, w1)
      | Some (Inl e, w1) \<Rightarrow>
          Some (\<lparr>success = False, outputPath = None, error = Some (errorMessage e)\<rparr>, w1))"

text \<open>Where \<open>copyFilesToUploadsFolder\<close> puts the copies of the documents: the staging folder
  joined with the base name of each normalised path.\<close>

definition staged_paths :: "env \<Rightarrow> string \<Rightarrow> string list \<Rightarrow> string list" where
  "staged_paths env projectRoot filePaths =
     map (\<lambda>filePath. path_join env (getUploadsFolderPath env projectRoot)
                       (path_basename env (normalizePath filePath)))
       filePaths"

text \<open>Every file of the first state that is not in the set is a file of the second.\<close>

definition keeps_files :: "string set \<Rightarrow> world \<Rightarrow> world \<Rightarrow> bool" where
  "keeps_files S w w' = (\<forall>p. fs_files w p \<noteq> None \<and> p \<notin> S \<longrightarrow> fs_files w' p \<noteq> None)"

text \<open>The value that each \<open>catch\<close> block of the public operations builds from what was
  thrown; and the error that the \<open>catch\<close> block of \<open>sendToAI\<close> throws in its place.\<close>

definition failure_result :: "js_exn \<Rightarrow> GenerationResult" where
  "failure_result e = \<lparr>success = False, outputPath = None, error = Some (errorMessage e)\<rparr>"

definition communication_error :: "js_exn \<Rightarrow> js_exn" where
  "communication_error e = Error (''Failed to communicate with AI: '' @ errorMessage e)"

section \<open>The anchor directory\<close>

text \<open>The \<open>i\<close>-th ancestor of a directory, and the path probed at that level.\<close>

definition ancestor :: "env \<Rightarrow> string \<Rightarrow> nat \<Rightarrow> string" where
  "ancestor env d i = (path_dirname env ^^ i) d"

definition probe_path :: "env \<Rightarrow> string \<Rightarrow> nat \<Rightarrow> string" where
  "probe_path env d i = path_join env (ancestor env d i) ''.env''"

lemma funpow_fixed: "f d = d \<Longrightarrow> (f ^^ i) d = d"
  by (induction i) auto

lemma ancestor_0 [simp]: "ancestor env d 0 = d"
  by (simp add: ancestor_def)

lemma ancestor_Suc: "ancestor env d (Suc i) = ancestor env (path_dirname env d) i"
  by (simp add: ancestor_def funpow_swap1)

lemma probe_path_0 [simp]: "probe_path env d 0 = path_join env d ''.env''"
  by (simp add: probe_path_def)

lemma probe_path_Suc: "probe_path env d (Suc i) = probe_path env (path_dirname env d) i"
  by (simp add: probe_path_def ancestor_Suc)

lemma all_less_Suc: "(\<forall>i<Suc n. P i) \<longleftrightarrow> P 0 \<and> (\<forall>i<n. P (Suc i))"
  by (auto simp: less_Suc_eq_0_disj)

lemma loop_length: "length (fst (findProjectRoot_loop env w n d)) \<le> n"
proof (induction n arbitrary: d)
  case 0
  then show ?case by simp
next
  case (Suc n)
  from Suc [of "path_dirname env d"] show ?case
    by (simp add: Let_def case_prod_beta)
qed

lemma loop_nonempty: "0 < n \<Longrightarrow> 0 < length (fst (findProjectRoot_loop env w n d))"
  by (cases n) (simp_all add: Let_def case_prod_beta)

lemma loop_checked:
  "fst (findProjectRoot_loop env w n d) =
     map (probe_path env d) [0..<length (fst (findProjectRoot_loop env w n d))]"
proof (induction n arbitrary: d)
  case 0
  then show ?case by simp
next
  case (Suc n)
  have shift: "map (probe_path env d) [0..<Suc k] =
                 path_join env d ''.env'' # map (probe_path env (path_dirname env d)) [0..<k]" for k
    by (simp add: upt_rec [of 0 "Suc k"] map_Suc_upt [symmetric] probe_path_Suc del: upt_Suc)
  show ?case
    using Suc.IH [of "path_dirname env d"]
    by (simp add: Let_def shift case_prod_beta del: upt_Suc)
qed

lemma loop_None:
  "snd (findProjectRoot_loop env w n d) = None \<longleftrightarrow>
     (\<forall>i<n. \<not> existsSync w (probe_path env d i))"
proof (induction n arbitrary: d)
  case 0
  then show ?case by simp
next
  case (Suc n)
  show ?case
  proof (cases "path_dirname env d = d")
    case True
    then have "probe_path env d i = path_join env d ''.env''" for i
      by (simp add: probe_path_def ancestor_def funpow_fixed)
    with True show ?thesis by (auto simp: Let_def)
  next
    case False
    then show ?thesis
      using Suc.IH [of "path_dirname env d"]
      by (simp add: Let_def all_less_Suc probe_path_Suc case_prod_beta)
  qed
qed

lemma loop_Some:
  "snd (findProjectRoot_loop env w n d) = Some r \<Longrightarrow>
     \<exists>i<n. r = ancestor env d i \<and> existsSync w (probe_path env d i) \<and>
            (\<forall>j<i. \<not> existsSync w (probe_path env d j)) \<and>
            length (fst (findProjectRoot_loop env w n d)) = Suc i"
proof (induction n arbitrary: d)
  case 0
  then show ?case by simp
next
  case (Suc n)
  show ?case
  proof (cases "existsSync w (path_join env d ''.env'')")
    case True
    with Suc.prems have "r = d" by (simp add: Let_def)
    with True show ?thesis by (intro exI [of _ 0]) (simp add: Let_def)
  next
    case False
    with Suc.prems have ne: "path_dirname env d \<noteq> d"
      and rec: "snd (findProjectRoot_loop env w n (path_dirname env d)) = Some r"
      by (auto simp: Let_def case_prod_beta split: if_splits)
    from Suc.IH [OF rec] obtain i where i: "i < n" "r = ancestor env (path_dirname env d) i"
      "existsSync w (probe_path env (path_dirname env d) i)"
      "\<forall>j<i. \<not> existsSync w (probe_path env (path_dirname env d) j)"
      "length (fst (findProjectRoot_loop env w n (path_dirname env d))) = Suc i" by blast
    have "\<forall>j<Suc i. \<not> existsSync w (probe_path env d j)"
      using False i(4) by (simp add: all_less_Suc probe_path_Suc)
    with i False ne show ?thesis
      by (intro exI [of _ "Suc i"]) (simp add: probe_path_Suc ancestor_Suc Let_def case_prod_beta)
  qed
qed

lemma loop_root_stop:
  "i < n \<Longrightarrow> path_dirname env (ancestor env d i) = ancestor env d i \<Longrightarrow>
     length (fst (findProjectRoot_loop env w n d)) \<le> Suc i"
proof (induction n arbitrary: d i)
  case 0
  then show ?case by simp
next
  case (Suc n)
  show ?case
  proof (cases i)
    case 0
    with Suc.prems show ?thesis by (simp add: Let_def)
  next
    case (Suc k)
    with Suc.prems have "k < n"
      "path_dirname env (ancestor env (path_dirname env d) k) = ancestor env (path_dirname env d) k"
      by (simp_all add: ancestor_Suc)
    from Suc.IH [OF this] Suc show ?thesis
      by (simp add: Let_def case_prod_beta)
  qed
qed

text \<open>
  C7. The search for the anchor directory starts at the normalised output directory and
  probes \<open>.env\<close> in it and in its ancestors, one level at a time: the paths probed are the
  first levels in order, at least one and at most five; the search stops at a directory
  that is its own parent; it throws exactly when none of the five levels holds \<open>.env\<close>,
  and then the error is the anchor-not-found error; and a directory it returns is the
  first of the five levels that holds \<open>.env\<close>, with nothing probed beyond it.
\<close>

theorem findProjectRoot_bounded_search:
  "(let d0 = normalizePath outputDirectory;
        checked = findProjectRoot_checked env w outputDirectory
    in checked = map (probe_path env d0) [0..<length checked]
     \<and> 0 < length checked \<and> length checked \<le> 5
     \<and> (\<forall>i<5. path_dirname env (ancestor env d0 i) = ancestor env d0 i \<longrightarrow> length checked \<le> Suc i)
     \<and> ((\<exists>e. findProjectRoot env w outputDirectory = Inl e) \<longleftrightarrow>
          (\<forall>i<5. \<not> existsSync w (probe_path env d0 i)))
     \<and> (\<forall>e. findProjectRoot env w outputDirectory = Inl e \<longrightarrow> e = anchor_not_found outputDirectory)
     \<and> (\<forall>d. findProjectRoot env w outputDirectory = Inr d \<longrightarrow>
          (\<exists>i<5. d = ancestor env d0 i \<and> existsSync w (probe_path env d0 i) \<and>
                 (\<forall>j<i. \<not> existsSync w (probe_path env d0 j)) \<and> length checked = Suc i)))"
proof -
  let ?d0 = "normalizePath outputDirectory"
  let ?run = "findProjectRoot_loop env w 5 ?d0"
  have c1: "fst ?run = map (probe_path env ?d0) [0..<length (fst ?run)]"
    by (rule loop_checked)
  have c2: "0 < length (fst ?run)" by (rule loop_nonempty) simp
  have c3: "length (fst ?run) \<le> 5" by (rule loop_length)
  have c4: "\<forall>i<5. path_dirname env (ancestor env ?d0 i) = ancestor env ?d0 i \<longrightarrow>
              length (fst ?run) \<le> Suc i"
    using loop_root_stop by blast
  have c5: "(\<exists>e. findProjectRoot env w outputDirectory = Inl e) \<longleftrightarrow>
              (\<forall>i<5. \<not> existsSync w (probe_path env ?d0 i))"
    using loop_None [of env w 5 ?d0]
    by (auto simp: findProjectRoot_def maxLevelsUp_def split: option.splits)
  have c6: "\<forall>e. findProjectRoot env w outputDirectory = Inl e \<longrightarrow> e = anchor_not_found outputDirectory"
    by (auto simp: findProjectRoot_def split: option.splits)
  have c7: "\<forall>d. findProjectRoot env w outputDirectory = Inr d \<longrightarrow>
          (\<exists>i<5. d = ancestor env ?d0 i \<and> existsSync w (probe_path env ?d0 i) \<and>
                 (\<forall>j<i. \<not> existsSync w (probe_path env ?d0 j)) \<and> length (fst ?run) = Suc i)"
    using loop_Some [of env w 5 ?d0]
    by (auto simp: findProjectRoot_def maxLevelsUp_def split: option.splits)
  from c1 c2 c3 c4 c5 c6 c7 show ?thesis
    unfolding Let_def findProjectRoot_checked_def maxLevelsUp_def by blast
qed

theorem findProjectRoot_bounded_search_witness:
  "findProjectRoot example_env example_world ''/proj/out/gen'' = Inr ''/proj'' \<and>
   findProjectRoot_checked example_env example_world ''/proj/out/gen'' =
     [''/proj/out/gen/.env'', ''/proj/out/.env'', ''/proj/.env''] \<and>
   (\<exists>i<5. ''/proj'' = ancestor example_env ''/proj/out/gen'' i \<and>
      existsSync example_world (probe_path example_env ''/proj/out/gen'' i))"
proof -
  have found: "findProjectRoot example_env example_world ''/proj/out/gen'' = Inr ''/proj''"
    by code_simp
  have checked: "findProjectRoot_checked example_env example_world ''/proj/out/gen'' =
     [''/proj/out/gen/.env'', ''/proj/out/.env'', ''/proj/.env'']"
    by code_simp
  have norm: "normalizePath ''/proj/out/gen'' = ''/proj/out/gen''"
    by code_simp
  from findProjectRoot_bounded_search
         [where outputDirectory = "''/proj/out/gen''" and env = example_env and w = example_world] found checked
  show ?thesis
    unfolding Let_def norm by blast
qed

section \<open>The poll loop\<close>

lemma waitActive_loop_step:
  "waitActive_loop env k n T I start w =
     (let r = fst (ai_files_get env k n w); w1 = snd (ai_files_get env k n w)
      in if file_state r = Some ''ACTIVE'' then Some (r, w1)
         else if file_state r = Some ''FAILED'' then Some (Inl (failed_error n), w1)
         else if clock w1 - start > T then Some (Inl (timeout_error n), w1)
         else waitActive_loop env k n T I start (setTimeout I w1))"
  by (subst waitActive_loop.simps)
     (simp add: case_prod_beta Let_def)

lemma clock_ai_files_get: "clock w \<le> clock (snd (ai_files_get env k n w))"
  by (simp add: ai_files_get_def Let_def)

lemma clock_setTimeout [simp]: "clock (setTimeout I w) = clock w + I"
  by (simp add: setTimeout_def)

lemma waitActive_loop_terminates:
  "0 < I \<Longrightarrow> \<exists>r. waitActive_loop env k n T I start w = Some r"
proof (induction "start + T + 1 - clock w" arbitrary: w rule: less_induct)
  case less
  let ?w1 = "snd (ai_files_get env k n w)"
  show ?case
  proof (cases "file_state (fst (ai_files_get env k n w)) = Some ''ACTIVE'' \<or>
                file_state (fst (ai_files_get env k n w)) = Some ''FAILED'' \<or>
                clock ?w1 - start > T")
    case True
    then show ?thesis
      by (subst waitActive_loop_step) (auto simp: Let_def)
  next
    case False
    then have "clock ?w1 \<le> start + T" by linarith
    with clock_ai_files_get [of w env k n] less.prems
    have "start + T + 1 - clock (setTimeout I ?w1) < start + T + 1 - clock w"
      by simp
    from less.hyps [OF this less.prems] obtain r
      where "waitActive_loop env k n T I start (setTimeout I ?w1) = Some r" by blast
    with False show ?thesis
      by (subst waitActive_loop_step) (auto simp: Let_def)
  qed
qed

lemma waitActive_loop_timeout:
  assumes never: "\<And>w'. file_state (files_get env w' n) \<noteq> Some ''ACTIVE'' \<and>
                        file_state (files_get env w' n) \<noteq> Some ''FAILED''"
    and latency: "\<And>w'. files_get_ms env w' n \<le> D"
    and I: "0 < I"
  shows "clock w \<le> start + T + I \<Longrightarrow>
     \<exists>w'. waitActive_loop env k n T I start w = Some (Inl (timeout_error n), w') \<and>
          T < clock w' - start \<and> clock w' \<le> start + T + I + D"
proof (induction "start + T + 1 - clock w" arbitrary: w rule: less_induct)
  case less
  let ?r = "fst (ai_files_get env k n w)"
  let ?w1 = "snd (ai_files_get env k n w)"
  have st: "file_state ?r \<noteq> Some ''ACTIVE''" "file_state ?r \<noteq> Some ''FAILED''"
    using never by (simp_all add: ai_files_get_def Let_def)
  have c1: "clock ?w1 \<le> clock w + D" "clock w \<le> clock ?w1"
    using latency by (simp_all add: ai_files_get_def Let_def)
  show ?case
  proof (cases "clock ?w1 - start > T")
    case True
    have "clock ?w1 \<le> start + T + I + D" using c1 less.prems by simp
    with True st show ?thesis
      by (subst waitActive_loop_step) (simp add: Let_def)
  next
    case False
    then have le: "clock ?w1 \<le> start + T" by linarith
    with c1 I have m: "start + T + 1 - clock (setTimeout I ?w1) < start + T + 1 - clock w"
      by simp
    from le have "clock (setTimeout I ?w1) \<le> start + T + I" by simp
    from less.hyps [OF m this] False st show ?thesis
      by (subst waitActive_loop_step) (simp add: Let_def)
  qed
qed

text \<open>
  C5 (amended). For a handle whose status queries never report \<open>ACTIVE\<close> and never report
  \<open>FAILED\<close> (a failing query reports nothing), and a positive poll interval, \<open>waitActive\<close>
  returns, and what it returns is the timeout error. When it returns, more than the
  timeout has passed since the loop started, and no more than the timeout plus one poll
  interval plus the duration of one status query, where \<open>D\<close> bounds that duration. With
  status queries that take no time this is the timeout plus one poll interval.
\<close>

theorem waitActive_timeout_bound:
  assumes "\<And>w'. file_state (files_get env w' fileName) \<noteq> Some ''ACTIVE'' \<and>
                 file_state (files_get env w' fileName) \<noteq> Some ''FAILED''"
    and "\<And>w'. files_get_ms env w' fileName \<le> D"
    and "0 < intervalMs"
  shows "\<exists>w'. waitActive env apiKey fileName timeoutMs intervalMs w =
                 Some (Inl (timeout_error fileName), w') \<and>
              timeoutMs < clock w' - clock w \<and>
              clock w' - clock w \<le> timeoutMs + intervalMs + D"
proof -
  from waitActive_loop_timeout [OF assms, of w "clock w" timeoutMs apiKey]
  obtain w' where "waitActive_loop env apiKey fileName timeoutMs intervalMs (clock w) w =
      Some (Inl (timeout_error fileName), w')" "timeoutMs < clock w' - clock w"
      "clock w' \<le> clock w + timeoutMs + intervalMs + D" by auto
  then show ?thesis
    by (intro exI [of _ w']) (simp add: waitActive_def)
qed



lemma waitActive_loop_active:
  "file_state (fst (ai_files_get env k n w)) = Some ''ACTIVE'' \<Longrightarrow>
     waitActive_loop env k n T I start w = Some (ai_files_get env k n w)"
  by (subst waitActive_loop_step) (simp add: Let_def)

lemma waitActive_loop_failed:
  "file_state (fst (ai_files_get env k n w)) = Some ''FAILED'' \<Longrightarrow>
     waitActive_loop env k n T I start w = Some (Inl (failed_error n), snd (ai_files_get env k n w))"
  by (subst waitActive_loop_step) (simp add: Let_def)

lemma waitActive_loop_timed_out:
  "file_state (fst (ai_files_get env k n w)) \<noteq> Some ''ACTIVE'' \<Longrightarrow>
   file_state (fst (ai_files_get env k n w)) \<noteq> Some ''FAILED'' \<Longrightarrow>
   T < clock (snd (ai_files_get env k n w)) - start \<Longrightarrow>
     waitActive_loop env k n T I start w = Some (Inl (timeout_error n), snd (ai_files_get env k n w))"
  by (subst waitActive_loop_step) (simp add: Let_def)

lemma waitActive_loop_again:
  "file_state (fst (ai_files_get env k n w)) \<noteq> Some ''ACTIVE'' \<Longrightarrow>
   file_state (fst (ai_files_get env k n w)) \<noteq> Some ''FAILED'' \<Longrightarrow>
   \<not> T < clock (snd (ai_files_get env k n w)) - start \<Longrightarrow>
     waitActive_loop env k n T I start w =
     waitActive_loop env k n T I start (setTimeout I (snd (ai_files_get env k n w)))"
  by (subst waitActive_loop_step) (simp add: Let_def)

lemmas waitActive_loop_run =
  waitActive_loop_active waitActive_loop_failed waitActive_loop_timed_out waitActive_loop_again

lemmas example_defs =
  example_env_def example_world_def slow_env_def flaky_env_def pending_file_def active_file_def
  no_config_def simple_join_def simple_dirname_def simple_basename_def one_line_parse_def

lemmas poll_defs =
  ai_files_get_def setTimeout_def file_state_def js_or_def TIMEOUT_MS_def POLL_INTERVAL_MS_def
  failed_error_def timeout_error_def waitActive_def Let_def

lemma waitActive_terminates:
  "\<exists>r. waitActive env apiKey fileName TIMEOUT_MS POLL_INTERVAL_MS w = Some r"
  unfolding waitActive_def
  by (rule waitActive_loop_terminates) (simp add: POLL_INTERVAL_MS_def)

text \<open>
  C5 as stated fails: with the timeout and the interval of the service, a file that stays
  in processing and status queries of five seconds each, the nineteenth query returns
  122000 ms after the start, later than the 121500 ms of timeout plus one interval.
\<close>

theorem waitActive_exceeds_timeout_plus_interval:
  "waitActive slow_env ''k1'' ''files/a.md'' TIMEOUT_MS POLL_INTERVAL_MS example_world \<noteq> None \<and>
   fst (the (waitActive slow_env ''k1'' ''files/a.md'' TIMEOUT_MS POLL_INTERVAL_MS example_world)) =
     Inl (timeout_error ''files/a.md'') \<and>
   clock (snd (the (waitActive slow_env ''k1'' ''files/a.md'' TIMEOUT_MS POLL_INTERVAL_MS
                      example_world))) - clock example_world = 122000 \<and>
   \<not> (122000 \<le> TIMEOUT_MS + POLL_INTERVAL_MS)"
  by (simp add: waitActive_loop_run example_defs poll_defs)

theorem waitActive_timeout_bound_witness:
  "(\<forall>w'. file_state (files_get slow_env w' ''files/a.md'') \<noteq> Some ''ACTIVE'' \<and>
         file_state (files_get slow_env w' ''files/a.md'') \<noteq> Some ''FAILED'') \<and>
   (\<forall>w'. files_get_ms slow_env w' ''files/a.md'' \<le> 5000) \<and>
   0 < POLL_INTERVAL_MS \<and>
   (\<exists>w'. waitActive slow_env ''k1'' ''files/a.md'' TIMEOUT_MS POLL_INTERVAL_MS example_world =
            Some (Inl (timeout_error ''files/a.md''), w') \<and>
         TIMEOUT_MS < clock w' - clock example_world \<and>
         clock w' - clock example_world \<le> TIMEOUT_MS + POLL_INTERVAL_MS + 5000)"
proof -
  have never: "\<And>w'. file_state (files_get slow_env w' ''files/a.md'') \<noteq> Some ''ACTIVE'' \<and>
                     file_state (files_get slow_env w' ''files/a.md'') \<noteq> Some ''FAILED''"
    by (simp add: slow_env_def file_state_def pending_file_def js_or_def)
  have latency: "\<And>w'. files_get_ms slow_env w' ''files/a.md'' \<le> 5000"
    by (simp add: slow_env_def)
  have interval: "0 < POLL_INTERVAL_MS"
    by (simp add: POLL_INTERVAL_MS_def)
  from waitActive_timeout_bound [OF never latency interval] never latency interval
  show ?thesis by blast
qed



section \<open>The credential gate\<close>

lemma js_trim_blank: "list_all js_whitespace s \<Longrightarrow> js_trim s = []"
proof -
  assume "list_all js_whitespace s"
  then have d: "dropWhile js_whitespace s = []"
    by (simp add: list_all_iff)
  show ?thesis
    unfolding js_trim_def d by simp
qed

lemma blank_credential_missing: "blank_credential apiKey \<Longrightarrow> credential_missing apiKey"
  by (cases apiKey)
     (auto simp: blank_credential_def credential_missing_def js_or_default_def js_trim_blank)

text \<open>
  C6. For each direct provider (Anthropic, Google, OpenAI): when the settings hold no key
  for it, or a key that is empty or white space only, the call returns the error that the
  key is not configured and leaves the state as it was. The log of network calls is part
  of the state, so no call to the provider has been made.
\<close>

theorem credential_gate:
  assumes "getConfiguration env w = Inr cfg"
  shows "(blank_credential (anthropicApiKey cfg) \<longrightarrow>
            sendToAnthropic env prompt model w = (Inl anthropic_key_error, w)) \<and>
         (blank_credential (googleApiKey cfg) \<longrightarrow>
            sendToGoogle env prompt model w = (Inl google_key_error, w)) \<and>
         (blank_credential (openaiApiKey cfg) \<longrightarrow>
            sendToOpenAI env prompt model w = (Inl openai_key_error, w))"
  using assms
  by (simp add: sendToAnthropic_def sendToGoogle_def sendToOpenAI_def blank_credential_missing)

theorem credential_gate_witness:
  "getConfiguration blank_key_env example_world =
     Inr (no_config\<lparr>aiProvider := Some ''openai'', openaiApiKey := Some ''  ''\<rparr>) \<and>
   blank_credential (anthropicApiKey (no_config\<lparr>aiProvider := Some ''openai'', openaiApiKey := Some ''  ''\<rparr>)) \<and>
   blank_credential (googleApiKey (no_config\<lparr>aiProvider := Some ''openai'', openaiApiKey := Some ''  ''\<rparr>)) \<and>
   blank_credential (openaiApiKey (no_config\<lparr>aiProvider := Some ''openai'', openaiApiKey := Some ''  ''\<rparr>)) \<and>
   sendToAnthropic blank_key_env ''hello'' ''m'' example_world = (Inl anthropic_key_error, example_world) \<and>
   sendToGoogle blank_key_env ''hello'' ''m'' example_world = (Inl google_key_error, example_world) \<and>
   sendToOpenAI blank_key_env ''hello'' ''m'' example_world = (Inl openai_key_error, example_world) \<and>
   net_log (snd (sendToOpenAI blank_key_env ''hello'' ''m'' example_world)) = []"
proof -
  let ?cfg = "no_config\<lparr>aiProvider := Some ''openai'', openaiApiKey := Some ''  ''\<rparr>"
  have cfg: "getConfiguration blank_key_env example_world = Inr ?cfg"
    by (simp add: blank_key_env_def)
  have blank: "blank_credential (anthropicApiKey ?cfg)" "blank_credential (googleApiKey ?cfg)"
    "blank_credential (openaiApiKey ?cfg)"
    by (simp_all add: blank_credential_def no_config_def js_whitespace_def)
  have log: "net_log example_world = []"
    by (simp add: example_world_def)
  from credential_gate [OF cfg, of "''hello''" "''m''"] cfg blank log show ?thesis
    by simp
qed

section \<open>The prompt\<close>

lemma read_documents_cong:
  "(\<forall>p \<in> set docs. readFile env w p = readFile env w' p) \<Longrightarrow>
     read_documents env w kind docs = read_documents env w' kind docs"
  by (induction docs) (simp_all split: sum.splits)

lemma read_documents_map:
  "(\<forall>p \<in> set docs. readFile env w p = Inr (content p)) \<Longrightarrow>
     read_documents env w kind docs =
       Inr (map (\<lambda>p. ''### '' @ kind @ '': '' @ path_basename env p @ ''\<newline>\<newline>'' @ content p) docs)"
  by (induction docs) (simp_all add: document_block_def)

lemma js_join_Cons:
  "js_join sep (x # xs) = x @ (if xs = [] then [] else sep @ js_join sep xs)"
  by (cases xs) simp_all

lemma js_join_split:
  "js_join sep (xs @ y # zs) =
     (if xs = [] then [] else js_join sep xs @ sep) @ y @
     (if zs = [] then [] else sep @ js_join sep zs)"
proof (induction xs)
  case Nil
  show ?case by (simp add: js_join_Cons)
next
  case (Cons x xs)
  then show ?case by (simp add: js_join_Cons)
qed

text \<open>
  C9. The prompt of a request is a function of the documents read, their names, their
  order, the project name and the task kind: in two states where every document reads the
  same, the specification prompts are equal and the implementation prompts are equal,
  whatever else differs (other files, the clock, the network). When every document
  reads, the prompt is the template of its kind around the blocks
  \<open>### <Kind>: <name>\<close>, blank line, content, one for each document, joined in the order
  of the input; and in a joined list every element stands after the elements before it
  and ahead of the elements after it.
\<close>

theorem prompt_deterministic_in_input_order:
  "((\<forall>p \<in> set (sourceDocuments @ promptingDocuments). readFile env w p = readFile env w' p) \<longrightarrow>
      specification_prompt env w sourceDocuments promptingDocuments projectName =
      specification_prompt env w' sourceDocuments promptingDocuments projectName) \<and>
   ((\<forall>p \<in> set gameSpecifications. readFile env w p = readFile env w' p) \<longrightarrow>
      implementation_prompt env w gameSpecifications projectName =
      implementation_prompt env w' gameSpecifications projectName) \<and>
   ((\<forall>p \<in> set (sourceDocuments @ promptingDocuments). readFile env w p = Inr (content p)) \<longrightarrow>
      specification_prompt env w sourceDocuments promptingDocuments projectName =
        Inr (specification_head projectName @
             js_join block_separator
               (map (\<lambda>p. ''### Source Document: '' @ path_basename env p @ ''\<newline>\<newline>'' @ content p)
                  sourceDocuments) @
             specification_middle @
             js_join block_separator
               (map (\<lambda>p. ''### Prompting Document: '' @ path_basename env p @ ''\<newline>\<newline>'' @ content p)
                  promptingDocuments) @
             specification_tail)) \<and>
   ((\<forall>p \<in> set gameSpecifications. readFile env w p = Inr (content p)) \<longrightarrow>
      implementation_prompt env w gameSpecifications projectName =
        Inr (implementation_head projectName @
             js_join block_separator
               (map (\<lambda>p. ''### Game Specification: '' @ path_basename env p @ ''\<newline>\<newline>'' @ content p)
                  gameSpecifications) @
             implementation_tail)) \<and>
   js_join sep (xs @ y # zs) =
     (if xs = [] then [] else js_join sep xs @ sep) @ y @
     (if zs = [] then [] else sep @ js_join sep zs)"
proof (intro conjI impI)
  assume same: "\<forall>p \<in> set (sourceDocuments @ promptingDocuments). readFile env w p = readFile env w' p"
  then have "read_documents env w ''Source Document'' sourceDocuments =
             read_documents env w' ''Source Document'' sourceDocuments"
    by (intro read_documents_cong) simp
  moreover from same have "read_documents env w ''Prompting Document'' promptingDocuments =
             read_documents env w' ''Prompting Document'' promptingDocuments"
    by (intro read_documents_cong) simp
  ultimately show "specification_prompt env w sourceDocuments promptingDocuments projectName =
      specification_prompt env w' sourceDocuments promptingDocuments projectName"
    by (simp add: specification_prompt_def split: sum.splits)
next
  assume "\<forall>p \<in> set gameSpecifications. readFile env w p = readFile env w' p"
  then have "read_documents env w ''Game Specification'' gameSpecifications =
             read_documents env w' ''Game Specification'' gameSpecifications"
    by (rule read_documents_cong)
  then show "implementation_prompt env w gameSpecifications projectName =
      implementation_prompt env w' gameSpecifications projectName"
    by (simp add: implementation_prompt_def)
next
  assume readable: "\<forall>p \<in> set (sourceDocuments @ promptingDocuments). readFile env w p = Inr (content p)"
  then have "\<forall>p \<in> set sourceDocuments. readFile env w p = Inr (content p)"
    and "\<forall>p \<in> set promptingDocuments. readFile env w p = Inr (content p)"
    by simp_all
  from this [THEN read_documents_map]
  show "specification_prompt env w sourceDocuments promptingDocuments projectName =
        Inr (specification_head projectName @
             js_join block_separator
               (map (\<lambda>p. ''### Source Document: '' @ path_basename env p @ ''\<newline>\<newline>'' @ content p)
                  sourceDocuments) @
             specification_middle @
             js_join block_separator
               (map (\<lambda>p. ''### Prompting Document: '' @ path_basename env p @ ''\<newline>\<newline>'' @ content p)
                  promptingDocuments) @
             specification_tail)"
    by (simp add: specification_prompt_def buildSpecificationPrompt_def)
next
  assume "\<forall>p \<in> set gameSpecifications. readFile env w p = Inr (content p)"
  from this [THEN read_documents_map]
  show "implementation_prompt env w gameSpecifications projectName =
        Inr (implementation_head projectName @
             js_join block_separator
               (map (\<lambda>p. ''### Game Specification: '' @ path_basename env p @ ''\<newline>\<newline>'' @ content p)
                  gameSpecifications) @
             implementation_tail)"
    by (simp add: implementation_prompt_def buildImplementationPrompt_def)
next
  show "js_join sep (xs @ y # zs) =
     (if xs = [] then [] else js_join sep xs @ sep) @ y @
     (if zs = [] then [] else sep @ js_join sep zs)"
    by (rule js_join_split)
qed

lemmas example_fs_defs =
  example_env_def example_world_def later_world_def readFile_def simple_basename_def

theorem prompt_deterministic_in_input_order_witness:
  "readFile example_env example_world ''/docs/a.md'' = Inr ''alpha'' \<and>
   readFile example_env later_world ''/docs/a.md'' = Inr ''alpha'' \<and>
   readFile example_env example_world ''/docs/b.md'' = Inr ''beta'' \<and>
   readFile example_env later_world ''/docs/b.md'' = Inr ''beta'' \<and>
   specification_prompt example_env example_world [''/docs/a.md''] [''/docs/b.md''] ''demo'' =
   specification_prompt example_env later_world [''/docs/a.md''] [''/docs/b.md''] ''demo'' \<and>
   implementation_prompt example_env example_world [''/docs/b.md'', ''/docs/a.md''] ''demo'' =
   implementation_prompt example_env later_world [''/docs/b.md'', ''/docs/a.md''] ''demo'' \<and>
   implementation_prompt example_env example_world [''/docs/b.md'', ''/docs/a.md''] ''demo'' =
     Inr (implementation_head ''demo'' @
          ''### Game Specification: b.md\<newline>\<newline>beta'' @ block_separator @
          ''### Game Specification: a.md\<newline>\<newline>alpha'' @
          implementation_tail)"
proof -
  have same1: "\<forall>p \<in> set ([''/docs/a.md''] @ [''/docs/b.md'']).
      readFile example_env example_world p = readFile example_env later_world p"
    by (simp add: example_fs_defs)
  have same2: "\<forall>p \<in> set [''/docs/b.md'', ''/docs/a.md''].
      readFile example_env example_world p = readFile example_env later_world p"
    by (simp add: example_fs_defs)
  have readable: "\<forall>p \<in> set [''/docs/b.md'', ''/docs/a.md''].
      readFile example_env example_world p =
        Inr (if p = ''/docs/a.md'' then ''alpha'' else ''beta'')"
    by (simp add: example_fs_defs)
  have base: "path_basename example_env ''/docs/a.md'' = ''a.md''"
    "path_basename example_env ''/docs/b.md'' = ''b.md''"
    by (simp_all add: example_fs_defs)
  note thm1 = prompt_deterministic_in_input_order
    [where env = example_env and w = example_world and w' = later_world
       and sourceDocuments = "[''/docs/a.md'']" and promptingDocuments = "[''/docs/b.md'']"
       and gameSpecifications = "[''/docs/b.md'', ''/docs/a.md'']" and projectName = "''demo''"
       and content = "\<lambda>p. if p = ''/docs/a.md'' then ''alpha'' else ''beta''"]
  from thm1 same1 have p1: "specification_prompt example_env example_world [''/docs/a.md''] [''/docs/b.md''] ''demo'' =
   specification_prompt example_env later_world [''/docs/a.md''] [''/docs/b.md''] ''demo''"
    by blast
  from thm1 same2 have p2: "implementation_prompt example_env example_world [''/docs/b.md'', ''/docs/a.md''] ''demo'' =
   implementation_prompt example_env later_world [''/docs/b.md'', ''/docs/a.md''] ''demo''"
    by blast
  from thm1 readable have "implementation_prompt example_env example_world [''/docs/b.md'', ''/docs/a.md''] ''demo'' =
        Inr (implementation_head ''demo'' @
             js_join block_separator
               (map (\<lambda>p. ''### Game Specification: '' @ path_basename example_env p @ ''\<newline>\<newline>'' @
                          (if p = ''/docs/a.md'' then ''alpha'' else ''beta''))
                  [''/docs/b.md'', ''/docs/a.md'']) @
             implementation_tail)"
    by blast
  then have p3: "implementation_prompt example_env example_world [''/docs/b.md'', ''/docs/a.md''] ''demo'' =
     Inr (implementation_head ''demo'' @
          ''### Game Specification: b.md\<newline>\<newline>beta'' @ block_separator @
          ''### Game Specification: a.md\<newline>\<newline>alpha'' @
          implementation_tail)"
    by (simp add: base)
  have reads: "readFile example_env example_world ''/docs/a.md'' = Inr ''alpha''"
    "readFile example_env later_world ''/docs/a.md'' = Inr ''alpha''"
    "readFile example_env example_world ''/docs/b.md'' = Inr ''beta''"
    "readFile example_env later_world ''/docs/b.md'' = Inr ''beta''"
    by (simp_all add: example_fs_defs)
  from reads p1 p2 p3 show ?thesis by blast
qed

section \<open>The requests\<close>

lemma spec_try_request:
  "GeminiService_generateGameSpecification_try env sourceDocuments promptingDocuments
       outputDirectory projectName model w =
   gemini_request env (sourceDocuments @ promptingDocuments)
     (gemini_specification_prompt projectName (length sourceDocuments) (length promptingDocuments))
     gemini_specification_system outputDirectory
     (\<lambda>ts. projectName @ ''-spec-'' @ ts @ ''.md'') model w"
  unfolding GeminiService_generateGameSpecification_try_def gemini_request_def Let_def
  by (rule refl)

lemma game_try_request:
  "GeminiService_implementGame_try env gameSpecifications outputDirectory projectName model w =
   gemini_request env gameSpecifications (gemini_implementation_prompt projectName)
     gemini_implementation_system outputDirectory
     (\<lambda>ts. projectName @ ''-game-'' @ ts @ ''.txt'') model w"
  unfolding GeminiService_implementGame_try_def gemini_request_def Let_def
  by (rule refl)

lemma spec_catch:
  "GeminiService_generateGameSpecification env sourceDocuments promptingDocuments
       outputDirectory projectName model w =
   gemini_catch env (GeminiService_generateGameSpecification_try env sourceDocuments
       promptingDocuments outputDirectory projectName model w)"
  by (simp add: GeminiService_generateGameSpecification_def gemini_catch_def)

lemma game_catch:
  "GeminiService_implementGame env gameSpecifications outputDirectory projectName model w =
   gemini_catch env (GeminiService_implementGame_try env gameSpecifications outputDirectory
       projectName model w)"
  by (simp add: GeminiService_implementGame_def gemini_catch_def)

subsection \<open>What each step leaves unchanged\<close>

lemma uploaded_only_refl [simp]: "uploaded_only 0 w w"
  by (simp add: uploaded_only_def)

lemma uploaded_only_trans:
  "uploaded_only m w w1 \<Longrightarrow> uploaded_only n w1 w2 \<Longrightarrow> uploaded_only (m + n) w w2"
  by (auto simp: uploaded_only_def)

lemma uploaded_only_trans0:
  "uploaded_only 0 w w1 \<Longrightarrow> uploaded_only n w1 w2 \<Longrightarrow> uploaded_only n w w2"
  using uploaded_only_trans [of 0 w w1 n w2] by simp

lemma uploaded_only_trans0':
  "uploaded_only n w w1 \<Longrightarrow> uploaded_only 0 w1 w2 \<Longrightarrow> uploaded_only n w w2"
  using uploaded_only_trans [of n w w1 0 w2] by simp

lemma copy_loop_quiet: "uploaded_only 0 w (snd (copy_loop env folder files copied w))"
proof (induction files arbitrary: copied w)
  case Nil
  show ?case by simp
next
  case (Cons f files)
  show ?case
  proof (cases "copyFile env (normalizePath f)
                  (path_join env folder (path_basename env (normalizePath f))) w")
    case (Inl e)
    then show ?thesis by (simp add: Let_def)
  next
    case (Inr w1)
    then have "uploaded_only 0 w w1"
      by (auto simp: copyFile_def uploaded_only_def split: option.splits)
    from uploaded_only_trans0 [OF this Cons.IH] Inr show ?thesis
      by (simp add: Let_def)
  qed
qed

lemma copyFiles_quiet:
  "uploaded_only 0 w (snd (copyFilesToUploadsFolder env files root w))"
proof -
  have mk: "mkdirSync env p w = Inr w1 \<Longrightarrow> uploaded_only 0 w w1" for p w1
    by (auto simp: mkdirSync_def uploaded_only_def split: option.splits)
  show ?thesis
    unfolding copyFilesToUploadsFolder_def Let_def
    by (auto split: sum.splits intro: copy_loop_quiet uploaded_only_trans0 [OF mk copy_loop_quiet])
qed

lemma cleanup_quiet: "uploaded_only 0 w (cleanupUploadsFolder env files w)"
proof (induction files arbitrary: w)
  case Nil
  show ?case by simp
next
  case (Cons f files)
  have un: "unlink env f w = Inr w1 \<Longrightarrow> uploaded_only 0 w w1" for w1
    by (auto simp: unlink_def uploaded_only_def split: option.splits)
  show ?case
    by (auto split: sum.splits intro: Cons.IH uploaded_only_trans0 [OF un Cons.IH])
qed

lemma loadEnvApiKey_quiet: "uploaded_only 0 w (snd (loadEnvApiKey env root w))"
  by (simp add: loadEnvApiKey_def Let_def dotenv_config_def uploaded_only_def split: option.splits)

lemma ai_files_get_quiet: "uploaded_only 0 w (snd (ai_files_get env k n w))"
  by (simp add: ai_files_get_def Let_def uploaded_only_def)

lemma setTimeout_quiet: "uploaded_only 0 w (setTimeout I w)"
  by (simp add: setTimeout_def uploaded_only_def)

lemma waitActive_loop_quiet:
  assumes run: "waitActive_loop env k n T I start w = Some y"
  shows "uploaded_only 0 w (snd y)"
proof (rule waitActive_loop.raw_induct
         [where P = "\<lambda>env k n T I start w y. uploaded_only 0 w (snd y)", OF _ run])
  fix loop :: "env \<Rightarrow> string \<Rightarrow> string \<Rightarrow> nat \<Rightarrow> nat \<Rightarrow> nat \<Rightarrow> world
                 \<Rightarrow> ((js_exn + remote_file) \<times> world) option"
    and env k n T I start w y
  assume IH: "\<And>env k n T I start w y. loop env k n T I start w = Some y \<Longrightarrow>
                uploaded_only 0 w (snd y)"
    and body: "(let (r, w1) = ai_files_get env k n w; state = file_state r
                in if state = Some ''ACTIVE'' then Some (r, w1)
                   else if state = Some ''FAILED'' then Some (Inl (failed_error n), w1)
                   else if clock w1 - start > T then Some (Inl (timeout_error n), w1)
                   else loop env k n T I start (setTimeout I w1)) = Some y"
  let ?w1 = "snd (ai_files_get env k n w)"
  from body consider (stop) "snd y = ?w1"
    | (again) "loop env k n T I start (setTimeout I ?w1) = Some y"
    by (auto simp: case_prod_beta Let_def split: if_splits)
  then show "uploaded_only 0 w (snd y)"
  proof cases
    case stop
    then show ?thesis by (simp add: ai_files_get_quiet)
  next
    case again
    from uploaded_only_trans0 [OF ai_files_get_quiet
           uploaded_only_trans0 [OF setTimeout_quiet IH [OF again]]]
    show ?thesis .
  qed
qed

lemma waitActive_quiet:
  "waitActive env k n T I w = Some y \<Longrightarrow> uploaded_only 0 w (snd y)"
  unfolding waitActive_def by (rule waitActive_loop_quiet)

lemma ai_files_upload_grows:
  "\<exists>n\<le>1. uploaded_only n w (snd (ai_files_upload env k file mt dn w)) \<and>
     (\<forall>f. fst (ai_files_upload env k file mt dn w) = Inr f \<and> js_or_default (rf_name f) [] \<noteq> []
        \<longrightarrow> n = 1)"
proof (cases "files_upload env (w\<lparr>net_log := net_log w @ [FilesUpload k file mt dn]\<rparr>) file mt dn")
  case (Inl e)
  then show ?thesis
    by (intro exI [of _ 0]) (simp add: ai_files_upload_def Let_def uploaded_only_def)
next
  case (Inr f)
  show ?thesis
  proof (cases "rf_name f")
    case None
    with Inr show ?thesis
      by (intro exI [of _ 0])
         (simp add: ai_files_upload_def Let_def uploaded_only_def js_or_default_def)
  next
    case (Some nm)
    with Inr show ?thesis
      by (intro exI [of _ 1]) (simp add: ai_files_upload_def Let_def uploaded_only_def)
  qed
qed

lemma upload_loop_Cons:
  "upload_loop env k (p # ps) ups w =
     (case fst (ai_files_upload env k p
                  (js_or_default (mime_lookup env p) ''application/octet-stream'')
                  (path_basename env p) w) of
        Inl e \<Rightarrow> Some (Inl e, snd (ai_files_upload env k p
                  (js_or_default (mime_lookup env p) ''application/octet-stream'')
                  (path_basename env p) w))
      | Inr file \<Rightarrow>
          if js_or_default (rf_name file) [] = [] then
            Some (Inl (Error (''Upload failed for '' @ path_basename env p @
                              '': no file name returned'')),
                  snd (ai_files_upload env k p
                  (js_or_default (mime_lookup env p) ''application/octet-stream'')
                  (path_basename env p) w))
          else
            (case waitActive env k (js_or_default (rf_name file) []) TIMEOUT_MS POLL_INTERVAL_MS
                    (snd (ai_files_upload env k p
                  (js_or_default (mime_lookup env p) ''application/octet-stream'')
                  (path_basename env p) w)) of
               None \<Rightarrow> None
             | Some (Inl e, w2) \<Rightarrow> Some (Inl e, w2)
             | Some (Inr active, w2) \<Rightarrow> upload_loop env k ps (ups @ [active]) w2))"
  unfolding upload_loop.simps Let_def case_prod_beta by (rule refl)

declare upload_loop.simps(2) [simp del]

lemma upload_loop_grows:
  "upload_loop env k files ups w = Some (r, w') \<Longrightarrow>
     \<exists>n\<le>length files. uploaded_only n w w' \<and> ((\<exists>ups'. r = Inr ups') \<longrightarrow> n = length files)"
proof (induction files arbitrary: ups w)
  case Nil
  then show ?case by (intro exI [of _ 0]) auto
next
  case (Cons p ps)
  let ?up = "ai_files_upload env k p
               (js_or_default (mime_lookup env p) ''application/octet-stream'')
               (path_basename env p) w"
  from ai_files_upload_grows [of w env k p
         "js_or_default (mime_lookup env p) ''application/octet-stream''" "path_basename env p"]
  obtain n1 where n1: "n1 \<le> 1" "uploaded_only n1 w (snd ?up)"
    "\<And>f. fst ?up = Inr f \<Longrightarrow> js_or_default (rf_name f) [] \<noteq> [] \<Longrightarrow> n1 = 1"
    by blast
  show ?case
  proof (cases "fst ?up")
    case (Inl e)
    with Cons.prems have "r = Inl e" "w' = snd ?up"
      by (simp_all add: upload_loop_Cons)
    with n1 show ?thesis by (intro exI [of _ n1]) auto
  next
    case (Inr f0)
    show ?thesis
    proof (cases "js_or_default (rf_name f0) [] = []")
      case True
      with Inr Cons.prems have "\<exists>e. r = Inl e" "w' = snd ?up"
        by (auto simp: upload_loop_Cons)
      with n1 show ?thesis by (intro exI [of _ n1]) auto
    next
      case False
      with Inr n1 have one: "uploaded_only 1 w (snd ?up)" by auto
      from False Inr Cons.prems obtain y where
        y: "waitActive env k (js_or_default (rf_name f0) []) TIMEOUT_MS POLL_INTERVAL_MS
              (snd ?up) = Some y"
        by (auto simp: upload_loop_Cons split: option.splits)
      from waitActive_quiet [OF y] one have two: "uploaded_only 1 w (snd y)"
        by (rule uploaded_only_trans0' [rotated])
      show ?thesis
      proof (cases "fst y")
        case (Inl e)
        with y False Inr Cons.prems have "r = Inl e" "w' = snd y"
          by (auto simp: upload_loop_Cons split: prod.splits)
        with two show ?thesis by (intro exI [of _ 1]) auto
      next
        case (Inr active)
        with y False \<open>fst ?up = Inr f0\<close> Cons.prems
        have "upload_loop env k ps (ups @ [active]) (snd y) = Some (r, w')"
          by (auto simp: upload_loop_Cons split: prod.splits)
        from Cons.IH [OF this] obtain n where
          n: "n \<le> length ps" "uploaded_only n (snd y) w'"
             "(\<exists>ups'. r = Inr ups') \<longrightarrow> n = length ps" by blast
        from uploaded_only_trans [OF two n(2)] n(1,3) show ?thesis
          by (intro exI [of _ "1 + n"]) auto
      qed
    qed
  qed
qed

lemma upload_loop_terminates: "\<exists>y. upload_loop env k files ups w = Some y"
proof (induction files arbitrary: ups w)
  case Nil
  show ?case by simp
next
  case (Cons p ps)
  let ?up = "ai_files_upload env k p
               (js_or_default (mime_lookup env p) ''application/octet-stream'')
               (path_basename env p) w"
  show ?case
  proof (cases "fst ?up")
    case (Inl e)
    then show ?thesis by (simp add: upload_loop_Cons)
  next
    case (Inr f0)
    show ?thesis
    proof (cases "js_or_default (rf_name f0) [] = []")
      case True
      with Inr show ?thesis by (simp add: upload_loop_Cons)
    next
      case False
      from waitActive_terminates obtain y where
        y: "waitActive env k (js_or_default (rf_name f0) []) TIMEOUT_MS POLL_INTERVAL_MS
              (snd ?up) = Some y"
        by blast
      show ?thesis
      proof (cases "fst y")
        case (Inl e)
        with y False \<open>fst ?up = Inr f0\<close> show ?thesis
          by (cases y) (simp add: upload_loop_Cons)
      next
        case (Inr active)
        with y False \<open>fst ?up = Inr f0\<close> Cons.IH [of "ups @ [active]" "snd y"] show ?thesis
          by (cases y) (simp add: upload_loop_Cons)
      qed
    qed
  qed
qed

lemma uploadAndGenerate_terminates:
  "\<exists>y. uploadAndGenerate env files prompt root model sys w = Some y"
proof (cases "loadEnvApiKey env root w")
  case (Pair r w1)
  show ?thesis
  proof (cases r)
    case (Inl e)
    with Pair show ?thesis by (simp add: uploadAndGenerate_def)
  next
    case (Inr apiKey)
    from upload_loop_terminates obtain y where
      y: "upload_loop env apiKey files [] w1 = Some y" by blast
    with Pair Inr show ?thesis
      by (cases y; cases "fst y")
         (auto simp: uploadAndGenerate_def Let_def case_prod_beta split: sum.splits)
  qed
qed

lemma uploadAndGenerate_grows:
  assumes "uploadAndGenerate env files prompt root model sys w = Some (r, w')"
  shows "\<exists>n\<le>length files. uploaded_only n w w' \<and> ((\<exists>text. r = Inr text) \<longrightarrow> n = length files)"
proof (cases "loadEnvApiKey env root w")
  case (Pair r0 w1)
  have q: "uploaded_only 0 w w1"
    using loadEnvApiKey_quiet [of w env root] Pair by simp
  show ?thesis
  proof (cases r0)
    case (Inl e)
    with Pair assms have "r = Inl e" "w' = w1" by (simp_all add: uploadAndGenerate_def)
    with q show ?thesis by (intro exI [of _ 0]) auto
  next
    case (Inr apiKey)
    with Pair assms obtain r1 w2 where
      up: "upload_loop env apiKey files [] w1 = Some (r1, w2)"
      by (auto simp: uploadAndGenerate_def split: option.splits)
    from upload_loop_grows [OF up] obtain n where
      n: "n \<le> length files" "uploaded_only n w1 w2" "(\<exists>ups'. r1 = Inr ups') \<longrightarrow> n = length files"
      by blast
    from uploaded_only_trans0 [OF q n(2)] have g: "uploaded_only n w w2" .
    show ?thesis
    proof (cases r1)
      case (Inl e)
      with Pair Inr up assms have "r = Inl e" "w' = w2"
        by (simp_all add: uploadAndGenerate_def)
      with g n(1) show ?thesis by (intro exI [of _ n]) auto
    next
      case (Inr uploaded)
      with Pair \<open>r0 = Inr apiKey\<close> up assms
      have "uploaded_only 0 w2 w'"
        by (auto simp: uploadAndGenerate_def Let_def ai_models_generateContent_def
              uploaded_only_def split: sum.splits)
      from uploaded_only_trans0' [OF g this] n(1,3) Inr show ?thesis
        by (intro exI [of _ n]) auto
    qed
  qed
qed

subsection \<open>The outcomes of a request\<close>

lemma copy_loop_length:
  "copy_loop env folder files copied w = (Inr cf, w1) \<Longrightarrow>
     length cf = length copied + length files"
proof (induction files arbitrary: copied w)
  case Nil
  then show ?case by simp
next
  case (Cons f files)
  then show ?case
    by (cases "copyFile env (normalizePath f)
                 (path_join env folder (path_basename env (normalizePath f))) w")
       (auto simp: Let_def)
qed

lemma copyFiles_length:
  "copyFilesToUploadsFolder env files root w = (Inr cf, w1) \<Longrightarrow> length cf = length files"
  by (auto simp: copyFilesToUploadsFolder_def Let_def split: if_splits sum.splits
           dest: copy_loop_length)

lemma writeFile_writes:
  "writeFile env path content w = Inr w' \<Longrightarrow>
     fs_writes w' = fs_writes w @ [(path, content)] \<and> remote_store w' = remote_store w"
  by (auto simp: writeFile_def split: option.splits if_splits)

lemma gemini_request_terminates:
  "\<exists>y. gemini_request env files prompt sys out fileName model w = Some y"
proof (cases "findProjectRoot env w out")
  case (Inl e)
  then show ?thesis by (simp add: gemini_request_def)
next
  case (Inr root)
  show ?thesis
  proof (cases "copyFilesToUploadsFolder env files root w")
    case (Pair r w1)
    show ?thesis
    proof (cases r)
      case (Inl e)
      with Pair Inr show ?thesis by (simp add: gemini_request_def)
    next
      case (Inr cf)
      from uploadAndGenerate_terminates obtain y where
        "uploadAndGenerate env cf prompt root model (Some sys) w1 = Some y" by blast
      with Pair Inr \<open>findProjectRoot env w out = Inr root\<close> show ?thesis
        by (cases y; cases "fst y")
           (auto simp: gemini_request_def split: sum.splits)
    qed
  qed
qed

lemma gemini_request_outcome:
  assumes "gemini_request env files prompt sys out fileName model w = Some (r, cf, w')"
  shows "\<exists>n\<le>length files. \<exists>created.
           remote_store w' = remote_store w @ created \<and> length created = n \<and>
           (case r of
              Inl e \<Rightarrow> fs_writes w' = fs_writes w
            | Inr path \<Rightarrow> n = length files \<and> (\<exists>content. fs_writes w' = fs_writes w @ [(path, content)]))"
proof (cases "findProjectRoot env w out")
  case (Inl e)
  with assms have "r = Inl e" "w' = w" by (simp_all add: gemini_request_def)
  then show ?thesis by (intro exI [of _ 0]) simp
next
  case (Inr root)
  show ?thesis
  proof (cases "copyFilesToUploadsFolder env files root w")
    case (Pair r1 w1)
    from copyFiles_quiet [of w env files root] Pair have q1: "uploaded_only 0 w w1" by simp
    show ?thesis
    proof (cases r1)
      case (Inl e)
      with Pair Inr assms have "r = Inl e" "w' = w1" by (simp_all add: gemini_request_def)
      with q1 show ?thesis by (intro exI [of _ 0]) (simp add: uploaded_only_def)
    next
      case (Inr copied)
      with Pair have len: "length copied = length files" by (simp add: copyFiles_length)
      from Inr Pair \<open>findProjectRoot env w out = Inr root\<close> assms obtain r2 w2 where
        gen: "uploadAndGenerate env copied prompt root model (Some sys) w1 = Some (r2, w2)"
        by (auto simp: gemini_request_def split: option.splits)
      from uploadAndGenerate_grows [OF gen] len obtain n where
        n: "n \<le> length files" "uploaded_only n w1 w2" "(\<exists>text. r2 = Inr text) \<longrightarrow> n = length files"
        by auto
      from uploaded_only_trans0 [OF q1 n(2)] have g2: "uploaded_only n w w2" .
      show ?thesis
      proof (cases r2)
        case (Inl e)
        with gen Inr Pair \<open>findProjectRoot env w out = Inr root\<close> assms
        have "r = Inl e" "w' = w2" by (simp_all add: gemini_request_def)
        with g2 n(1) show ?thesis by (intro exI [of _ n]) (auto simp: uploaded_only_def)
      next
        case (Inr result)
        let ?path = "path_join env out (fileName (timestamp env w2))"
        show ?thesis
        proof (cases "writeFile env ?path result w2")
          case (Inl e)
          with \<open>r2 = Inr result\<close> gen \<open>r1 = Inr copied\<close> Pair
            \<open>findProjectRoot env w out = Inr root\<close> assms
          have "r = Inl e" "w' = w2" by (simp_all add: gemini_request_def)
          with g2 n(1) show ?thesis by (intro exI [of _ n]) (auto simp: uploaded_only_def)
        next
          case (Inr w3)
          with \<open>r2 = Inr result\<close> gen \<open>r1 = Inr copied\<close> Pair
            \<open>findProjectRoot env w out = Inr root\<close> assms
          have r: "r = Inr ?path" "w' = cleanupUploadsFolder env copied w3"
            by (auto simp: gemini_request_def)
          from cleanup_quiet [of w3 env copied] r(2)
          have "fs_writes w' = fs_writes w3" "remote_store w' = remote_store w3"
            by (simp_all add: uploaded_only_def)
          with writeFile_writes [OF Inr] g2
          have "fs_writes w' = fs_writes w @ [(?path, result)]"
            "\<exists>created. remote_store w' = remote_store w @ created \<and> length created = n"
            by (auto simp: uploaded_only_def)
          with r(1) n \<open>r2 = Inr result\<close> show ?thesis
            by (intro exI [of _ n]) auto
        qed
      qed
    qed
  qed
qed

lemma gemini_catch_terminates:
  "\<exists>y. gemini_catch env (gemini_request env files prompt sys out fileName model w) = Some y"
proof -
  from gemini_request_terminates obtain r cf w1 where
    "gemini_request env files prompt sys out fileName model w = Some (r, cf, w1)"
    by (metis prod_cases3)
  then show ?thesis by (cases r) (simp_all add: gemini_catch_def)
qed

lemma gemini_catch_outcome:
  assumes "gemini_catch env (gemini_request env files prompt sys out fileName model w) =
             Some (res, w')"
  shows "atomic_result w res w' \<and>
         (\<exists>created. remote_store w' = remote_store w @ created \<and>
                    length created \<le> length files \<and>
                    (success res \<longrightarrow> length created = length files))"
proof -
  from assms obtain r cf w1 where
    run: "gemini_request env files prompt sys out fileName model w = Some (r, cf, w1)"
    by (cases "gemini_request env files prompt sys out fileName model w")
       (auto simp: gemini_catch_def)
  from gemini_request_outcome [OF run] obtain n created where
    o: "n \<le> length files" "remote_store w1 = remote_store w @ created" "length created = n"
       "case r of Inl e \<Rightarrow> fs_writes w1 = fs_writes w
        | Inr path \<Rightarrow> n = length files \<and> (\<exists>content. fs_writes w1 = fs_writes w @ [(path, content)])"
    by blast
  show ?thesis
  proof (cases r)
    case (Inl e)
    with run assms have res: "res = \<lparr>success = False, outputPath = None, error = Some (errorMessage e)\<rparr>"
      and w': "w' = (if cf \<noteq> [] then cleanupUploadsFolder env cf w1 else w1)"
      by (simp_all add: gemini_catch_def)
    from w' cleanup_quiet [of w1 env cf]
    have "fs_writes w' = fs_writes w1" "remote_store w' = remote_store w1"
      by (auto simp: uploaded_only_def split: if_splits)
    with o Inl res show ?thesis by (auto simp: atomic_result_def)
  next
    case (Inr path)
    with run assms have "res = \<lparr>success = True, outputPath = Some path, error = None\<rparr>" "w' = w1"
      by (simp_all add: gemini_catch_def)
    with o Inr show ?thesis by (auto simp: atomic_result_def)
  qed
qed

lemma sendToAI_quiet: "uploaded_only 0 w (snd (sendToAI env prompt w))"
proof -
  have a: "uploaded_only 0 w (snd (sendToAnthropic env prompt model w))" for model
    by (auto simp: sendToAnthropic_def Let_def uploaded_only_def split: sum.splits)
  have g: "uploaded_only 0 w (snd (sendToGoogle env prompt model w))" for model
    by (auto simp: sendToGoogle_def Let_def uploaded_only_def split: sum.splits)
  have o: "uploaded_only 0 w (snd (sendToOpenAI env prompt model w))" for model
    by (auto simp: sendToOpenAI_def Let_def uploaded_only_def split: sum.splits)
  have "uploaded_only 0 w (snd (sendToAI_try env prompt w))"
    by (auto simp: sendToAI_try_def Let_def a g o split: sum.splits)
  then show ?thesis
    by (simp add: sendToAI_def case_prod_beta split: sum.splits)
qed

lemma direct_request_terminates: "\<exists>y. direct_request env prompt path_of w = Some y"
  by (auto simp: direct_request_def split: prod.splits sum.splits)

lemma direct_request_outcome:
  assumes "direct_request env prompt path_of w = Some (r, w')"
  shows "remote_store w' = remote_store w \<and>
         (case r of
            Inl e \<Rightarrow> fs_writes w' = fs_writes w
          | Inr res \<Rightarrow> atomic_result w res w' \<and> success res)"
proof (cases "sendToAI env prompt w")
  case (Pair r1 w1)
  from sendToAI_quiet [of w env prompt] Pair
  have q: "fs_writes w1 = fs_writes w" "remote_store w1 = remote_store w"
    by (simp_all add: uploaded_only_def)
  show ?thesis
  proof (cases r1)
    case (Inl e)
    with Pair assms q show ?thesis by (auto simp: direct_request_def)
  next
    case (Inr result)
    show ?thesis
    proof (cases "writeFile env (path_of (timestamp env w1)) result w1")
      case (Inl e)
      with Inr Pair assms q show ?thesis by (auto simp: direct_request_def)
    next
      case w2: (Inr w2)
      from writeFile_writes [OF w2] q Inr Pair assms w2 show ?thesis
        by (auto simp: direct_request_def atomic_result_def)
    qed
  qed
qed

lemma claude_spec_try_shape:
  "ClaudeService_generateGameSpecification_try env sourceDocuments promptingDocuments
       outputDirectory projectName w =
     (case getConfiguration env w of
        Inl e \<Rightarrow> Some (Inl e, w)
      | Inr config \<Rightarrow>
          if js_or_default (aiProvider config) ''anthropic'' = ''google'' then
            (case GeminiService_generateGameSpecification env sourceDocuments
                    promptingDocuments outputDirectory projectName
                    (if js_includes (js_or_default (aiModel config) ''gemini-2.5-flash'') ''gemini''
                     then js_or_default (aiModel config) ''gemini-2.5-flash''
                     else ''gemini-2.5-flash'') w of
               None \<Rightarrow> None
             | Some (res, w1) \<Rightarrow> Some (Inr res, w1))
          else
            (case specification_prompt env w sourceDocuments promptingDocuments projectName of
               Inl e \<Rightarrow> Some (Inl e, w)
             | Inr prompt \<Rightarrow>
                 direct_request env prompt
                   (\<lambda>ts. path_join env outputDirectory (projectName @ ''-spec-'' @ ts @ ''.md''))
                   w))"
  unfolding ClaudeService_generateGameSpecification_try_def direct_request_def Let_def
  by (rule refl)

lemma claude_game_try_shape:
  "ClaudeService_implementGame_try env gameSpecifications outputDirectory projectName w =
     (case getConfiguration env w of
        Inl e \<Rightarrow> Some (Inl e, w)
      | Inr config \<Rightarrow>
          if js_or_default (aiProvider config) ''anthropic'' = ''google'' then
            (case GeminiService_implementGame env gameSpecifications outputDirectory projectName
                    (if js_includes (js_or_default (aiModel config) ''gemini-2.5-flash'') ''gemini''
                     then js_or_default (aiModel config) ''gemini-2.5-flash''
                     else ''gemini-2.5-flash'') w of
               None \<Rightarrow> None
             | Some (res, w1) \<Rightarrow> Some (Inr res, w1))
          else
            (case implementation_prompt env w gameSpecifications projectName of
               Inl e \<Rightarrow> Some (Inl e, w)
             | Inr prompt \<Rightarrow>
                 direct_request env prompt
                   (\<lambda>ts. js_replace
                           (path_join env outputDirectory (projectName @ ''-game-'' @ ts @ ''.zip''))
                           ''.zip'' ''.txt'')
                   w))"
  unfolding ClaudeService_implementGame_try_def direct_request_def Let_def
  by (rule refl)

lemma claude_spec_catch:
  "ClaudeService_generateGameSpecification env sourceDocuments promptingDocuments
       outputDirectory projectName w =
   claude_catch (ClaudeService_generateGameSpecification_try env sourceDocuments
       promptingDocuments outputDirectory projectName w)"
  by (simp add: ClaudeService_generateGameSpecification_def claude_catch_def)

lemma claude_game_catch:
  "ClaudeService_implementGame env gameSpecifications outputDirectory projectName w =
   claude_catch (ClaudeService_implementGame_try env gameSpecifications outputDirectory
       projectName w)"
  by (simp add: ClaudeService_implementGame_def claude_catch_def)

lemma gemini_spec_terminates:
  "\<exists>y. GeminiService_generateGameSpecification env s p out name model w = Some y"
  unfolding spec_catch spec_try_request by (rule gemini_catch_terminates)

lemma gemini_game_terminates:
  "\<exists>y. GeminiService_implementGame env g out name model w = Some y"
  unfolding game_catch game_try_request by (rule gemini_catch_terminates)

lemma gemini_spec_outcome:
  "GeminiService_generateGameSpecification env s p out name model w = Some (res, w') \<Longrightarrow>
     atomic_result w res w' \<and>
     (\<exists>created. remote_store w' = remote_store w @ created \<and>
                length created \<le> length (s @ p) \<and>
                (success res \<longrightarrow> length created = length (s @ p)))"
  unfolding spec_catch spec_try_request by (rule gemini_catch_outcome)

lemma gemini_game_outcome:
  "GeminiService_implementGame env g out name model w = Some (res, w') \<Longrightarrow>
     atomic_result w res w' \<and>
     (\<exists>created. remote_store w' = remote_store w @ created \<and>
                length created \<le> length g \<and>
                (success res \<longrightarrow> length created = length g))"
  unfolding game_catch game_try_request by (rule gemini_catch_outcome)

lemma claude_spec_try_terminates:
  "\<exists>y. ClaudeService_generateGameSpecification_try env s p out name w = Some y"
proof (cases "getConfiguration env w")
  case (Inl e)
  then show ?thesis by (simp add: claude_spec_try_shape)
next
  case (Inr config)
  show ?thesis
  proof (cases "js_or_default (aiProvider config) ''anthropic'' = ''google''")
    case True
    from gemini_spec_terminates obtain y where
      "GeminiService_generateGameSpecification env s p out name
         (if js_includes (js_or_default (aiModel config) ''gemini-2.5-flash'') ''gemini''
          then js_or_default (aiModel config) ''gemini-2.5-flash''
          else ''gemini-2.5-flash'') w = Some y" by blast
    with True Inr show ?thesis
      by (cases y) (simp add: claude_spec_try_shape)
  next
    case False
    with Inr direct_request_terminates show ?thesis
      by (cases "specification_prompt env w s p name") (auto simp: claude_spec_try_shape)
  qed
qed

lemma claude_game_try_terminates:
  "\<exists>y. ClaudeService_implementGame_try env g out name w = Some y"
proof (cases "getConfiguration env w")
  case (Inl e)
  then show ?thesis by (simp add: claude_game_try_shape)
next
  case (Inr config)
  show ?thesis
  proof (cases "js_or_default (aiProvider config) ''anthropic'' = ''google''")
    case True
    from gemini_game_terminates obtain y where
      "GeminiService_implementGame env g out name
         (if js_includes (js_or_default (aiModel config) ''gemini-2.5-flash'') ''gemini''
          then js_or_default (aiModel config) ''gemini-2.5-flash''
          else ''gemini-2.5-flash'') w = Some y" by blast
    with True Inr show ?thesis
      by (cases y) (simp add: claude_game_try_shape)
  next
    case False
    with Inr direct_request_terminates show ?thesis
      by (cases "implementation_prompt env w g name") (auto simp: claude_game_try_shape)
  qed
qed

lemma claude_catch_terminates: "\<exists>y. run = Some y \<Longrightarrow> \<exists>y. claude_catch run = Some y"
  by (auto simp: claude_catch_def split: sum.splits)

lemma claude_spec_try_outcome:
  assumes "ClaudeService_generateGameSpecification_try env s p out name w = Some (r, w')"
  shows "case r of Inl e \<Rightarrow> fs_writes w' = fs_writes w | Inr res \<Rightarrow> atomic_result w res w'"
proof (cases "getConfiguration env w")
  case (Inl e)
  with assms show ?thesis by (auto simp: claude_spec_try_shape)
next
  case (Inr config)
  show ?thesis
  proof (cases "js_or_default (aiProvider config) ''anthropic'' = ''google''")
    case True
    with Inr assms gemini_spec_outcome show ?thesis
      by (auto simp: claude_spec_try_shape split: option.splits)
  next
    case False
    show ?thesis
    proof (cases "specification_prompt env w s p name")
      case (Inl e)
      with False Inr assms show ?thesis by (auto simp: claude_spec_try_shape)
    next
      case prompt: (Inr prompt)
      with False Inr assms direct_request_outcome show ?thesis
        by (fastforce simp: claude_spec_try_shape split: sum.splits)
    qed
  qed
qed

lemma claude_game_try_outcome:
  assumes "ClaudeService_implementGame_try env g out name w = Some (r, w')"
  shows "case r of Inl e \<Rightarrow> fs_writes w' = fs_writes w | Inr res \<Rightarrow> atomic_result w res w'"
proof (cases "getConfiguration env w")
  case (Inl e)
  with assms show ?thesis by (auto simp: claude_game_try_shape)
next
  case (Inr config)
  show ?thesis
  proof (cases "js_or_default (aiProvider config) ''anthropic'' = ''google''")
    case True
    with Inr assms gemini_game_outcome show ?thesis
      by (auto simp: claude_game_try_shape split: option.splits)
  next
    case False
    show ?thesis
    proof (cases "implementation_prompt env w g name")
      case (Inl e)
      with False Inr assms show ?thesis by (auto simp: claude_game_try_shape)
    next
      case prompt: (Inr prompt)
      with False Inr assms direct_request_outcome show ?thesis
        by (fastforce simp: claude_game_try_shape split: sum.splits)
    qed
  qed
qed

lemma claude_catch_outcome:
  assumes "claude_catch run = Some (res, w')"
    and "\<And>r w1. run = Some (r, w1) \<Longrightarrow>
           (case r of Inl e \<Rightarrow> fs_writes w1 = fs_writes w | Inr res \<Rightarrow> atomic_result w res w1)"
  shows "atomic_result w res w'"
proof -
  from assms(1) obtain r w1 where run: "run = Some (r, w1)"
    by (cases run) (auto simp: claude_catch_def)
  show ?thesis
  proof (cases r)
    case (Inl e)
    with run assms(1) assms(2) [OF run] show ?thesis
      by (auto simp: claude_catch_def atomic_result_def)
  next
    case (Inr res0)
    with run assms(1) assms(2) [OF run] show ?thesis
      by (auto simp: claude_catch_def)
  qed
qed

subsection \<open>The staged copies once staging is done\<close>

text \<open>When no deletion fails, the cleanup leaves none of the files it is given; and once
  \<open>copyFilesToUploadsFolder\<close> has returned, the request ends with that cleanup over all
  the copies, whether it fails at the upload, the polling, the generation or the write, or
  succeeds.\<close>

lemma cleanup_keeps_absent:
  "fs_files w p = None \<Longrightarrow> fs_files (cleanupUploadsFolder env files w) p = None"
proof (induction files arbitrary: w)
  case Nil
  then show ?case by simp
next
  case (Cons f files)
  have un: "unlink env f w = Inr w1 \<Longrightarrow> fs_files w1 p = None" for w1
    using Cons.prems by (auto simp: unlink_def split: option.splits)
  show ?case
    using Cons.prems by (auto split: sum.splits intro: Cons.IH un)
qed

lemma cleanup_removes_all:
  assumes "\<And>w p. unlink_fault env w p = None"
  shows "\<forall>p \<in> set files. fs_files (cleanupUploadsFolder env files w) p = None"
proof (induction files arbitrary: w)
  case Nil
  show ?case by simp
next
  case (Cons f files)
  show ?case
  proof (cases "fs_files w f")
    case None
    then have step: "cleanupUploadsFolder env (f # files) w = cleanupUploadsFolder env files w"
      by (simp add: unlink_def assms)
    from None have "fs_files (cleanupUploadsFolder env files w) f = None"
      by (rule cleanup_keeps_absent)
    with Cons.IH [of w] step show ?thesis by simp
  next
    case (Some c)
    let ?w1 = "w\<lparr>fs_files := (fs_files w)(f := None)\<rparr>"
    from Some have step: "cleanupUploadsFolder env (f # files) w = cleanupUploadsFolder env files ?w1"
      by (simp add: unlink_def assms existsSync_def)
    have "fs_files (cleanupUploadsFolder env files ?w1) f = None"
      by (rule cleanup_keeps_absent) simp
    with Cons.IH [of ?w1] step show ?thesis by simp
  qed
qed

lemma gemini_catch_cleans_after_staging:
  assumes "\<And>w p. unlink_fault env w p = None"
    and "run = Some (Inl e, copiedFiles, w1)"
    and "gemini_catch env run = Some (res, w')"
  shows "\<forall>p \<in> set copiedFiles. fs_files w' p = None"
proof (cases "copiedFiles = []")
  case True
  then show ?thesis by simp
next
  case False
  with assms(2,3) have "w' = cleanupUploadsFolder env copiedFiles w1"
    by (simp add: gemini_catch_def)
  with cleanup_removes_all [OF assms(1)] show ?thesis by simp
qed

lemma staged_copies_removed_after_staging:
  assumes faults: "\<And>w p. unlink_fault env w p = None"
    and root: "findProjectRoot env w out = Inr root"
    and staged: "copyFilesToUploadsFolder env files root w = (Inr copiedFiles, w1)"
    and run: "gemini_catch env (gemini_request env files prompt sys out fileName model w) =
                Some (res, w')"
  shows "\<forall>p \<in> set copiedFiles. fs_files w' p = None"
proof -
  from uploadAndGenerate_terminates obtain r2 w2 where
    gen: "uploadAndGenerate env copiedFiles prompt root model (Some sys) w1 = Some (r2, w2)"
    by fastforce
  show ?thesis
  proof (cases r2)
    case (Inl e)
    with root staged gen
    have "gemini_request env files prompt sys out fileName model w = Some (Inl e, copiedFiles, w2)"
      by (simp add: gemini_request_def)
    from gemini_catch_cleans_after_staging [OF faults this run] show ?thesis .
  next
    case (Inr result)
    let ?path = "path_join env out (fileName (timestamp env w2))"
    show ?thesis
    proof (cases "writeFile env ?path result w2")
      case (Inl e)
      with Inr root staged gen
      have "gemini_request env files prompt sys out fileName model w =
              Some (Inl e, copiedFiles, w2)"
        by (simp add: gemini_request_def)
      from gemini_catch_cleans_after_staging [OF faults this run] show ?thesis .
    next
      case w3: (Inr w3)
      with Inr root staged gen run have "w' = cleanupUploadsFolder env copiedFiles w3"
        by (simp add: gemini_request_def gemini_catch_def)
      with cleanup_removes_all [OF faults] show ?thesis by simp
    qed
  qed
qed

subsection \<open>The names of the artifacts\<close>

text \<open>The path of a successful request is built from the timestamp that is read in the
  state in which the artifact is written, and the timestamp has at most nineteen
  characters: the date and the time up to the seconds.\<close>

lemma gemini_request_path:
  assumes "gemini_request env files prompt sys out fileName model w = Some (Inr path, cf, w')"
  shows "\<exists>w2 result w3. path = path_join env out (fileName (timestamp env w2)) \<and>
           writeFile env path result w2 = Inr w3"
  using assms
  by (auto simp: gemini_request_def split: sum.splits prod.splits option.splits)

lemma direct_request_path:
  assumes "direct_request env prompt path_of w = Some (Inr res, w')"
  shows "\<exists>w1 result. outputPath res = Some (path_of (timestamp env w1)) \<and>
           writeFile env (path_of (timestamp env w1)) result w1 = Inr w'"
  using assms
  by (auto simp: direct_request_def split: sum.splits prod.splits)

lemma timestamp_length: "length (timestamp env w) \<le> 19"
  by (simp add: timestamp_def)

lemma gemini_artifact_names:
  "(GeminiService_generateGameSpecification env sourceDocuments promptingDocuments
      outputDirectory projectName model w = Some (res, w') \<and> success res \<longrightarrow>
      (\<exists>w2. outputPath res =
         Some (path_join env outputDirectory
                 (projectName @ ''-spec-'' @ timestamp env w2 @ ''.md'')))) \<and>
   (GeminiService_implementGame env gameSpecifications outputDirectory projectName model w =
      Some (res, w') \<and> success res \<longrightarrow>
      (\<exists>w2. outputPath res =
         Some (path_join env outputDirectory
                 (projectName @ ''-game-'' @ timestamp env w2 @ ''.txt''))))"
proof (intro conjI impI)
  assume a: "GeminiService_generateGameSpecification env sourceDocuments promptingDocuments
      outputDirectory projectName model w = Some (res, w') \<and> success res"
  then obtain path cf where
    "gemini_request env (sourceDocuments @ promptingDocuments)
       (gemini_specification_prompt projectName (length sourceDocuments) (length promptingDocuments))
       gemini_specification_system outputDirectory
       (\<lambda>ts. projectName @ ''-spec-'' @ ts @ ''.md'') model w = Some (Inr path, cf, w')"
    "outputPath res = Some path"
    unfolding spec_catch spec_try_request
    by (auto simp: gemini_catch_def split: option.splits sum.splits prod.splits)
  with gemini_request_path show "\<exists>w2. outputPath res =
         Some (path_join env outputDirectory
                 (projectName @ ''-spec-'' @ timestamp env w2 @ ''.md''))"
    by fastforce
next
  assume a: "GeminiService_implementGame env gameSpecifications outputDirectory projectName model w =
      Some (res, w') \<and> success res"
  then obtain path cf where
    "gemini_request env gameSpecifications (gemini_implementation_prompt projectName)
       gemini_implementation_system outputDirectory
       (\<lambda>ts. projectName @ ''-game-'' @ ts @ ''.txt'') model w = Some (Inr path, cf, w')"
    "outputPath res = Some path"
    unfolding game_catch game_try_request
    by (auto simp: gemini_catch_def split: option.splits sum.splits prod.splits)
  with gemini_request_path show "\<exists>w2. outputPath res =
         Some (path_join env outputDirectory
                 (projectName @ ''-game-'' @ timestamp env w2 @ ''.txt''))"
    by fastforce
qed

subsection \<open>The files a request can delete\<close>

text \<open>Copies and writes add files, the calls to the network leave the disk alone, and
  the cleanup removes only the paths it is given: a file that a request deletes is at one
  of its staging paths.\<close>

lemma keeps_files_refl [simp]: "keeps_files S w w"
  by (simp add: keeps_files_def)

lemma keeps_files_trans:
  "keeps_files S w w1 \<Longrightarrow> keeps_files S w1 w2 \<Longrightarrow> keeps_files S w w2"
  by (auto simp: keeps_files_def)

lemma keeps_files_same: "fs_files w' = fs_files w \<Longrightarrow> keeps_files S w w'"
  by (simp add: keeps_files_def)

lemma keeps_files_mono: "keeps_files S w w' \<Longrightarrow> S \<subseteq> T \<Longrightarrow> keeps_files T w w'"
  by (auto simp: keeps_files_def)

lemma copy_loop_result:
  "copy_loop env folder files copied w = (r, w1) \<Longrightarrow>
     keeps_files {} w w1 \<and>
     (\<forall>cf. r = Inr cf \<longrightarrow>
        cf = copied @ map (\<lambda>f. path_join env folder (path_basename env (normalizePath f))) files)"
proof (induction files arbitrary: copied w)
  case Nil
  then show ?case by auto
next
  case (Cons f files)
  let ?dst = "path_join env folder (path_basename env (normalizePath f))"
  show ?case
  proof (cases "copyFile env (normalizePath f) ?dst w")
    case (Inl e)
    with Cons.prems show ?thesis by (auto simp: Let_def)
  next
    case (Inr w0)
    then have k: "keeps_files {} w w0"
      by (auto simp: copyFile_def keeps_files_def split: option.splits)
    from Inr Cons.prems have "copy_loop env folder files (copied @ [?dst]) w0 = (r, w1)"
      by (simp add: Let_def)
    from Cons.IH [OF this] k show ?thesis
      by (auto intro: keeps_files_trans)
  qed
qed

lemma copyFiles_result:
  assumes "copyFilesToUploadsFolder env files root w = (r, w1)"
  shows "keeps_files {} w w1 \<and> (\<forall>cf. r = Inr cf \<longrightarrow> cf = staged_paths env root files)"
proof (cases "existsSync w (getUploadsFolderPath env root)")
  case True
  with assms have "copy_loop env (getUploadsFolderPath env root) files [] w = (r, w1)"
    by (simp add: copyFilesToUploadsFolder_def Let_def)
  from copy_loop_result [OF this] show ?thesis by (simp add: staged_paths_def)
next
  case False
  show ?thesis
  proof (cases "mkdirSync env (getUploadsFolderPath env root) w")
    case (Inl e)
    with False assms show ?thesis by (auto simp: copyFilesToUploadsFolder_def Let_def)
  next
    case (Inr w0)
    then have k: "keeps_files {} w w0"
      by (auto simp: mkdirSync_def keeps_files_def split: option.splits)
    from Inr False assms have "copy_loop env (getUploadsFolderPath env root) files [] w0 = (r, w1)"
      by (simp add: copyFilesToUploadsFolder_def Let_def)
    from copy_loop_result [OF this] k show ?thesis
      by (auto simp: staged_paths_def intro: keeps_files_trans)
  qed
qed

lemma cleanup_keeps_others: "keeps_files (set files) w (cleanupUploadsFolder env files w)"
proof (induction files arbitrary: w)
  case Nil
  show ?case by simp
next
  case (Cons f files)
  have un: "unlink env f w = Inr w1 \<Longrightarrow> keeps_files (set (f # files)) w w1" for w1
    by (auto simp: unlink_def keeps_files_def split: option.splits)
  have rest: "keeps_files (set (f # files)) w0 (cleanupUploadsFolder env files w0)" for w0
    by (rule keeps_files_mono [OF Cons.IH]) auto
  show ?case
  proof (cases "existsSync w f")
    case False
    then show ?thesis using rest [of w] by simp
  next
    case True
    show ?thesis
    proof (cases "unlink env f w")
      case (Inl e)
      with True show ?thesis using rest [of w] by simp
    next
      case (Inr w1)
      with True show ?thesis using keeps_files_trans [OF un [OF Inr] rest [of w1]] by simp
    qed
  qed
qed

lemma waitActive_loop_files:
  assumes run: "waitActive_loop env k n T I start w = Some y"
  shows "fs_files (snd y) = fs_files w"
proof (rule waitActive_loop.raw_induct
         [where P = "\<lambda>env k n T I start w y. fs_files (snd y) = fs_files w", OF _ run])
  fix loop :: "env \<Rightarrow> string \<Rightarrow> string \<Rightarrow> nat \<Rightarrow> nat \<Rightarrow> nat \<Rightarrow> world
                 \<Rightarrow> ((js_exn + remote_file) \<times> world) option"
    and env k n T I start w y
  assume IH: "\<And>env k n T I start w y. loop env k n T I start w = Some y \<Longrightarrow>
                fs_files (snd y) = fs_files w"
    and body: "(let (r, w1) = ai_files_get env k n w; state = file_state r
                in if state = Some ''ACTIVE'' then Some (r, w1)
                   else if state = Some ''FAILED'' then Some (Inl (failed_error n), w1)
                   else if clock w1 - start > T then Some (Inl (timeout_error n), w1)
                   else loop env k n T I start (setTimeout I w1)) = Some y"
  let ?w1 = "snd (ai_files_get env k n w)"
  have g: "fs_files ?w1 = fs_files w" "fs_files (setTimeout I ?w1) = fs_files w"
    by (simp_all add: ai_files_get_def setTimeout_def Let_def)
  from body consider (stop) "snd y = ?w1"
    | (again) "loop env k n T I start (setTimeout I ?w1) = Some y"
    by (auto simp: case_prod_beta Let_def split: if_splits)
  then show "fs_files (snd y) = fs_files w"
  proof cases
    case stop
    with g show ?thesis by simp
  next
    case again
    from IH [OF again] g show ?thesis by simp
  qed
qed

lemma upload_loop_files:
  "upload_loop env k files ups w = Some (r, w') \<Longrightarrow> fs_files w' = fs_files w"
proof (induction files arbitrary: ups w)
  case Nil
  then show ?case by simp
next
  case (Cons p ps)
  let ?up = "ai_files_upload env k p
               (js_or_default (mime_lookup env p) ''application/octet-stream'')
               (path_basename env p) w"
  have u: "fs_files (snd ?up) = fs_files w"
    by (simp add: ai_files_upload_def Let_def split: sum.splits option.splits)
  show ?case
  proof (cases "fst ?up")
    case (Inl e)
    with Cons.prems u show ?thesis by (auto simp: upload_loop_Cons)
  next
    case (Inr f0)
    show ?thesis
    proof (cases "js_or_default (rf_name f0) [] = []")
      case True
      with Inr Cons.prems u show ?thesis by (auto simp: upload_loop_Cons)
    next
      case False
      with Inr Cons.prems obtain y where
        y: "waitActive env k (js_or_default (rf_name f0) []) TIMEOUT_MS POLL_INTERVAL_MS
              (snd ?up) = Some y"
        by (auto simp: upload_loop_Cons split: option.splits)
      from waitActive_loop_files [OF y [unfolded waitActive_def]] u
      have f: "fs_files (snd y) = fs_files w" by simp
      show ?thesis
      proof (cases "fst y")
        case (Inl e)
        with y False \<open>fst ?up = Inr f0\<close> Cons.prems f show ?thesis
          by (auto simp: upload_loop_Cons split: prod.splits)
      next
        case (Inr active)
        with y False \<open>fst ?up = Inr f0\<close> Cons.prems
        have "upload_loop env k ps (ups @ [active]) (snd y) = Some (r, w')"
          by (auto simp: upload_loop_Cons split: prod.splits)
        from Cons.IH [OF this] f show ?thesis by simp
      qed
    qed
  qed
qed

lemma uploadAndGenerate_files:
  assumes "uploadAndGenerate env files prompt root model sys w = Some (r, w')"
  shows "fs_files w' = fs_files w"
proof (cases "loadEnvApiKey env root w")
  case (Pair r0 w1)
  then have q: "fs_files w1 = fs_files w"
    by (auto simp: loadEnvApiKey_def Let_def dotenv_config_def split: if_splits option.splits)
  show ?thesis
  proof (cases r0)
    case (Inl e)
    with Pair assms q show ?thesis by (auto simp: uploadAndGenerate_def)
  next
    case (Inr apiKey)
    with Pair assms obtain r1 w2 where
      up: "upload_loop env apiKey files [] w1 = Some (r1, w2)"
      by (auto simp: uploadAndGenerate_def split: option.splits)
    from upload_loop_files [OF up] q have f2: "fs_files w2 = fs_files w" by simp
    from Pair Inr up assms f2 show ?thesis
      by (cases r1)
         (auto simp: uploadAndGenerate_def Let_def ai_models_generateContent_def
               split: sum.splits)
  qed
qed

lemma gemini_request_files:
  assumes "gemini_request env files prompt sys out fileName model w = Some (r, cf, w')"
  shows "keeps_files (set cf) w w' \<and>
         (cf = [] \<or> (\<exists>root. findProjectRoot env w out = Inr root \<and>
                             cf = staged_paths env root files))"
proof (cases "findProjectRoot env w out")
  case (Inl e)
  with assms show ?thesis by (auto simp: gemini_request_def)
next
  case (Inr root)
  show ?thesis
  proof (cases "copyFilesToUploadsFolder env files root w")
    case (Pair r1 w1)
    from copyFiles_result [OF Pair] have k1: "keeps_files {} w w1"
      and st: "\<And>c. r1 = Inr c \<Longrightarrow> c = staged_paths env root files" by auto
    show ?thesis
    proof (cases r1)
      case (Inl e)
      with Pair Inr assms k1 show ?thesis
        by (auto simp: gemini_request_def intro: keeps_files_mono)
    next
      case copied: (Inr copied)
      from copied Pair Inr assms obtain r2 w2 where
        gen: "uploadAndGenerate env copied prompt root model (Some sys) w1 = Some (r2, w2)"
        by (auto simp: gemini_request_def split: option.splits)
      from uploadAndGenerate_files [OF gen] k1 have k2: "keeps_files {} w w2"
        by (auto simp: keeps_files_def)
      show ?thesis
      proof (cases r2)
        case (Inl e)
        with gen copied Pair Inr assms have "cf = copied" "w' = w2"
          by (auto simp: gemini_request_def)
        with k2 st [OF copied] Inr show ?thesis
          by (auto intro: keeps_files_mono)
      next
        case result: (Inr result)
        let ?path = "path_join env out (fileName (timestamp env w2))"
        show ?thesis
        proof (cases "writeFile env ?path result w2")
          case (Inl e)
          with result gen copied Pair Inr assms have "cf = copied" "w' = w2"
            by (auto simp: gemini_request_def)
          with k2 st [OF copied] Inr show ?thesis
            by (auto intro: keeps_files_mono)
        next
          case w3: (Inr w3)
          then have k3: "keeps_files {} w2 w3"
            by (auto simp: writeFile_def keeps_files_def split: option.splits if_splits)
          from w3 result gen copied Pair Inr assms
          have c: "cf = copied" "w' = cleanupUploadsFolder env copied w3"
            by (auto simp: gemini_request_def)
          have "keeps_files (set copied) w w3"
            by (rule keeps_files_mono [OF keeps_files_trans [OF k2 k3]]) simp
          from keeps_files_trans [OF this cleanup_keeps_others] c st [OF copied] Inr
          show ?thesis by auto
        qed
      qed
    qed
  qed
qed

lemma gemini_catch_files:
  assumes "gemini_catch env (gemini_request env files prompt sys out fileName model w) =
             Some (res, w')"
    and "fs_files w path \<noteq> None" and "fs_files w' path = None"
  shows "\<exists>root. findProjectRoot env w out = Inr root \<and> path \<in> set (staged_paths env root files)"
proof -
  from assms(1) obtain r cf w1 where
    run: "gemini_request env files prompt sys out fileName model w = Some (r, cf, w1)"
    by (cases "gemini_request env files prompt sys out fileName model w")
       (auto simp: gemini_catch_def)
  from gemini_request_files [OF run] have k: "keeps_files (set cf) w w1"
    and st: "cf = [] \<or> (\<exists>root. findProjectRoot env w out = Inr root \<and>
                             cf = staged_paths env root files)" by auto
  from run assms(1) have "w' = w1 \<or> w' = cleanupUploadsFolder env cf w1"
    by (cases r) (auto simp: gemini_catch_def split: if_splits)
  with k keeps_files_trans [OF k cleanup_keeps_others] have "keeps_files (set cf) w w'"
    by auto
  with assms(2,3) have "path \<in> set cf" by (auto simp: keeps_files_def)
  with st show ?thesis by auto
qed

subsection \<open>A deletion that throws\<close>

text \<open>No step but the cleanup asks whether a deletion fails, and the cleanup returns no
  value: the result of a request is the same whatever deletions throw.\<close>

lemma findProjectRoot_loop_unlink [simp]:
  "findProjectRoot_loop (env\<lparr>unlink_fault := f\<rparr>) w n dir = findProjectRoot_loop env w n dir"
  by (induction n arbitrary: dir) (simp_all add: Let_def)

lemma findProjectRoot_unlink [simp]:
  "findProjectRoot (env\<lparr>unlink_fault := f\<rparr>) w out = findProjectRoot env w out"
  by (simp add: findProjectRoot_def)

lemma copyFile_unlink [simp]:
  "copyFile (env\<lparr>unlink_fault := f\<rparr>) src dst w = copyFile env src dst w"
  by (simp add: copyFile_def)

lemma copy_loop_unlink [simp]:
  "copy_loop (env\<lparr>unlink_fault := f\<rparr>) folder files copied w = copy_loop env folder files copied w"
  by (induction files arbitrary: copied w) (simp_all add: Let_def split: sum.splits)

lemma copyFiles_unlink [simp]:
  "copyFilesToUploadsFolder (env\<lparr>unlink_fault := f\<rparr>) files root w =
   copyFilesToUploadsFolder env files root w"
  by (simp add: copyFilesToUploadsFolder_def getUploadsFolderPath_def mkdirSync_def Let_def
           split: sum.splits option.splits)

lemma dotenv_config_unlink [simp]:
  "dotenv_config (env\<lparr>unlink_fault := f\<rparr>) p w = dotenv_config env p w"
  by (simp add: dotenv_config_def split: option.splits)

lemma loadEnvApiKey_unlink [simp]:
  "loadEnvApiKey (env\<lparr>unlink_fault := f\<rparr>) root w = loadEnvApiKey env root w"
  by (simp add: loadEnvApiKey_def Let_def)

lemma ai_files_upload_unlink [simp]:
  "ai_files_upload (env\<lparr>unlink_fault := f\<rparr>) k p m d w = ai_files_upload env k p m d w"
  by (simp add: ai_files_upload_def Let_def)

lemma ai_files_get_unlink [simp]:
  "ai_files_get (env\<lparr>unlink_fault := f\<rparr>) k n w = ai_files_get env k n w"
  by (simp add: ai_files_get_def Let_def)

lemma ai_models_generateContent_unlink [simp]:
  "ai_models_generateContent (env\<lparr>unlink_fault := f\<rparr>) k rq w =
   ai_models_generateContent env k rq w"
  by (simp add: ai_models_generateContent_def Let_def)

lemma writeFile_unlink [simp]:
  "writeFile (env\<lparr>unlink_fault := f\<rparr>) p c w = writeFile env p c w"
  by (simp add: writeFile_def)

lemma timestamp_unlink [simp]:
  "timestamp (env\<lparr>unlink_fault := f\<rparr>) w = timestamp env w"
  by (simp add: timestamp_def)

lemma waitActive_loop_unlink_Some:
  assumes run: "waitActive_loop env k n T I start w = Some y"
  shows "waitActive_loop (env\<lparr>unlink_fault := f\<rparr>) k n T I start w = Some y"
proof -
  have "\<forall>f. waitActive_loop (env\<lparr>unlink_fault := f\<rparr>) k n T I start w = Some y"
  proof (rule waitActive_loop.raw_induct
           [where P = "\<lambda>env k n T I start w y.
                         \<forall>f. waitActive_loop (env\<lparr>unlink_fault := f\<rparr>) k n T I start w = Some y",
            OF _ run])
    fix loop :: "env \<Rightarrow> string \<Rightarrow> string \<Rightarrow> nat \<Rightarrow> nat \<Rightarrow> nat \<Rightarrow> world
                   \<Rightarrow> ((js_exn + remote_file) \<times> world) option"
      and env k n T I start w y
    assume IH: "\<And>env k n T I start w y. loop env k n T I start w = Some y \<Longrightarrow>
                  \<forall>f. waitActive_loop (env\<lparr>unlink_fault := f\<rparr>) k n T I start w = Some y"
      and body: "(let (r, w1) = ai_files_get env k n w; state = file_state r
                  in if state = Some ''ACTIVE'' then Some (r, w1)
                     else if state = Some ''FAILED'' then Some (Inl (failed_error n), w1)
                     else if clock w1 - start > T then Some (Inl (timeout_error n), w1)
                     else loop env k n T I start (setTimeout I w1)) = Some y"
    show "\<forall>f. waitActive_loop (env\<lparr>unlink_fault := f\<rparr>) k n T I start w = Some y"
    proof
      fix f
      show "waitActive_loop (env\<lparr>unlink_fault := f\<rparr>) k n T I start w = Some y"
        using body IH
        by (subst waitActive_loop.simps)
           (auto simp: case_prod_beta Let_def split: if_splits)
    qed
  qed
  then show ?thesis by simp
qed

lemma waitActive_loop_unlink [simp]:
  "waitActive_loop (env\<lparr>unlink_fault := f\<rparr>) k n T I start w = waitActive_loop env k n T I start w"
proof (cases "waitActive_loop env k n T I start w")
  case (Some y)
  with waitActive_loop_unlink_Some [OF Some] show ?thesis by simp
next
  case None
  show ?thesis
  proof (cases "waitActive_loop (env\<lparr>unlink_fault := f\<rparr>) k n T I start w")
    case a: None
    with None show ?thesis by simp
  next
    case (Some y)
    from waitActive_loop_unlink_Some [OF Some, of "unlink_fault env"] None
    show ?thesis by simp
  qed
qed

lemma upload_loop_unlink [simp]:
  "upload_loop (env\<lparr>unlink_fault := f\<rparr>) k files ups w = upload_loop env k files ups w"
proof (induction files arbitrary: ups w)
  case Nil
  show ?case by simp
next
  case (Cons p ps)
  show ?case
    by (simp add: upload_loop_Cons waitActive_def Cons.IH
             split: option.splits sum.splits prod.splits)
qed

lemma uploadAndGenerate_unlink [simp]:
  "uploadAndGenerate (env\<lparr>unlink_fault := f\<rparr>) files prompt root model sys w =
   uploadAndGenerate env files prompt root model sys w"
  by (simp add: uploadAndGenerate_def Let_def split: option.splits sum.splits prod.splits)

lemma gemini_request_unlink:
  "map_option (\<lambda>(r, cf, w'). (r, cf))
     (gemini_request (env\<lparr>unlink_fault := f\<rparr>) files prompt sys out fileName model w) =
   map_option (\<lambda>(r, cf, w'). (r, cf))
     (gemini_request env files prompt sys out fileName model w)"
  by (simp add: gemini_request_def split: sum.splits prod.splits option.splits)

lemma gemini_catch_unlink:
  "map_option fst (gemini_catch (env\<lparr>unlink_fault := f\<rparr>)
     (gemini_request (env\<lparr>unlink_fault := f\<rparr>) files prompt sys out fileName model w)) =
   map_option fst (gemini_catch env (gemini_request env files prompt sys out fileName model w))"
proof -
  have shape: "map_option fst (gemini_catch e run) =
        map_option (\<lambda>(r, cf). case r of
                       Inl x \<Rightarrow> \<lparr>success = False, outputPath = None, error = Some (errorMessage x)\<rparr>
                     | Inr path \<Rightarrow> \<lparr>success = True, outputPath = Some path, error = None\<rparr>)
          (map_option (\<lambda>(r, cf, w'). (r, cf)) run)" for e run
    by (simp add: gemini_catch_def split: option.splits sum.splits prod.splits)
  show ?thesis unfolding shape gemini_request_unlink by (rule refl)
qed

lemma gemini_spec_files:
  "GeminiService_generateGameSpecification env s p out name model w = Some (res, w') \<Longrightarrow>
   fs_files w path \<noteq> None \<Longrightarrow> fs_files w' path = None \<Longrightarrow>
   \<exists>root. findProjectRoot env w out = Inr root \<and> path \<in> set (staged_paths env root (s @ p))"
  unfolding spec_catch spec_try_request by (rule gemini_catch_files)

lemma gemini_game_files:
  "GeminiService_implementGame env g out name model w = Some (res, w') \<Longrightarrow>
   fs_files w path \<noteq> None \<Longrightarrow> fs_files w' path = None \<Longrightarrow>
   \<exists>root. findProjectRoot env w out = Inr root \<and> path \<in> set (staged_paths env root g)"
  unfolding game_catch game_try_request by (rule gemini_catch_files)

lemma gemini_spec_unlink:
  "map_option fst (GeminiService_generateGameSpecification (env\<lparr>unlink_fault := f\<rparr>) s p out name model w) =
   map_option fst (GeminiService_generateGameSpecification env s p out name model w)"
  unfolding spec_catch spec_try_request by (rule gemini_catch_unlink)

lemma gemini_game_unlink:
  "map_option fst (GeminiService_implementGame (env\<lparr>unlink_fault := f\<rparr>) g out name model w) =
   map_option fst (GeminiService_implementGame env g out name model w)"
  unfolding game_catch game_try_request by (rule gemini_catch_unlink)

subsection \<open>A throw at each stage\<close>

text \<open>A loop over the files that has worked through the first \<open>i\<close> of them goes on with
  the rest; so a throw at any file, after the files before it, is what the stage throws,
  and what the \<open>catch\<close> block of the operation turns into a failure.\<close>

lemma copy_loop_append:
  "copy_loop env folder (xs @ ys) copied w =
     (case copy_loop env folder xs copied w of
        (Inl e, w1) \<Rightarrow> (Inl e, w1)
      | (Inr c, w1) \<Rightarrow> copy_loop env folder ys c w1)"
  by (induction xs arbitrary: copied w) (simp_all add: Let_def split: sum.splits)

lemma upload_loop_append:
  "upload_loop env k (xs @ ys) ups w =
     (case upload_loop env k xs ups w of
        None \<Rightarrow> None
      | Some (Inl e, w1) \<Rightarrow> Some (Inl e, w1)
      | Some (Inr u, w1) \<Rightarrow> upload_loop env k ys u w1)"
  by (induction xs arbitrary: ups w)
     (simp_all add: upload_loop_Cons split: sum.splits option.splits prod.splits)

lemma staging_mkdir_throws:
  assumes "\<not> existsSync w (getUploadsFolderPath env root)"
    and "mkdirSync env (getUploadsFolderPath env root) w = Inl e"
  shows "copyFilesToUploadsFolder env files root w = (Inl e, w)"
  using assms by (simp add: copyFilesToUploadsFolder_def)

lemma staging_prefix:
  "copyFilesToUploadsFolder env (xs @ ys) root w =
     (case copyFilesToUploadsFolder env xs root w of
        (Inl e, w1) \<Rightarrow> (Inl e, w1)
      | (Inr c, w1) \<Rightarrow> copy_loop env (getUploadsFolderPath env root) ys c w1)"
  by (simp add: copyFilesToUploadsFolder_def Let_def copy_loop_append split: sum.splits)

lemma staging_copy_throws:
  assumes i: "i < length files"
    and pre: "copyFilesToUploadsFolder env (take i files) root w = (Inr copied, w1)"
    and cp: "copyFile env (normalizePath (files ! i))
               (path_join env (getUploadsFolderPath env root)
                  (path_basename env (normalizePath (files ! i)))) w1 = Inl e"
  shows "copyFilesToUploadsFolder env files root w = (Inl e, w1)"
proof -
  from i have "files = take i files @ files ! i # drop (Suc i) files"
    by (rule id_take_nth_drop)
  then have "copyFilesToUploadsFolder env files root w =
             copyFilesToUploadsFolder env (take i files @ files ! i # drop (Suc i) files) root w"
    by simp
  also have "\<dots> = (Inl e, w1)"
    unfolding staging_prefix using pre cp by (simp add: Let_def)
  finally show ?thesis .
qed

lemma upload_file_throws:
  assumes i: "i < length files"
    and pre: "upload_loop env k (take i files) [] w = Some (Inr uploaded, w1)"
    and up: "ai_files_upload env k (files ! i)
               (js_or_default (mime_lookup env (files ! i)) ''application/octet-stream'')
               (path_basename env (files ! i)) w1 = (Inl e, w2)"
  shows "upload_loop env k files [] w = Some (Inl e, w2)"
proof -
  from i have "files = take i files @ files ! i # drop (Suc i) files"
    by (rule id_take_nth_drop)
  then have "upload_loop env k files [] w =
             upload_loop env k (take i files @ files ! i # drop (Suc i) files) [] w"
    by simp
  also have "\<dots> = Some (Inl e, w2)"
    unfolding upload_loop_append using pre up by (simp add: upload_loop_Cons)
  finally show ?thesis .
qed

lemma upload_file_unnamed:
  assumes i: "i < length files"
    and pre: "upload_loop env k (take i files) [] w = Some (Inr uploaded, w1)"
    and up: "ai_files_upload env k (files ! i)
               (js_or_default (mime_lookup env (files ! i)) ''application/octet-stream'')
               (path_basename env (files ! i)) w1 = (Inr f, w2)"
    and name: "js_or_default (rf_name f) [] = []"
  shows "upload_loop env k files [] w =
           Some (Inl (Error (''Upload failed for '' @ path_basename env (files ! i) @
                             '': no file name returned'')), w2)"
proof -
  from i have "files = take i files @ files ! i # drop (Suc i) files"
    by (rule id_take_nth_drop)
  then have "upload_loop env k files [] w =
             upload_loop env k (take i files @ files ! i # drop (Suc i) files) [] w"
    by simp
  also have "\<dots> = Some (Inl (Error (''Upload failed for '' @ path_basename env (files ! i) @
                             '': no file name returned'')), w2)"
    unfolding upload_loop_append using pre up name by (simp add: upload_loop_Cons)
  finally show ?thesis .
qed

lemma upload_file_poll_fails:
  assumes i: "i < length files"
    and pre: "upload_loop env k (take i files) [] w = Some (Inr uploaded, w1)"
    and up: "ai_files_upload env k (files ! i)
               (js_or_default (mime_lookup env (files ! i)) ''application/octet-stream'')
               (path_basename env (files ! i)) w1 = (Inr f, w2)"
    and name: "js_or_default (rf_name f) [] \<noteq> []"
    and poll: "waitActive env k (js_or_default (rf_name f) []) TIMEOUT_MS POLL_INTERVAL_MS w2 =
                 Some (Inl e, w3)"
  shows "upload_loop env k files [] w = Some (Inl e, w3)"
proof -
  from i have "files = take i files @ files ! i # drop (Suc i) files"
    by (rule id_take_nth_drop)
  then have "upload_loop env k files [] w =
             upload_loop env k (take i files @ files ! i # drop (Suc i) files) [] w"
    by simp
  also have "\<dots> = Some (Inl e, w3)"
    unfolding upload_loop_append using pre up name poll by (simp add: upload_loop_Cons)
  finally show ?thesis .
qed

lemma generate_credential_throws:
  "loadEnvApiKey env root w = (Inl e, w1) \<Longrightarrow>
     uploadAndGenerate env files prompt root model sys w = Some (Inl e, w1)"
  by (simp add: uploadAndGenerate_def)

lemma generate_upload_throws:
  "loadEnvApiKey env root w = (Inr k, w1) \<Longrightarrow>
   upload_loop env k files [] w1 = Some (Inl e, w2) \<Longrightarrow>
     uploadAndGenerate env files prompt root model sys w = Some (Inl e, w2)"
  by (simp add: uploadAndGenerate_def)

lemma generate_call_throws:
  "loadEnvApiKey env root w = (Inr k, w1) \<Longrightarrow>
   upload_loop env k files [] w1 = Some (Inr uploaded, w2) \<Longrightarrow>
   ai_models_generateContent env k
     \<lparr>rq_model = model, rq_text = prompt,
      rq_fileParts = map (\<lambda>f. (rf_uri f, js_or_default (rf_mimeType f)
                                          ''application/octet-stream'')) uploaded,
      rq_systemInstruction = (if truthy sys then sys else None)\<rparr> w2 = (Inl e, w3) \<Longrightarrow>
     uploadAndGenerate env files prompt root model sys w = Some (Inl e, w3)"
  by (simp add: uploadAndGenerate_def Let_def)

lemma request_anchor_throws:
  "findProjectRoot env w out = Inl e \<Longrightarrow>
     gemini_catch env (gemini_request env files prompt sys out fileName model w) =
       Some (failure_result e, w)"
  by (simp add: gemini_request_def gemini_catch_def failure_result_def)

lemma request_staging_throws:
  "findProjectRoot env w out = Inr root \<Longrightarrow>
   copyFilesToUploadsFolder env files root w = (Inl e, w1) \<Longrightarrow>
     gemini_catch env (gemini_request env files prompt sys out fileName model w) =
       Some (failure_result e, w1)"
  by (simp add: gemini_request_def gemini_catch_def failure_result_def)

lemma request_generate_throws:
  "findProjectRoot env w out = Inr root \<Longrightarrow>
   copyFilesToUploadsFolder env files root w = (Inr copied, w1) \<Longrightarrow>
   uploadAndGenerate env copied prompt root model (Some sys) w1 = Some (Inl e, w2) \<Longrightarrow>
     map_option fst
       (gemini_catch env (gemini_request env files prompt sys out fileName model w)) =
       Some (failure_result e)"
  by (simp add: gemini_request_def gemini_catch_def failure_result_def)

lemma request_write_throws:
  "findProjectRoot env w out = Inr root \<Longrightarrow>
   copyFilesToUploadsFolder env files root w = (Inr copied, w1) \<Longrightarrow>
   uploadAndGenerate env copied prompt root model (Some sys) w1 = Some (Inr result, w2) \<Longrightarrow>
   writeFile env (path_join env out (fileName (timestamp env w2))) result w2 = Inl e \<Longrightarrow>
     map_option fst
       (gemini_catch env (gemini_request env files prompt sys out fileName model w)) =
       Some (failure_result e)"
  by (simp add: gemini_request_def gemini_catch_def failure_result_def)

lemma read_documents_fails:
  "\<exists>d \<in> set docs. \<exists>e. readFile env w d = Inl e \<Longrightarrow>
     \<exists>d \<in> set docs. \<exists>e. readFile env w d = Inl e \<and> read_documents env w kind docs = Inl e"
proof (induction docs)
  case Nil
  then show ?case by simp
next
  case (Cons d docs)
  show ?case
  proof (cases "readFile env w d")
    case (Inl e)
    then show ?thesis by auto
  next
    case (Inr c)
    with Cons.prems have "\<exists>d \<in> set docs. \<exists>e. readFile env w d = Inl e" by auto
    from Cons.IH [OF this] Inr show ?thesis by auto
  qed
qed

lemma read_documents_reads:
  "read_documents env w kind docs = Inr blocks \<Longrightarrow> d \<in> set docs \<Longrightarrow>
     \<exists>c. readFile env w d = Inr c"
  by (induction docs arbitrary: blocks) (auto split: sum.splits)

lemma read_documents_thrown:
  "read_documents env w kind docs = Inl e \<Longrightarrow> \<exists>d \<in> set docs. readFile env w d = Inl e"
  by (induction docs) (auto split: sum.splits)

lemma specification_prompt_fails:
  assumes "\<exists>d \<in> set (s @ p). \<exists>e. readFile env w d = Inl e"
  shows "\<exists>d \<in> set (s @ p). \<exists>e. readFile env w d = Inl e \<and>
           specification_prompt env w s p name = Inl e"
proof (cases "read_documents env w ''Source Document'' s")
  case (Inl e)
  from read_documents_thrown [OF Inl] Inl show ?thesis
    by (auto simp: specification_prompt_def)
next
  case (Inr blocks)
  from read_documents_reads [OF Inr] assms
  have "\<exists>d \<in> set p. \<exists>e. readFile env w d = Inl e" by fastforce
  from read_documents_fails [OF this, of "''Prompting Document''"] Inr show ?thesis
    by (auto simp: specification_prompt_def)
qed

lemma implementation_prompt_fails:
  assumes "\<exists>d \<in> set g. \<exists>e. readFile env w d = Inl e"
  shows "\<exists>d \<in> set g. \<exists>e. readFile env w d = Inl e \<and>
           implementation_prompt env w g name = Inl e"
  using read_documents_fails [OF assms, of "''Game Specification''"]
  by (auto simp: implementation_prompt_def)

lemma direct_anthropic_key:
  "getConfiguration env w = Inr config \<Longrightarrow>
   js_or_default (aiProvider config) ''anthropic'' = ''anthropic'' \<Longrightarrow>
   credential_missing (anthropicApiKey config) \<Longrightarrow>
     claude_catch (direct_request env prompt path_of w) =
       Some (failure_result (communication_error anthropic_key_error), w)"
  by (simp add: claude_catch_def direct_request_def sendToAI_def sendToAI_try_def
        sendToAnthropic_def failure_result_def communication_error_def Let_def)

lemma direct_anthropic_call:
  "getConfiguration env w = Inr config \<Longrightarrow>
   js_or_default (aiProvider config) ''anthropic'' = ''anthropic'' \<Longrightarrow>
   \<not> credential_missing (anthropicApiKey config) \<Longrightarrow>
   anthropic_messages_create env
     (w\<lparr>net_log := net_log w @
          [AnthropicMessagesCreate (js_or_default (anthropicApiKey config) [])
             (js_or_default (aiModel config) ''claude-3-5-sonnet-20241022'') 8192 prompt]\<rparr>)
     (js_or_default (aiModel config) ''claude-3-5-sonnet-20241022'') prompt = Inl e \<Longrightarrow>
     claude_catch (direct_request env prompt path_of w) =
       Some (failure_result (communication_error e),
             w\<lparr>net_log := net_log w @
                 [AnthropicMessagesCreate (js_or_default (anthropicApiKey config) [])
                    (js_or_default (aiModel config) ''claude-3-5-sonnet-20241022'') 8192 prompt]\<rparr>)"
  by (simp add: claude_catch_def direct_request_def sendToAI_def sendToAI_try_def
        sendToAnthropic_def failure_result_def communication_error_def Let_def)

lemma direct_openai_key:
  "getConfiguration env w = Inr config \<Longrightarrow>
   js_or_default (aiProvider config) ''anthropic'' = ''openai'' \<Longrightarrow>
   credential_missing (openaiApiKey config) \<Longrightarrow>
     claude_catch (direct_request env prompt path_of w) =
       Some (failure_result (communication_error openai_key_error), w)"
  by (simp add: claude_catch_def direct_request_def sendToAI_def sendToAI_try_def
        sendToOpenAI_def failure_result_def communication_error_def Let_def)

lemma direct_openai_call:
  "getConfiguration env w = Inr config \<Longrightarrow>
   js_or_default (aiProvider config) ''anthropic'' = ''openai'' \<Longrightarrow>
   \<not> credential_missing (openaiApiKey config) \<Longrightarrow>
   openai_chat_create env
     (w\<lparr>net_log := net_log w @
          [OpenAIChatCreate (js_or_default (openaiApiKey config) [])
             (js_or_default (aiModel config) ''claude-3-5-sonnet-20241022'') prompt 8192]\<rparr>)
     (js_or_default (aiModel config) ''claude-3-5-sonnet-20241022'') prompt = Inl e \<Longrightarrow>
     claude_catch (direct_request env prompt path_of w) =
       Some (failure_result (communication_error e),
             w\<lparr>net_log := net_log w @
                 [OpenAIChatCreate (js_or_default (openaiApiKey config) [])
                    (js_or_default (aiModel config) ''claude-3-5-sonnet-20241022'') prompt 8192]\<rparr>)"
  by (simp add: claude_catch_def direct_request_def sendToAI_def sendToAI_try_def
        sendToOpenAI_def failure_result_def communication_error_def Let_def)

lemma direct_unknown_provider:
  "getConfiguration env w = Inr config \<Longrightarrow>
   js_or_default (aiProvider config) ''anthropic'' \<noteq> ''anthropic'' \<Longrightarrow>
   js_or_default (aiProvider config) ''anthropic'' \<noteq> ''google'' \<Longrightarrow>
   js_or_default (aiProvider config) ''anthropic'' \<noteq> ''openai'' \<Longrightarrow>
     claude_catch (direct_request env prompt path_of w) =
       Some (failure_result (communication_error
               (Error (''Unknown AI provider: '' @
                       js_or_default (aiProvider config) ''anthropic''))), w)"
  by (simp add: claude_catch_def direct_request_def sendToAI_def sendToAI_try_def
        failure_result_def communication_error_def Let_def)

lemma direct_write_throws:
  "sendToAI env prompt w = (Inr result, w1) \<Longrightarrow>
   writeFile env (path_of (timestamp env w1)) result w1 = Inl e \<Longrightarrow>
     claude_catch (direct_request env prompt path_of w) = Some (failure_result e, w1)"
  by (simp add: claude_catch_def direct_request_def failure_result_def)

lemma claude_spec_config_throws:
  "getConfiguration env w = Inl e \<Longrightarrow>
     ClaudeService_generateGameSpecification env s p out name w = Some (failure_result e, w)"
  by (simp add: claude_spec_catch claude_spec_try_shape claude_catch_def failure_result_def)

lemma claude_game_config_throws:
  "getConfiguration env w = Inl e \<Longrightarrow>
     ClaudeService_implementGame env g out name w = Some (failure_result e, w)"
  by (simp add: claude_game_catch claude_game_try_shape claude_catch_def failure_result_def)

lemma claude_spec_google:
  "getConfiguration env w = Inr config \<Longrightarrow>
   js_or_default (aiProvider config) ''anthropic'' = ''google'' \<Longrightarrow>
     ClaudeService_generateGameSpecification env s p out name w =
     GeminiService_generateGameSpecification env s p out name
       (if js_includes (js_or_default (aiModel config) ''gemini-2.5-flash'') ''gemini''
        then js_or_default (aiModel config) ''gemini-2.5-flash'' else ''gemini-2.5-flash'') w"
  by (simp add: claude_spec_catch claude_spec_try_shape claude_catch_def
           split: option.splits)

lemma claude_game_google:
  "getConfiguration env w = Inr config \<Longrightarrow>
   js_or_default (aiProvider config) ''anthropic'' = ''google'' \<Longrightarrow>
     ClaudeService_implementGame env g out name w =
     GeminiService_implementGame env g out name
       (if js_includes (js_or_default (aiModel config) ''gemini-2.5-flash'') ''gemini''
        then js_or_default (aiModel config) ''gemini-2.5-flash'' else ''gemini-2.5-flash'') w"
  by (simp add: claude_game_catch claude_game_try_shape claude_catch_def
           split: option.splits)

lemma claude_spec_read_throws:
  "getConfiguration env w = Inr config \<Longrightarrow>
   js_or_default (aiProvider config) ''anthropic'' \<noteq> ''google'' \<Longrightarrow>
   specification_prompt env w s p name = Inl e \<Longrightarrow>
     ClaudeService_generateGameSpecification env s p out name w = Some (failure_result e, w)"
  by (simp add: claude_spec_catch claude_spec_try_shape claude_catch_def failure_result_def)

lemma claude_game_read_throws:
  "getConfiguration env w = Inr config \<Longrightarrow>
   js_or_default (aiProvider config) ''anthropic'' \<noteq> ''google'' \<Longrightarrow>
   implementation_prompt env w g name = Inl e \<Longrightarrow>
     ClaudeService_implementGame env g out name w = Some (failure_result e, w)"
  by (simp add: claude_game_catch claude_game_try_shape claude_catch_def failure_result_def)

lemma claude_spec_direct:
  "getConfiguration env w = Inr config \<Longrightarrow>
   js_or_default (aiProvider config) ''anthropic'' \<noteq> ''google'' \<Longrightarrow>
   specification_prompt env w s p name = Inr prompt \<Longrightarrow>
     ClaudeService_generateGameSpecification env s p out name w =
     claude_catch (direct_request env prompt
       (\<lambda>ts. path_join env out (name @ ''-spec-'' @ ts @ ''.md'')) w)"
  by (simp add: claude_spec_catch claude_spec_try_shape)

lemma claude_game_direct:
  "getConfiguration env w = Inr config \<Longrightarrow>
   js_or_default (aiProvider config) ''anthropic'' \<noteq> ''google'' \<Longrightarrow>
   implementation_prompt env w g name = Inr prompt \<Longrightarrow>
     ClaudeService_implementGame env g out name w =
     claude_catch (direct_request env prompt
       (\<lambda>ts. js_replace (path_join env out (name @ ''-game-'' @ ts @ ''.zip''))
                ''.zip'' ''.txt'') w)"
  by (simp add: claude_game_catch claude_game_try_shape)

lemma generate_returns:
  "loadEnvApiKey env root w = (Inr k, w1) \<Longrightarrow>
   upload_loop env k files [] w1 = Some (Inr uploaded, w2) \<Longrightarrow>
   ai_models_generateContent env k
     \<lparr>rq_model = model, rq_text = prompt,
      rq_fileParts = map (\<lambda>f. (rf_uri f, js_or_default (rf_mimeType f)
                                          ''application/octet-stream'')) uploaded,
      rq_systemInstruction = (if truthy sys then sys else None)\<rparr> w2 = (Inr text, w3) \<Longrightarrow>
     uploadAndGenerate env files prompt root model sys w =
       Some (Inr (case text of None \<Rightarrow> [] | Some t \<Rightarrow> t), w3)"
  by (simp add: uploadAndGenerate_def Let_def)

lemma stage_anchor:
  "findProjectRoot env w outputDirectory = Inl e \<Longrightarrow>
     map_option fst
       (gemini_catch env (gemini_request env files prompt systemInstruction outputDirectory
           fileName model w)) = Some (failure_result e)"
  by (simp add: request_anchor_throws)

lemma stage_mkdir:
  "findProjectRoot env w outputDirectory = Inr projectRoot \<Longrightarrow>
   \<not> existsSync w (getUploadsFolderPath env projectRoot) \<Longrightarrow>
   mkdirSync env (getUploadsFolderPath env projectRoot) w = Inl e \<Longrightarrow>
     map_option fst
       (gemini_catch env (gemini_request env files prompt systemInstruction outputDirectory
           fileName model w)) = Some (failure_result e)"
  by (simp add: request_staging_throws [OF _ staging_mkdir_throws])

lemma stage_copy:
  "findProjectRoot env w outputDirectory = Inr projectRoot \<Longrightarrow>
   i < length files \<Longrightarrow>
   copyFilesToUploadsFolder env (take i files) projectRoot w = (Inr copied, w1) \<Longrightarrow>
   copyFile env (normalizePath (files ! i))
     (path_join env (getUploadsFolderPath env projectRoot)
        (path_basename env (normalizePath (files ! i)))) w1 = Inl e \<Longrightarrow>
     map_option fst
       (gemini_catch env (gemini_request env files prompt systemInstruction outputDirectory
           fileName model w)) = Some (failure_result e)"
  by (simp add: request_staging_throws [OF _ staging_copy_throws])

lemma stage_credential:
  "findProjectRoot env w outputDirectory = Inr projectRoot \<Longrightarrow>
   copyFilesToUploadsFolder env files projectRoot w = (Inr copiedFiles, w1) \<Longrightarrow>
   loadEnvApiKey env projectRoot w1 = (Inl e, w2) \<Longrightarrow>
     map_option fst
       (gemini_catch env (gemini_request env files prompt systemInstruction outputDirectory
           fileName model w)) = Some (failure_result e)"
  by (rule request_generate_throws [OF _ _ generate_credential_throws])

lemma stage_upload:
  "findProjectRoot env w outputDirectory = Inr projectRoot \<Longrightarrow>
   copyFilesToUploadsFolder env files projectRoot w = (Inr copiedFiles, w1) \<Longrightarrow>
   loadEnvApiKey env projectRoot w1 = (Inr apiKey, w2) \<Longrightarrow>
   i < length copiedFiles \<Longrightarrow>
   upload_loop env apiKey (take i copiedFiles) [] w2 = Some (Inr uploaded, w3) \<Longrightarrow>
   ai_files_upload env apiKey (copiedFiles ! i)
     (js_or_default (mime_lookup env (copiedFiles ! i)) ''application/octet-stream'')
     (path_basename env (copiedFiles ! i)) w3 = (Inl e, w4) \<Longrightarrow>
     map_option fst
       (gemini_catch env (gemini_request env files prompt systemInstruction outputDirectory
           fileName model w)) = Some (failure_result e)"
  by (rule request_generate_throws
             [OF _ _ generate_upload_throws [OF _ upload_file_throws]])

lemma stage_unnamed:
  "findProjectRoot env w outputDirectory = Inr projectRoot \<Longrightarrow>
   copyFilesToUploadsFolder env files projectRoot w = (Inr copiedFiles, w1) \<Longrightarrow>
   loadEnvApiKey env projectRoot w1 = (Inr apiKey, w2) \<Longrightarrow>
   i < length copiedFiles \<Longrightarrow>
   upload_loop env apiKey (take i copiedFiles) [] w2 = Some (Inr uploaded, w3) \<Longrightarrow>
   ai_files_upload env apiKey (copiedFiles ! i)
     (js_or_default (mime_lookup env (copiedFiles ! i)) ''application/octet-stream'')
     (path_basename env (copiedFiles ! i)) w3 = (Inr f, w4) \<Longrightarrow>
   js_or_default (rf_name f) [] = [] \<Longrightarrow>
     map_option fst
       (gemini_catch env (gemini_request env files prompt systemInstruction outputDirectory
           fileName model w)) =
       Some (failure_result (Error (''Upload failed for '' @ path_basename env (copiedFiles ! i) @
                                    '': no file name returned'')))"
  by (rule request_generate_throws
             [OF _ _ generate_upload_throws [OF _ upload_file_unnamed]])

lemma stage_poll:
  "findProjectRoot env w outputDirectory = Inr projectRoot \<Longrightarrow>
   copyFilesToUploadsFolder env files projectRoot w = (Inr copiedFiles, w1) \<Longrightarrow>
   loadEnvApiKey env projectRoot w1 = (Inr apiKey, w2) \<Longrightarrow>
   i < length copiedFiles \<Longrightarrow>
   upload_loop env apiKey (take i copiedFiles) [] w2 = Some (Inr uploaded, w3) \<Longrightarrow>
   ai_files_upload env apiKey (copiedFiles ! i)
     (js_or_default (mime_lookup env (copiedFiles ! i)) ''application/octet-stream'')
     (path_basename env (copiedFiles ! i)) w3 = (Inr f, w4) \<Longrightarrow>
   js_or_default (rf_name f) [] \<noteq> [] \<Longrightarrow>
   waitActive env apiKey (js_or_default (rf_name f) []) TIMEOUT_MS POLL_INTERVAL_MS w4 =
     Some (Inl e, w5) \<Longrightarrow>
     map_option fst
       (gemini_catch env (gemini_request env files prompt systemInstruction outputDirectory
           fileName model w)) = Some (failure_result e)"
  by (rule request_generate_throws
             [OF _ _ generate_upload_throws [OF _ upload_file_poll_fails]])

lemma stage_generate:
  "findProjectRoot env w outputDirectory = Inr projectRoot \<Longrightarrow>
   copyFilesToUploadsFolder env files projectRoot w = (Inr copiedFiles, w1) \<Longrightarrow>
   loadEnvApiKey env projectRoot w1 = (Inr apiKey, w2) \<Longrightarrow>
   upload_loop env apiKey copiedFiles [] w2 = Some (Inr uploaded, w3) \<Longrightarrow>
   ai_models_generateContent env apiKey
     \<lparr>rq_model = model, rq_text = prompt,
      rq_fileParts = map (\<lambda>f. (rf_uri f, js_or_default (rf_mimeType f)
                                          ''application/octet-stream'')) uploaded,
      rq_systemInstruction =
        (if truthy (Some systemInstruction) then Some systemInstruction else None)\<rparr> w3 =
     (Inl e, w4) \<Longrightarrow>
     map_option fst
       (gemini_catch env (gemini_request env files prompt systemInstruction outputDirectory
           fileName model w)) = Some (failure_result e)"
  by (rule request_generate_throws [OF _ _ generate_call_throws])

lemma stage_write:
  "findProjectRoot env w outputDirectory = Inr projectRoot \<Longrightarrow>
   copyFilesToUploadsFolder env files projectRoot w = (Inr copiedFiles, w1) \<Longrightarrow>
   loadEnvApiKey env projectRoot w1 = (Inr apiKey, w2) \<Longrightarrow>
   upload_loop env apiKey copiedFiles [] w2 = Some (Inr uploaded, w3) \<Longrightarrow>
   ai_models_generateContent env apiKey
     \<lparr>rq_model = model, rq_text = prompt,
      rq_fileParts = map (\<lambda>f. (rf_uri f, js_or_default (rf_mimeType f)
                                          ''application/octet-stream'')) uploaded,
      rq_systemInstruction =
        (if truthy (Some systemInstruction) then Some systemInstruction else None)\<rparr> w3 =
     (Inr text, w4) \<Longrightarrow>
   writeFile env (path_join env outputDirectory (fileName (timestamp env w4)))
     (case text of None \<Rightarrow> [] | Some t \<Rightarrow> t) w4 = Inl e \<Longrightarrow>
     map_option fst
       (gemini_catch env (gemini_request env files prompt systemInstruction outputDirectory
           fileName model w)) = Some (failure_result e)"
  by (rule request_write_throws [OF _ _ generate_returns])

lemma gemini_request_stages:
  "(\<forall>e. findProjectRoot env w outputDirectory = Inl e \<longrightarrow>
      map_option fst
        (gemini_catch env
            (gemini_request env files prompt systemInstruction outputDirectory fileName model w)) =
        Some (failure_result e)) \<and>
   (\<forall>projectRoot. findProjectRoot env w outputDirectory = Inr projectRoot \<longrightarrow>
      (\<forall>e. \<not> existsSync w (getUploadsFolderPath env projectRoot) \<and>
           mkdirSync env (getUploadsFolderPath env projectRoot) w = Inl e \<longrightarrow>
         map_option fst
           (gemini_catch env
               (gemini_request env files prompt systemInstruction outputDirectory fileName model w)) =
           Some (failure_result e)) \<and>
      (\<forall>i copied w1 e.
         i < length files \<and>
         copyFilesToUploadsFolder env (take i files) projectRoot w = (Inr copied, w1) \<and>
         copyFile env (normalizePath (files ! i))
           (path_join env (getUploadsFolderPath env projectRoot)
              (path_basename env (normalizePath (files ! i)))) w1 = Inl e \<longrightarrow>
         map_option fst
           (gemini_catch env
               (gemini_request env files prompt systemInstruction outputDirectory fileName model w)) =
           Some (failure_result e)) \<and>
      (\<forall>copiedFiles w1.
         copyFilesToUploadsFolder env files projectRoot w = (Inr copiedFiles, w1) \<longrightarrow>
         (\<forall>e w2. loadEnvApiKey env projectRoot w1 = (Inl e, w2) \<longrightarrow>
            map_option fst
              (gemini_catch env
                  (gemini_request env files prompt systemInstruction outputDirectory fileName model w)) =
              Some (failure_result e)) \<and>
         (\<forall>apiKey w2. loadEnvApiKey env projectRoot w1 = (Inr apiKey, w2) \<longrightarrow>
            (\<forall>i uploaded w3.
               i < length copiedFiles \<and>
               upload_loop env apiKey (take i copiedFiles) [] w2 = Some (Inr uploaded, w3) \<longrightarrow>
               (\<forall>e w4.
                  ai_files_upload env apiKey (copiedFiles ! i)
                    (js_or_default (mime_lookup env (copiedFiles ! i))
                       ''application/octet-stream'')
                    (path_basename env (copiedFiles ! i)) w3 = (Inl e, w4) \<longrightarrow>
                  map_option fst
                    (gemini_catch env
                        (gemini_request env files prompt systemInstruction outputDirectory fileName model w)) =
                    Some (failure_result e)) \<and>
               (\<forall>f w4.
                  ai_files_upload env apiKey (copiedFiles ! i)
                    (js_or_default (mime_lookup env (copiedFiles ! i))
                       ''application/octet-stream'')
                    (path_basename env (copiedFiles ! i)) w3 = (Inr f, w4) \<longrightarrow>
                  (js_or_default (rf_name f) [] = [] \<longrightarrow>
                     map_option fst
                       (gemini_catch env
                           (gemini_request env files prompt systemInstruction outputDirectory fileName model w)) =
                       Some (failure_result
                             (Error (''Upload failed for '' @
                                     path_basename env (copiedFiles ! i) @
                                     '': no file name returned'')))) \<and>
                  (\<forall>e w5.
                     js_or_default (rf_name f) [] \<noteq> [] \<and>
                     waitActive env apiKey (js_or_default (rf_name f) []) TIMEOUT_MS
                       POLL_INTERVAL_MS w4 = Some (Inl e, w5) \<longrightarrow>
                     map_option fst
                       (gemini_catch env
                           (gemini_request env files prompt systemInstruction outputDirectory fileName model w)) =
                       Some (failure_result e)))) \<and>
            (\<forall>uploaded w3.
               upload_loop env apiKey copiedFiles [] w2 = Some (Inr uploaded, w3) \<longrightarrow>
               (\<forall>e w4.
                  ai_models_generateContent env apiKey
                    \<lparr>rq_model = model, rq_text = prompt,
                     rq_fileParts =
                       map (\<lambda>f. (rf_uri f, js_or_default (rf_mimeType f)
                                               ''application/octet-stream'')) uploaded,
                     rq_systemInstruction =
                       (if truthy (Some systemInstruction) then Some systemInstruction else None)\<rparr> w3 =
                    (Inl e, w4) \<longrightarrow>
                  map_option fst
                    (gemini_catch env
                        (gemini_request env files prompt systemInstruction outputDirectory fileName model w)) =
                    Some (failure_result e)) \<and>
               (\<forall>text w4 e.
                  ai_models_generateContent env apiKey
                    \<lparr>rq_model = model, rq_text = prompt,
                     rq_fileParts =
                       map (\<lambda>f. (rf_uri f, js_or_default (rf_mimeType f)
                                               ''application/octet-stream'')) uploaded,
                     rq_systemInstruction =
                       (if truthy (Some systemInstruction) then Some systemInstruction else None)\<rparr> w3 =
                    (Inr text, w4) \<and>
                  writeFile env (path_join env outputDirectory (fileName (timestamp env w4)))
                    (case text of None \<Rightarrow> [] | Some t \<Rightarrow> t) w4 = Inl e \<longrightarrow>
                  map_option fst
                    (gemini_catch env
                        (gemini_request env files prompt systemInstruction outputDirectory fileName model w)) =
                    Some (failure_result e))))))"
proof (intro conjI allI impI)
qed ((elim conjE)?,
     (rule stage_anchor stage_mkdir stage_copy stage_credential stage_upload stage_unnamed
           stage_poll stage_generate stage_write; assumption))+

lemma gemini_spec_stages:
  "(\<forall>e. findProjectRoot env w outputDirectory = Inl e \<longrightarrow>
      map_option fst
        (GeminiService_generateGameSpecification env sourceDocuments promptingDocuments
            outputDirectory projectName model w) =
        Some (failure_result e)) \<and>
   (\<forall>projectRoot. findProjectRoot env w outputDirectory = Inr projectRoot \<longrightarrow>
      (\<forall>e. \<not> existsSync w (getUploadsFolderPath env projectRoot) \<and>
           mkdirSync env (getUploadsFolderPath env projectRoot) w = Inl e \<longrightarrow>
         map_option fst
           (GeminiService_generateGameSpecification env sourceDocuments promptingDocuments
               outputDirectory projectName model w) =
           Some (failure_result e)) \<and>
      (\<forall>i copied w1 e.
         i < length (sourceDocuments @ promptingDocuments) \<and>
         copyFilesToUploadsFolder env (take i (sourceDocuments @ promptingDocuments)) projectRoot w = (Inr copied, w1) \<and>
         copyFile env (normalizePath ((sourceDocuments @ promptingDocuments) ! i))
           (path_join env (getUploadsFolderPath env projectRoot)
              (path_basename env (normalizePath ((sourceDocuments @ promptingDocuments) ! i)))) w1 = Inl e \<longrightarrow>
         map_option fst
           (GeminiService_generateGameSpecification env sourceDocuments promptingDocuments
               outputDirectory projectName model w) =
           Some (failure_result e)) \<and>
      (\<forall>copiedFiles w1.
         copyFilesToUploadsFolder env (sourceDocuments @ promptingDocuments) projectRoot w = (Inr copiedFiles, w1) \<longrightarrow>
         (\<forall>e w2. loadEnvApiKey env projectRoot w1 = (Inl e, w2) \<longrightarrow>
            map_option fst
              (GeminiService_generateGameSpecification env sourceDocuments promptingDocuments
                  outputDirectory projectName model w) =
              Some (failure_result e)) \<and>
         (\<forall>apiKey w2. loadEnvApiKey env projectRoot w1 = (Inr apiKey, w2) \<longrightarrow>
            (\<forall>i uploaded w3.
               i < length copiedFiles \<and>
               upload_loop env apiKey (take i copiedFiles) [] w2 = Some (Inr uploaded, w3) \<longrightarrow>
               (\<forall>e w4.
                  ai_files_upload env apiKey (copiedFiles ! i)
                    (js_or_default (mime_lookup env (copiedFiles ! i))
                       ''application/octet-stream'')
                    (path_basename env (copiedFiles ! i)) w3 = (Inl e, w4) \<longrightarrow>
                  map_option fst
                    (GeminiService_generateGameSpecification env sourceDocuments promptingDocuments
                        outputDirectory projectName model w) =
                    Some (failure_result e)) \<and>
               (\<forall>f w4.
                  ai_files_upload env apiKey (copiedFiles ! i)
                    (js_or_default (mime_lookup env (copiedFiles ! i))
                       ''application/octet-stream'')
                    (path_basename env (copiedFiles ! i)) w3 = (Inr f, w4) \<longrightarrow>
                  (js_or_default (rf_name f) [] = [] \<longrightarrow>
                     map_option fst
                       (GeminiService_generateGameSpecification env sourceDocuments promptingDocuments
                           outputDirectory projectName model w) =
                       Some (failure_result
                             (Error (''Upload failed for '' @
                                     path_basename env (copiedFiles ! i) @
                                     '': no file name returned'')))) \<and>
                  (\<forall>e w5.
                     js_or_default (rf_name f) [] \<noteq> [] \<and>
                     waitActive env apiKey (js_or_default (rf_name f) []) TIMEOUT_MS
                       POLL_INTERVAL_MS w4 = Some (Inl e, w5) \<longrightarrow>
                     map_option fst
                       (GeminiService_generateGameSpecification env sourceDocuments promptingDocuments
                           outputDirectory projectName model w) =
                       Some (failure_result e)))) \<and>
            (\<forall>uploaded w3.
               upload_loop env apiKey copiedFiles [] w2 = Some (Inr uploaded, w3) \<longrightarrow>
               (\<forall>e w4.
                  ai_models_generateContent env apiKey
                    \<lparr>rq_model = model, rq_text = (gemini_specification_prompt projectName (length sourceDocuments)
                                    (length promptingDocuments)),
                     rq_fileParts =
                       map (\<lambda>f. (rf_uri f, js_or_default (rf_mimeType f)
                                               ''application/octet-stream'')) uploaded,
                     rq_systemInstruction =
                       (if truthy (Some gemini_specification_system) then Some gemini_specification_system else None)\<rparr> w3 =
                    (Inl e, w4) \<longrightarrow>
                  map_option fst
                    (GeminiService_generateGameSpecification env sourceDocuments promptingDocuments
                        outputDirectory projectName model w) =
                    Some (failure_result e)) \<and>
               (\<forall>text w4 e.
                  ai_models_generateContent env apiKey
                    \<lparr>rq_model = model, rq_text = (gemini_specification_prompt projectName (length sourceDocuments)
                                    (length promptingDocuments)),
                     rq_fileParts =
                       map (\<lambda>f. (rf_uri f, js_or_default (rf_mimeType f)
                                               ''application/octet-stream'')) uploaded,
                     rq_systemInstruction =
                       (if truthy (Some gemini_specification_system) then Some gemini_specification_system else None)\<rparr> w3 =
                    (Inr text, w4) \<and>
                  writeFile env (path_join env outputDirectory (projectName @ ''-spec-'' @ timestamp env w4 @ ''.md''))
                    (case text of None \<Rightarrow> [] | Some t \<Rightarrow> t) w4 = Inl e \<longrightarrow>
                  map_option fst
                    (GeminiService_generateGameSpecification env sourceDocuments promptingDocuments
                        outputDirectory projectName model w) =
                    Some (failure_result e))))))"
  unfolding spec_catch spec_try_request by (rule gemini_request_stages)

lemma gemini_game_stages:
  "(\<forall>e. findProjectRoot env w outputDirectory = Inl e \<longrightarrow>
      map_option fst
        (GeminiService_implementGame env gameSpecifications outputDirectory projectName
            model w) =
        Some (failure_result e)) \<and>
   (\<forall>projectRoot. findProjectRoot env w outputDirectory = Inr projectRoot \<longrightarrow>
      (\<forall>e. \<not> existsSync w (getUploadsFolderPath env projectRoot) \<and>
           mkdirSync env (getUploadsFolderPath env projectRoot) w = Inl e \<longrightarrow>
         map_option fst
           (GeminiService_implementGame env gameSpecifications outputDirectory projectName
               model w) =
           Some (failure_result e)) \<and>
      (\<forall>i copied w1 e.
         i < length gameSpecifications \<and>
         copyFilesToUploadsFolder env (take i gameSpecifications) projectRoot w = (Inr copied, w1) \<and>
         copyFile env (normalizePath (gameSpecifications ! i))
           (path_join env (getUploadsFolderPath env projectRoot)
              (path_basename env (normalizePath (gameSpecifications ! i)))) w1 = Inl e \<longrightarrow>
         map_option fst
           (GeminiService_implementGame env gameSpecifications outputDirectory projectName
               model w) =
           Some (failure_result e)) \<and>
      (\<forall>copiedFiles w1.
         copyFilesToUploadsFolder env gameSpecifications projectRoot w = (Inr copiedFiles, w1) \<longrightarrow>
         (\<forall>e w2. loadEnvApiKey env projectRoot w1 = (Inl e, w2) \<longrightarrow>
            map_option fst
              (GeminiService_implementGame env gameSpecifications outputDirectory projectName
                  model w) =
              Some (failure_result e)) \<and>
         (\<forall>apiKey w2. loadEnvApiKey env projectRoot w1 = (Inr apiKey, w2) \<longrightarrow>
            (\<forall>i uploaded w3.
               i < length copiedFiles \<and>
               upload_loop env apiKey (take i copiedFiles) [] w2 = Some (Inr uploaded, w3) \<longrightarrow>
               (\<forall>e w4.
                  ai_files_upload env apiKey (copiedFiles ! i)
                    (js_or_default (mime_lookup env (copiedFiles ! i))
                       ''application/octet-stream'')
                    (path_basename env (copiedFiles ! i)) w3 = (Inl e, w4) \<longrightarrow>
                  map_option fst
                    (GeminiService_implementGame env gameSpecifications outputDirectory projectName
                        model w) =
                    Some (failure_result e)) \<and>
               (\<forall>f w4.
                  ai_files_upload env apiKey (copiedFiles ! i)
                    (js_or_default (mime_lookup env (copiedFiles ! i))
                       ''application/octet-stream'')
                    (path_basename env (copiedFiles ! i)) w3 = (Inr f, w4) \<longrightarrow>
                  (js_or_default (rf_name f) [] = [] \<longrightarrow>
                     map_option fst
                       (GeminiService_implementGame env gameSpecifications outputDirectory projectName
                           model w) =
                       Some (failure_result
                             (Error (''Upload failed for '' @
                                     path_basename env (copiedFiles ! i) @
                                     '': no file name returned'')))) \<and>
                  (\<forall>e w5.
                     js_or_default (rf_name f) [] \<noteq> [] \<and>
                     waitActive env apiKey (js_or_default (rf_name f) []) TIMEOUT_MS
                       POLL_INTERVAL_MS w4 = Some (Inl e, w5) \<longrightarrow>
                     map_option fst
                       (GeminiService_implementGame env gameSpecifications outputDirectory projectName
                           model w) =
                       Some (failure_result e)))) \<and>
            (\<forall>uploaded w3.
               upload_loop env apiKey copiedFiles [] w2 = Some (Inr uploaded, w3) \<longrightarrow>
               (\<forall>e w4.
                  ai_models_generateContent env apiKey
                    \<lparr>rq_model = model, rq_text = gemini_implementation_prompt projectName,
                     rq_fileParts =
                       map (\<lambda>f. (rf_uri f, js_or_default (rf_mimeType f)
                                               ''application/octet-stream'')) uploaded,
                     rq_systemInstruction =
                       (if truthy (Some gemini_implementation_system) then Some gemini_implementation_system else None)\<rparr> w3 =
                    (Inl e, w4) \<longrightarrow>
                  map_option fst
                    (GeminiService_implementGame env gameSpecifications outputDirectory projectName
                        model w) =
                    Some (failure_result e)) \<and>
               (\<forall>text w4 e.
                  ai_models_generateContent env apiKey
                    \<lparr>rq_model = model, rq_text = gemini_implementation_prompt projectName,
                     rq_fileParts =
                       map (\<lambda>f. (rf_uri f, js_or_default (rf_mimeType f)
                                               ''application/octet-stream'')) uploaded,
                     rq_systemInstruction =
                       (if truthy (Some gemini_implementation_system) then Some gemini_implementation_system else None)\<rparr> w3 =
                    (Inr text, w4) \<and>
                  writeFile env (path_join env outputDirectory (projectName @ ''-game-'' @ timestamp env w4 @ ''.txt''))
                    (case text of None \<Rightarrow> [] | Some t \<Rightarrow> t) w4 = Inl e \<longrightarrow>
                  map_option fst
                    (GeminiService_implementGame env gameSpecifications outputDirectory projectName
                        model w) =
                    Some (failure_result e))))))"
  unfolding game_catch game_try_request by (rule gemini_request_stages)

lemma claude_spec_stage_read:
  assumes cfg: "getConfiguration env w = Inr config"
    and ng: "js_or_default (aiProvider config) ''anthropic'' \<noteq> ''google''"
    and bad: "\<exists>d \<in> set (sourceDocuments @ promptingDocuments). \<exists>e. readFile env w d = Inl e"
  shows "\<exists>d \<in> set (sourceDocuments @ promptingDocuments). \<exists>e. readFile env w d = Inl e \<and>
           ClaudeService_generateGameSpecification env sourceDocuments promptingDocuments outputDirectory projectName w = Some (failure_result e, w)"
proof -
  from specification_prompt_fails [OF bad] obtain d e where
    d: "d \<in> set (sourceDocuments @ promptingDocuments)" and r: "readFile env w d = Inl e"
    and p: "specification_prompt env w sourceDocuments promptingDocuments projectName = Inl e"
    by blast
  from claude_spec_read_throws [OF cfg ng p] d r show ?thesis by blast
qed

lemma claude_spec_stage_anthropic_key:
  assumes cfg: "getConfiguration env w = Inr config"
    and ng: "js_or_default (aiProvider config) ''anthropic'' \<noteq> ''google''"
    and pr: "specification_prompt env w sourceDocuments promptingDocuments projectName = Inr prompt"
    and pa: "js_or_default (aiProvider config) ''anthropic'' = ''anthropic''"
    and km: "credential_missing (anthropicApiKey config)"
  shows "ClaudeService_generateGameSpecification env sourceDocuments promptingDocuments outputDirectory projectName w =
           Some (failure_result (communication_error anthropic_key_error), w)"
  unfolding claude_spec_direct [OF cfg ng pr] by (rule direct_anthropic_key [OF cfg pa km])

lemma claude_spec_stage_anthropic_call:
  assumes cfg: "getConfiguration env w = Inr config"
    and ng: "js_or_default (aiProvider config) ''anthropic'' \<noteq> ''google''"
    and pr: "specification_prompt env w sourceDocuments promptingDocuments projectName = Inr prompt"
    and pa: "js_or_default (aiProvider config) ''anthropic'' = ''anthropic''"
    and km: "\<not> credential_missing (anthropicApiKey config)"
    and call: "anthropic_messages_create env
        (w\<lparr>net_log := net_log w @
          [AnthropicMessagesCreate (js_or_default (anthropicApiKey config) [])
             (js_or_default (aiModel config) ''claude-3-5-sonnet-20241022'') 8192 prompt]\<rparr>)
        (js_or_default (aiModel config) ''claude-3-5-sonnet-20241022'') prompt = Inl e"
  shows "ClaudeService_generateGameSpecification env sourceDocuments promptingDocuments outputDirectory projectName w =
           Some (failure_result (communication_error e),
                 w\<lparr>net_log := net_log w @
          [AnthropicMessagesCreate (js_or_default (anthropicApiKey config) [])
             (js_or_default (aiModel config) ''claude-3-5-sonnet-20241022'') 8192 prompt]\<rparr>)"
  unfolding claude_spec_direct [OF cfg ng pr] by (rule direct_anthropic_call [OF cfg pa km call])

lemma claude_spec_stage_openai_key:
  assumes cfg: "getConfiguration env w = Inr config"
    and ng: "js_or_default (aiProvider config) ''anthropic'' \<noteq> ''google''"
    and pr: "specification_prompt env w sourceDocuments promptingDocuments projectName = Inr prompt"
    and pa: "js_or_default (aiProvider config) ''anthropic'' = ''openai''"
    and km: "credential_missing (openaiApiKey config)"
  shows "ClaudeService_generateGameSpecification env sourceDocuments promptingDocuments outputDirectory projectName w =
           Some (failure_result (communication_error openai_key_error), w)"
  unfolding claude_spec_direct [OF cfg ng pr] by (rule direct_openai_key [OF cfg pa km])

lemma claude_spec_stage_openai_call:
  assumes cfg: "getConfiguration env w = Inr config"
    and ng: "js_or_default (aiProvider config) ''anthropic'' \<noteq> ''google''"
    and pr: "specification_prompt env w sourceDocuments promptingDocuments projectName = Inr prompt"
    and pa: "js_or_default (aiProvider config) ''anthropic'' = ''openai''"
    and km: "\<not> credential_missing (openaiApiKey config)"
    and call: "openai_chat_create env
        (w\<lparr>net_log := net_log w @
          [OpenAIChatCreate (js_or_default (openaiApiKey config) [])
             (js_or_default (aiModel config) ''claude-3-5-sonnet-20241022'') prompt 8192]\<rparr>)
        (js_or_default (aiModel config) ''claude-3-5-sonnet-20241022'') prompt = Inl e"
  shows "ClaudeService_generateGameSpecification env sourceDocuments promptingDocuments outputDirectory projectName w =
           Some (failure_result (communication_error e),
                 w\<lparr>net_log := net_log w @
          [OpenAIChatCreate (js_or_default (openaiApiKey config) [])
             (js_or_default (aiModel config) ''claude-3-5-sonnet-20241022'') prompt 8192]\<rparr>)"
  unfolding claude_spec_direct [OF cfg ng pr] by (rule direct_openai_call [OF cfg pa km call])

lemma claude_spec_stage_unknown:
  assumes cfg: "getConfiguration env w = Inr config"
    and ng: "js_or_default (aiProvider config) ''anthropic'' \<noteq> ''google''"
    and pr: "specification_prompt env w sourceDocuments promptingDocuments projectName = Inr prompt"
    and na: "js_or_default (aiProvider config) ''anthropic'' \<noteq> ''anthropic''"
    and no: "js_or_default (aiProvider config) ''anthropic'' \<noteq> ''openai''"
  shows "ClaudeService_generateGameSpecification env sourceDocuments promptingDocuments outputDirectory projectName w =
           Some (failure_result (communication_error
                   (Error (''Unknown AI provider: '' @ js_or_default (aiProvider config) ''anthropic''))), w)"
  unfolding claude_spec_direct [OF cfg ng pr] by (rule direct_unknown_provider [OF cfg na ng no])

lemma claude_spec_stage_write:
  assumes cfg: "getConfiguration env w = Inr config"
    and ng: "js_or_default (aiProvider config) ''anthropic'' \<noteq> ''google''"
    and pr: "specification_prompt env w sourceDocuments promptingDocuments projectName = Inr prompt"
    and sent: "sendToAI env prompt w = (Inr result, w1)"
    and wr: "writeFile env (path_join env outputDirectory
                                (projectName @ ''-spec-'' @ timestamp env w1 @ ''.md'')) result w1 = Inl e"
  shows "ClaudeService_generateGameSpecification env sourceDocuments promptingDocuments outputDirectory projectName w = Some (failure_result e, w1)"
  unfolding claude_spec_direct [OF cfg ng pr] by (rule direct_write_throws) (fact sent, fact wr)

lemma claude_game_stage_read:
  assumes cfg: "getConfiguration env w = Inr config"
    and ng: "js_or_default (aiProvider config) ''anthropic'' \<noteq> ''google''"
    and bad: "\<exists>d \<in> set gameSpecifications. \<exists>e. readFile env w d = Inl e"
  shows "\<exists>d \<in> set gameSpecifications. \<exists>e. readFile env w d = Inl e \<and>
           ClaudeService_implementGame env gameSpecifications outputDirectory projectName w = Some (failure_result e, w)"
proof -
  from implementation_prompt_fails [OF bad] obtain d e where
    d: "d \<in> set gameSpecifications" and r: "readFile env w d = Inl e"
    and p: "implementation_prompt env w gameSpecifications projectName = Inl e"
    by blast
  from claude_game_read_throws [OF cfg ng p] d r show ?thesis by blast
qed

lemma claude_game_stage_anthropic_key:
  assumes cfg: "getConfiguration env w = Inr config"
    and ng: "js_or_default (aiProvider config) ''anthropic'' \<noteq> ''google''"
    and pr: "implementation_prompt env w gameSpecifications projectName = Inr prompt"
    and pa: "js_or_default (aiProvider config) ''anthropic'' = ''anthropic''"
    and km: "credential_missing (anthropicApiKey config)"
  shows "ClaudeService_implementGame env gameSpecifications outputDirectory projectName w =
           Some (failure_result (communication_error anthropic_key_error), w)"
  unfolding claude_game_direct [OF cfg ng pr] by (rule direct_anthropic_key [OF cfg pa km])

lemma claude_game_stage_anthropic_call:
  assumes cfg: "getConfiguration env w = Inr config"
    and ng: "js_or_default (aiProvider config) ''anthropic'' \<noteq> ''google''"
    and pr: "implementation_prompt env w gameSpecifications projectName = Inr prompt"
    and pa: "js_or_default (aiProvider config) ''anthropic'' = ''anthropic''"
    and km: "\<not> credential_missing (anthropicApiKey config)"
    and call: "anthropic_messages_create env
        (w\<lparr>net_log := net_log w @
          [AnthropicMessagesCreate (js_or_default (anthropicApiKey config) [])
             (js_or_default (aiModel config) ''claude-3-5-sonnet-20241022'') 8192 prompt]\<rparr>)
        (js_or_default (aiModel config) ''claude-3-5-sonnet-20241022'') prompt = Inl e"
  shows "ClaudeService_implementGame env gameSpecifications outputDirectory projectName w =
           Some (failure_result (communication_error e),
                 w\<lparr>net_log := net_log w @
          [AnthropicMessagesCreate (js_or_default (anthropicApiKey config) [])
             (js_or_default (aiModel config) ''claude-3-5-sonnet-20241022'') 8192 prompt]\<rparr>)"
  unfolding claude_game_direct [OF cfg ng pr] by (rule direct_anthropic_call [OF cfg pa km call])

lemma claude_game_stage_openai_key:
  assumes cfg: "getConfiguration env w = Inr config"
    and ng: "js_or_default (aiProvider config) ''anthropic'' \<noteq> ''google''"
    and pr: "implementation_prompt env w gameSpecifications projectName = Inr prompt"
    and pa: "js_or_default (aiProvider config) ''anthropic'' = ''openai''"
    and km: "credential_missing (openaiApiKey config)"
  shows "ClaudeService_implementGame env gameSpecifications outputDirectory projectName w =
           Some (failure_result (communication_error openai_key_error), w)"
  unfolding claude_game_direct [OF cfg ng pr] by (rule direct_openai_key [OF cfg pa km])

lemma claude_game_stage_openai_call:
  assumes cfg: "getConfiguration env w = Inr config"
    and ng: "js_or_default (aiProvider config) ''anthropic'' \<noteq> ''google''"
    and pr: "implementation_prompt env w gameSpecifications projectName = Inr prompt"
    and pa: "js_or_default (aiProvider config) ''anthropic'' = ''openai''"
    and km: "\<not> credential_missing (openaiApiKey config)"
    and call: "openai_chat_create env
        (w\<lparr>net_log := net_log w @
          [OpenAIChatCreate (js_or_default (openaiApiKey config) [])
             (js_or_default (aiModel config) ''claude-3-5-sonnet-20241022'') prompt 8192]\<rparr>)
        (js_or_default (aiModel config) ''claude-3-5-sonnet-20241022'') prompt = Inl e"
  shows "ClaudeService_implementGame env gameSpecifications outputDirectory projectName w =
           Some (failure_result (communication_error e),
                 w\<lparr>net_log := net_log w @
          [OpenAIChatCreate (js_or_default (openaiApiKey config) [])
             (js_or_default (aiModel config) ''claude-3-5-sonnet-20241022'') prompt 8192]\<rparr>)"
  unfolding claude_game_direct [OF cfg ng pr] by (rule direct_openai_call [OF cfg pa km call])

lemma claude_game_stage_unknown:
  assumes cfg: "getConfiguration env w = Inr config"
    and ng: "js_or_default (aiProvider config) ''anthropic'' \<noteq> ''google''"
    and pr: "implementation_prompt env w gameSpecifications projectName = Inr prompt"
    and na: "js_or_default (aiProvider config) ''anthropic'' \<noteq> ''anthropic''"
    and no: "js_or_default (aiProvider config) ''anthropic'' \<noteq> ''openai''"
  shows "ClaudeService_implementGame env gameSpecifications outputDirectory projectName w =
           Some (failure_result (communication_error
                   (Error (''Unknown AI provider: '' @ js_or_default (aiProvider config) ''anthropic''))), w)"
  unfolding claude_game_direct [OF cfg ng pr] by (rule direct_unknown_provider [OF cfg na ng no])

lemma claude_game_stage_write:
  assumes cfg: "getConfiguration env w = Inr config"
    and ng: "js_or_default (aiProvider config) ''anthropic'' \<noteq> ''google''"
    and pr: "implementation_prompt env w gameSpecifications projectName = Inr prompt"
    and sent: "sendToAI env prompt w = (Inr result, w1)"
    and wr: "writeFile env (js_replace (path_join env outputDirectory
                                (projectName @ ''-game-'' @ timestamp env w1 @ ''.zip''))
                                ''.zip'' ''.txt'') result w1 = Inl e"
  shows "ClaudeService_implementGame env gameSpecifications outputDirectory projectName w = Some (failure_result e, w1)"
  unfolding claude_game_direct [OF cfg ng pr] by (rule direct_write_throws) (fact sent, fact wr)

lemma claude_spec_stages:
  "(\<forall>e. getConfiguration env w = Inl e \<longrightarrow>
      ClaudeService_generateGameSpecification env sourceDocuments promptingDocuments
        outputDirectory projectName w =
        Some (failure_result e, w)) \<and>
   (\<forall>config. getConfiguration env w = Inr config \<longrightarrow>
      (js_or_default (aiProvider config) ''anthropic'' = ''google'' \<longrightarrow>
         ClaudeService_generateGameSpecification env sourceDocuments promptingDocuments
           outputDirectory projectName w =
           GeminiService_generateGameSpecification env sourceDocuments
              promptingDocuments outputDirectory projectName
              (if js_includes (js_or_default (aiModel config) ''gemini-2.5-flash'') ''gemini''
               then js_or_default (aiModel config) ''gemini-2.5-flash''
               else ''gemini-2.5-flash'') w) \<and>
      (js_or_default (aiProvider config) ''anthropic'' \<noteq> ''google'' \<longrightarrow>
         ((\<exists>d \<in> set (sourceDocuments @ promptingDocuments). \<exists>e. readFile env w d = Inl e) \<longrightarrow>
            (\<exists>d \<in> set (sourceDocuments @ promptingDocuments). \<exists>e.
               readFile env w d = Inl e \<and>
               ClaudeService_generateGameSpecification env sourceDocuments promptingDocuments
                 outputDirectory projectName w =
                 Some (failure_result e, w))) \<and>
         (\<forall>prompt.
            specification_prompt env w sourceDocuments promptingDocuments projectName = Inr prompt \<longrightarrow>
            (js_or_default (aiProvider config) ''anthropic'' = ''anthropic'' \<and>
             credential_missing (anthropicApiKey config) \<longrightarrow>
               ClaudeService_generateGameSpecification env sourceDocuments promptingDocuments
                 outputDirectory projectName w =
                 Some (failure_result (communication_error anthropic_key_error), w)) \<and>
            (\<forall>e. js_or_default (aiProvider config) ''anthropic'' = ''anthropic'' \<and>
                 \<not> credential_missing (anthropicApiKey config) \<and>
                 anthropic_messages_create env
                   (w\<lparr>net_log := net_log w @
                        [AnthropicMessagesCreate (js_or_default (anthropicApiKey config) [])
                           (js_or_default (aiModel config) ''claude-3-5-sonnet-20241022'')
                           8192 prompt]\<rparr>)
                   (js_or_default (aiModel config) ''claude-3-5-sonnet-20241022'') prompt =
                   Inl e \<longrightarrow>
               ClaudeService_generateGameSpecification env sourceDocuments promptingDocuments
                 outputDirectory projectName w =
                 Some (failure_result (communication_error e),
                       w\<lparr>net_log := net_log w @
                            [AnthropicMessagesCreate (js_or_default (anthropicApiKey config) [])
                               (js_or_default (aiModel config) ''claude-3-5-sonnet-20241022'')
                               8192 prompt]\<rparr>)) \<and>
            (js_or_default (aiProvider config) ''anthropic'' = ''openai'' \<and>
             credential_missing (openaiApiKey config) \<longrightarrow>
               ClaudeService_generateGameSpecification env sourceDocuments promptingDocuments
                 outputDirectory projectName w =
                 Some (failure_result (communication_error openai_key_error), w)) \<and>
            (\<forall>e. js_or_default (aiProvider config) ''anthropic'' = ''openai'' \<and>
                 \<not> credential_missing (openaiApiKey config) \<and>
                 openai_chat_create env
                   (w\<lparr>net_log := net_log w @
                        [OpenAIChatCreate (js_or_default (openaiApiKey config) [])
                           (js_or_default (aiModel config) ''claude-3-5-sonnet-20241022'')
                           prompt 8192]\<rparr>)
                   (js_or_default (aiModel config) ''claude-3-5-sonnet-20241022'') prompt =
                   Inl e \<longrightarrow>
               ClaudeService_generateGameSpecification env sourceDocuments promptingDocuments
                 outputDirectory projectName w =
                 Some (failure_result (communication_error e),
                       w\<lparr>net_log := net_log w @
                            [OpenAIChatCreate (js_or_default (openaiApiKey config) [])
                               (js_or_default (aiModel config) ''claude-3-5-sonnet-20241022'')
                               prompt 8192]\<rparr>)) \<and>
            (js_or_default (aiProvider config) ''anthropic'' \<noteq> ''anthropic'' \<and>
             js_or_default (aiProvider config) ''anthropic'' \<noteq> ''openai'' \<longrightarrow>
               ClaudeService_generateGameSpecification env sourceDocuments promptingDocuments
                 outputDirectory projectName w =
                 Some (failure_result
                         (communication_error
                            (Error (''Unknown AI provider: '' @
                                    js_or_default (aiProvider config) ''anthropic''))), w)) \<and>
            (\<forall>result w1 e.
               sendToAI env prompt w = (Inr result, w1) \<and>
               writeFile env
                 (path_join env outputDirectory
                    (projectName @ ''-spec-'' @ timestamp env w1 @ ''.md''))
                 result w1 = Inl e \<longrightarrow>
               ClaudeService_generateGameSpecification env sourceDocuments promptingDocuments
                 outputDirectory projectName w =
                 Some (failure_result e, w1)))))"
proof (intro conjI allI impI)
qed ((elim conjE)?,
     (rule claude_spec_config_throws claude_spec_google claude_spec_stage_read
           claude_spec_stage_anthropic_key claude_spec_stage_anthropic_call
           claude_spec_stage_openai_key claude_spec_stage_openai_call
           claude_spec_stage_unknown claude_spec_stage_write; assumption))+

lemma claude_game_stages:
  "(\<forall>e. getConfiguration env w = Inl e \<longrightarrow>
      ClaudeService_implementGame env gameSpecifications outputDirectory projectName w =
        Some (failure_result e, w)) \<and>
   (\<forall>config. getConfiguration env w = Inr config \<longrightarrow>
      (js_or_default (aiProvider config) ''anthropic'' = ''google'' \<longrightarrow>
         ClaudeService_implementGame env gameSpecifications outputDirectory projectName w =
           GeminiService_implementGame env gameSpecifications outputDirectory projectName
              (if js_includes (js_or_default (aiModel config) ''gemini-2.5-flash'') ''gemini''
               then js_or_default (aiModel config) ''gemini-2.5-flash''
               else ''gemini-2.5-flash'') w) \<and>
      (js_or_default (aiProvider config) ''anthropic'' \<noteq> ''google'' \<longrightarrow>
         ((\<exists>d \<in> set gameSpecifications. \<exists>e. readFile env w d = Inl e) \<longrightarrow>
            (\<exists>d \<in> set gameSpecifications. \<exists>e.
               readFile env w d = Inl e \<and>
               ClaudeService_implementGame env gameSpecifications outputDirectory projectName w =
                 Some (failure_result e, w))) \<and>
         (\<forall>prompt.
            implementation_prompt env w gameSpecifications projectName = Inr prompt \<longrightarrow>
            (js_or_default (aiProvider config) ''anthropic'' = ''anthropic'' \<and>
             credential_missing (anthropicApiKey config) \<longrightarrow>
               ClaudeService_implementGame env gameSpecifications outputDirectory projectName w =
                 Some (failure_result (communication_error anthropic_key_error), w)) \<and>
            (\<forall>e. js_or_default (aiProvider config) ''anthropic'' = ''anthropic'' \<and>
                 \<not> credential_missing (anthropicApiKey config) \<and>
                 anthropic_messages_create env
                   (w\<lparr>net_log := net_log w @
                        [AnthropicMessagesCreate (js_or_default (anthropicApiKey config) [])
                           (js_or_default (aiModel config) ''claude-3-5-sonnet-20241022'')
                           8192 prompt]\<rparr>)
                   (js_or_default (aiModel config) ''claude-3-5-sonnet-20241022'') prompt =
                   Inl e \<longrightarrow>
               ClaudeService_implementGame env gameSpecifications outputDirectory projectName w =
                 Some (failure_result (communication_error e),
                       w\<lparr>net_log := net_log w @
                            [AnthropicMessagesCreate (js_or_default (anthropicApiKey config) [])
                               (js_or_default (aiModel config) ''claude-3-5-sonnet-20241022'')
                               8192 prompt]\<rparr>)) \<and>
            (js_or_default (aiProvider config) ''anthropic'' = ''openai'' \<and>
             credential_missing (openaiApiKey config) \<longrightarrow>
               ClaudeService_implementGame env gameSpecifications outputDirectory projectName w =
                 Some (failure_result (communication_error openai_key_error), w)) \<and>
            (\<forall>e. js_or_default (aiProvider config) ''anthropic'' = ''openai'' \<and>
                 \<not> credential_missing (openaiApiKey config) \<and>
                 openai_chat_create env
                   (w\<lparr>net_log := net_log w @
                        [OpenAIChatCreate (js_or_default (openaiApiKey config) [])
                           (js_or_default (aiModel config) ''claude-3-5-sonnet-20241022'')
                           prompt 8192]\<rparr>)
                   (js_or_default (aiModel config) ''claude-3-5-sonnet-20241022'') prompt =
                   Inl e \<longrightarrow>
               ClaudeService_implementGame env gameSpecifications outputDirectory projectName w =
                 Some (failure_result (communication_error e),
                       w\<lparr>net_log := net_log w @
                            [OpenAIChatCreate (js_or_default (openaiApiKey config) [])
                               (js_or_default (aiModel config) ''claude-3-5-sonnet-20241022'')
                               prompt 8192]\<rparr>)) \<and>
            (js_or_default (aiProvider config) ''anthropic'' \<noteq> ''anthropic'' \<and>
             js_or_default (aiProvider config) ''anthropic'' \<noteq> ''openai'' \<longrightarrow>
               ClaudeService_implementGame env gameSpecifications outputDirectory projectName w =
                 Some (failure_result
                         (communication_error
                            (Error (''Unknown AI provider: '' @
                                    js_or_default (aiProvider config) ''anthropic''))), w)) \<and>
            (\<forall>result w1 e.
               sendToAI env prompt w = (Inr result, w1) \<and>
               writeFile env
                 (js_replace
                    (path_join env outputDirectory
                       (projectName @ ''-game-'' @ timestamp env w1 @ ''.zip''))
                    ''.zip'' ''.txt'')
                 result w1 = Inl e \<longrightarrow>
               ClaudeService_implementGame env gameSpecifications outputDirectory projectName w =
                 Some (failure_result e, w1)))))"
proof (intro conjI allI impI)
qed ((elim conjE)?,
     (rule claude_game_config_throws claude_game_google claude_game_stage_read
           claude_game_stage_anthropic_key claude_game_stage_anthropic_call
           claude_game_stage_openai_key claude_game_stage_openai_call
           claude_game_stage_unknown claude_game_stage_write; assumption))+

lemma waitActive_loop_swallow:
  assumes "ai_files_get env k n w = (Inl e, w1)" and "\<not> T < clock w1 - start"
  shows "waitActive_loop env k n T I start w = waitActive_loop env k n T I start (setTimeout I w1)"
  using assms waitActive_loop_again [of env k n w T start I] by (simp add: file_state_def)

section \<open>The claims about whole requests\<close>

lemma findProjectRoot_loop_pos:
  "0 < n \<Longrightarrow> findProjectRoot_loop env w n currentDir =
     (let envPath = path_join env currentDir ''.env'' in
      if existsSync w envPath then ([envPath], Some currentDir)
      else
        (let parentDir = path_dirname env currentDir in
         if parentDir = currentDir then ([envPath], None)
         else
           (let (checked, found) = findProjectRoot_loop env w (n - 1) parentDir
            in (envPath # checked, found))))"
  by (cases n) (simp_all add: Let_def)

lemmas service_defs =
  existsSync_def mkdirSync_def readFile_def copyFile_def unlink_def writeFile_def
  dotenv_config_def timestamp_def ai_files_upload_def ai_models_generateContent_def
  normalizePath_def findProjectRoot_def maxLevelsUp_def anchor_not_found_def
  getUploadsFolderPath_def UPLOADS_FOLDER_NAME_def loadEnvApiKey_def
  copyFilesToUploadsFolder_def uploadAndGenerate_def js_or_default_def upload_loop_Cons
  GeminiService_generateGameSpecification_try_def GeminiService_generateGameSpecification_def
  GeminiService_implementGame_try_def GeminiService_implementGame_def
  findProjectRoot_loop_pos

lemmas direct_defs =
  anthropic_env_def blank_key_env_def empty_answer_env_def
  credential_missing_def js_trim_def js_whitespace_def block_text_def
  sendToAnthropic_def sendToGoogle_def sendToOpenAI_def sendToAI_try_def sendToAI_def
  specification_prompt_def implementation_prompt_def document_block_def
  ClaudeService_generateGameSpecification_try_def ClaudeService_generateGameSpecification_def
  ClaudeService_implementGame_try_def ClaudeService_implementGame_def

lemmas stale_defs = stale_world_def busy_env_def

lemmas fault_defs =
  failed_file_def settings_fault_env_def provider_fault_env_def upload_fault_env_def
  rejecting_env_def generate_fault_env_def keyless_world_def busy_env_def
  failure_result_def communication_error_def

lemmas run_defs = service_defs waitActive_loop_run example_defs poll_defs fault_defs

text \<open>
  C1 as stated fails: a request over two documents succeeds, its two local copies are
  cleaned up, and the two files it has uploaded are still in the remote store when it
  returns. The service issues uploads, status queries and one generation call, and never
  a remote delete.
\<close>

theorem remote_files_left_after_success:
  "GeminiService_generateGameSpecification example_env [''/docs/a.md'']
     [''/docs/b.md''] ''/proj/out'' ''demo'' ''gemini-2.5-flash'' example_world \<noteq> None \<and>
   fst (the (GeminiService_generateGameSpecification example_env [''/docs/a.md'']
               [''/docs/b.md''] ''/proj/out'' ''demo'' ''gemini-2.5-flash'' example_world)) =
     \<lparr>success = True, outputPath = Some ''/proj/out/demo-spec-2025-01-02T03-04-05.md'',
      error = None\<rparr> \<and>
   remote_store example_world = [] \<and>
   remote_store (snd (the (GeminiService_generateGameSpecification example_env [''/docs/a.md'']
               [''/docs/b.md''] ''/proj/out'' ''demo'' ''gemini-2.5-flash'' example_world))) =
     [''files/a.md'', ''files/b.md'']"
  by (simp add: service_defs waitActive_loop_run example_defs poll_defs)

text \<open>
  C1 (amended). A request of \<open>GeminiService\<close> removes nothing from the remote store: when it
  returns, the store holds what it held before followed by the files the request has
  uploaded, at most one for each input document, and exactly one for each input document
  when the request succeeds. On the disk, a file that exists before the request and not
  after it lies at a staging path of the request: the folder \<open>uploads-to-GenAI\<close> of the
  project root joined with the base name of one of its documents (a file that was already
  there, or the document itself when it lies in that folder, is deleted with the copies).
  And the result of the request is the same whatever local deletions throw.
\<close>

theorem remote_files_are_kept:
  "(\<forall>res w'. GeminiService_generateGameSpecification env sourceDocuments promptingDocuments
                outputDirectory projectName model w = Some (res, w') \<longrightarrow>
      (\<exists>created. remote_store w' = remote_store w @ created \<and>
                 length created \<le> length (sourceDocuments @ promptingDocuments) \<and>
                 (success res \<longrightarrow> length created = length (sourceDocuments @ promptingDocuments))) \<and>
      (\<forall>path. fs_files w path \<noteq> None \<and> fs_files w' path = None \<longrightarrow>
         (\<exists>projectRoot. findProjectRoot env w outputDirectory = Inr projectRoot \<and>
            path \<in> set (staged_paths env projectRoot (sourceDocuments @ promptingDocuments))))) \<and>
   (\<forall>res w'. GeminiService_implementGame env gameSpecifications outputDirectory projectName
                model w = Some (res, w') \<longrightarrow>
      (\<exists>created. remote_store w' = remote_store w @ created \<and>
                 length created \<le> length gameSpecifications \<and>
                 (success res \<longrightarrow> length created = length gameSpecifications)) \<and>
      (\<forall>path. fs_files w path \<noteq> None \<and> fs_files w' path = None \<longrightarrow>
         (\<exists>projectRoot. findProjectRoot env w outputDirectory = Inr projectRoot \<and>
            path \<in> set (staged_paths env projectRoot gameSpecifications)))) \<and>
   (\<forall>fault. map_option fst (GeminiService_generateGameSpecification (env\<lparr>unlink_fault := fault\<rparr>)
                sourceDocuments promptingDocuments outputDirectory projectName model w) =
             map_option fst (GeminiService_generateGameSpecification env
                sourceDocuments promptingDocuments outputDirectory projectName model w)) \<and>
   (\<forall>fault. map_option fst (GeminiService_implementGame (env\<lparr>unlink_fault := fault\<rparr>)
                gameSpecifications outputDirectory projectName model w) =
             map_option fst (GeminiService_implementGame env
                gameSpecifications outputDirectory projectName model w))"
proof (intro conjI allI impI)
  fix res w'
  assume run: "GeminiService_generateGameSpecification env sourceDocuments promptingDocuments
                 outputDirectory projectName model w = Some (res, w')"
  from gemini_spec_outcome [OF run]
  show "\<exists>created. remote_store w' = remote_store w @ created \<and>
          length created \<le> length (sourceDocuments @ promptingDocuments) \<and>
          (success res \<longrightarrow> length created = length (sourceDocuments @ promptingDocuments))"
    by simp
  fix path
  assume "fs_files w path \<noteq> None \<and> fs_files w' path = None"
  with gemini_spec_files [OF run]
  show "\<exists>projectRoot. findProjectRoot env w outputDirectory = Inr projectRoot \<and>
          path \<in> set (staged_paths env projectRoot (sourceDocuments @ promptingDocuments))"
    by simp
next
  fix res w'
  assume run: "GeminiService_implementGame env gameSpecifications outputDirectory projectName
                 model w = Some (res, w')"
  from gemini_game_outcome [OF run]
  show "\<exists>created. remote_store w' = remote_store w @ created \<and>
          length created \<le> length gameSpecifications \<and>
          (success res \<longrightarrow> length created = length gameSpecifications)"
    by simp
  fix path
  assume "fs_files w path \<noteq> None \<and> fs_files w' path = None"
  with gemini_game_files [OF run]
  show "\<exists>projectRoot. findProjectRoot env w outputDirectory = Inr projectRoot \<and>
          path \<in> set (staged_paths env projectRoot gameSpecifications)"
    by simp
next
  fix fault
  show "map_option fst (GeminiService_generateGameSpecification (env\<lparr>unlink_fault := fault\<rparr>)
                sourceDocuments promptingDocuments outputDirectory projectName model w) =
        map_option fst (GeminiService_generateGameSpecification env
                sourceDocuments promptingDocuments outputDirectory projectName model w)"
    by (rule gemini_spec_unlink)
next
  fix fault
  show "map_option fst (GeminiService_implementGame (env\<lparr>unlink_fault := fault\<rparr>)
                gameSpecifications outputDirectory projectName model w) =
        map_option fst (GeminiService_implementGame env
                gameSpecifications outputDirectory projectName model w)"
    by (rule gemini_game_unlink)
qed

theorem remote_files_are_kept_witness:
  "GeminiService_implementGame example_env [''/proj/uploads-to-GenAI/a.md''] ''/proj/out''
     ''demo'' ''gemini-2.5-flash'' stale_world \<noteq> None \<and>
   fst (the (GeminiService_implementGame example_env [''/proj/uploads-to-GenAI/a.md'']
     ''/proj/out'' ''demo'' ''gemini-2.5-flash'' stale_world)) =
     \<lparr>success = True, outputPath = Some ''/proj/out/demo-game-2025-01-02T03-04-05.txt'',
      error = None\<rparr> \<and>
   remote_store (snd (the (GeminiService_implementGame example_env
     [''/proj/uploads-to-GenAI/a.md''] ''/proj/out'' ''demo'' ''gemini-2.5-flash'' stale_world))) =
     remote_store stale_world @ [''files/a.md''] \<and>
   (\<exists>created. remote_store (snd (the (GeminiService_implementGame example_env
        [''/proj/uploads-to-GenAI/a.md''] ''/proj/out'' ''demo'' ''gemini-2.5-flash''
        stale_world))) = remote_store stale_world @ created \<and>
      length created = length [''/proj/uploads-to-GenAI/a.md'']) \<and>
   fs_files stale_world ''/proj/uploads-to-GenAI/a.md'' = Some ''stale'' \<and>
   fs_files (snd (the (GeminiService_implementGame example_env
     [''/proj/uploads-to-GenAI/a.md''] ''/proj/out'' ''demo'' ''gemini-2.5-flash'' stale_world)))
     ''/proj/uploads-to-GenAI/a.md'' = None \<and>
   (\<exists>projectRoot. findProjectRoot example_env stale_world ''/proj/out'' = Inr projectRoot \<and>
      ''/proj/uploads-to-GenAI/a.md'' \<in>
        set (staged_paths example_env projectRoot [''/proj/uploads-to-GenAI/a.md''])) \<and>
   staged_paths example_env ''/proj'' [''/proj/uploads-to-GenAI/a.md''] =
     [''/proj/uploads-to-GenAI/a.md''] \<and>
   map_option fst (GeminiService_implementGame busy_env [''/proj/uploads-to-GenAI/a.md'']
     ''/proj/out'' ''demo'' ''gemini-2.5-flash'' stale_world) =
     Some \<lparr>success = True, outputPath = Some ''/proj/out/demo-game-2025-01-02T03-04-05.txt'',
           error = None\<rparr> \<and>
   unlink busy_env ''/proj/uploads-to-GenAI/a.md'' stale_world =
     Inl (Error ''EBUSY: resource busy or locked'')"
proof -
  let ?run = "GeminiService_implementGame example_env [''/proj/uploads-to-GenAI/a.md'']
     ''/proj/out'' ''demo'' ''gemini-2.5-flash'' stale_world"
  have r1: "?run \<noteq> None"
    by (simp add: service_defs waitActive_loop_run example_defs poll_defs stale_defs)
  have r2: "fst (the ?run) =
       \<lparr>success = True, outputPath = Some ''/proj/out/demo-game-2025-01-02T03-04-05.txt'',
        error = None\<rparr>"
    by (simp add: service_defs waitActive_loop_run example_defs poll_defs stale_defs)
  have r3: "remote_store (snd (the ?run)) = remote_store stale_world @ [''files/a.md'']"
    by (simp add: service_defs waitActive_loop_run example_defs poll_defs stale_defs)
  have r4: "fs_files stale_world ''/proj/uploads-to-GenAI/a.md'' = Some ''stale''"
    by (simp add: stale_defs)
  have r5: "fs_files (snd (the ?run)) ''/proj/uploads-to-GenAI/a.md'' = None"
    by (simp add: service_defs waitActive_loop_run example_defs poll_defs stale_defs)
  have st: "staged_paths example_env ''/proj'' [''/proj/uploads-to-GenAI/a.md''] =
     [''/proj/uploads-to-GenAI/a.md'']"
    by (simp add: staged_paths_def service_defs example_defs)
  have un: "unlink busy_env ''/proj/uploads-to-GenAI/a.md'' stale_world =
     Inl (Error ''EBUSY: resource busy or locked'')"
    by (simp add: unlink_def busy_env_def)
  from r1 have some: "?run = Some (fst (the ?run), snd (the ?run))" by simp
  from r2 have ok: "success (fst (the ?run))" by simp
  note inst = remote_files_are_kept
         [where env = example_env and gameSpecifications = "[''/proj/uploads-to-GenAI/a.md'']"
            and outputDirectory = "''/proj/out''" and projectName = "''demo''"
            and model = "''gemini-2.5-flash''" and w = stale_world]
  note game = inst [THEN conjunct2, THEN conjunct1, rule_format, OF some]
  from game [THEN conjunct1] ok
  have created: "\<exists>created. remote_store (snd (the ?run)) = remote_store stale_world @ created \<and>
          length created = length [''/proj/uploads-to-GenAI/a.md'']"
    by auto
  from r4 have r4': "fs_files stale_world ''/proj/uploads-to-GenAI/a.md'' \<noteq> None" by simp
  from game [THEN conjunct2, rule_format, OF conjI, OF r4' r5]
  have staged: "\<exists>projectRoot. findProjectRoot example_env stale_world ''/proj/out'' = Inr projectRoot \<and>
      ''/proj/uploads-to-GenAI/a.md'' \<in>
        set (staged_paths example_env projectRoot [''/proj/uploads-to-GenAI/a.md''])" .
  from inst [THEN conjunct2, THEN conjunct2, THEN conjunct2, rule_format,
             of "\<lambda>w p. Some (Error ''EBUSY: resource busy or locked'')"]
  have "map_option fst (GeminiService_implementGame busy_env
       [''/proj/uploads-to-GenAI/a.md''] ''/proj/out'' ''demo'' ''gemini-2.5-flash'' stale_world) =
     map_option fst ?run"
    unfolding busy_env_def .
  also from some have "map_option fst ?run = Some (fst (the ?run))"
    by (metis option.simps(9) fst_conv)
  finally have busy: "map_option fst (GeminiService_implementGame busy_env
       [''/proj/uploads-to-GenAI/a.md''] ''/proj/out'' ''demo'' ''gemini-2.5-flash'' stale_world) =
     Some \<lparr>success = True, outputPath = Some ''/proj/out/demo-game-2025-01-02T03-04-05.txt'',
           error = None\<rparr>"
    unfolding r2 .
  from r1 r2 r3 created r4 r5 staged st busy un show ?thesis
    by (intro conjI)
qed

text \<open>
  C2 fails at the staging stage. The second of three documents does not exist, so
  \<open>copyFile\<close> throws after the first document has been copied. \<open>copiedFiles\<close> is assigned
  only when all copies are done, so the \<open>catch\<close> block finds it empty and skips the
  cleanup: the request returns a failure and the copy of the first document stays in the
  staging folder.
\<close>

theorem staged_copy_left_after_failed_copy:
  "GeminiService_generateGameSpecification example_env [''/docs/a.md'', ''/docs/zz.md'']
     [''/docs/b.md''] ''/proj/out'' ''demo'' ''gemini-2.5-flash'' example_world \<noteq> None \<and>
   fst (the (GeminiService_generateGameSpecification example_env [''/docs/a.md'', ''/docs/zz.md'']
               [''/docs/b.md''] ''/proj/out'' ''demo'' ''gemini-2.5-flash'' example_world)) =
     \<lparr>success = False, outputPath = None,
      error = Some (errorMessage (enoent_copyfile ''/docs/zz.md'' ''/proj/uploads-to-GenAI/zz.md''))\<rparr> \<and>
   fs_files example_world ''/proj/uploads-to-GenAI/a.md'' = None \<and>
   fs_files (snd (the (GeminiService_generateGameSpecification example_env
               [''/docs/a.md'', ''/docs/zz.md''] [''/docs/b.md''] ''/proj/out'' ''demo''
               ''gemini-2.5-flash'' example_world))) ''/proj/uploads-to-GenAI/a.md'' =
     Some ''alpha''"
  by (simp add: service_defs waitActive_loop_run example_defs poll_defs)

text \<open>
  C8 fails for \<open>ClaudeService.implementGame\<close> on a project name that contains \<open>.zip\<close>: the
  name is built with the extension \<open>.zip\<close> and \<open>replace\<close> then rewrites the first \<open>.zip\<close> of
  the whole path, which is the one of the project name. The artifact of the project
  \<open>a.zip\<close> is written as \<open>a.txt-game-<timestamp>.zip\<close>, where the claim, and
  \<open>GeminiService.implementGame\<close>, give \<open>a.zip-game-<timestamp>.txt\<close>.
\<close>

theorem implementGame_renames_first_zip:
  "ClaudeService_implementGame anthropic_env [''/docs/a.md''] ''/proj/out'' ''a.zip''
     example_world \<noteq> None \<and>
   fst (the (ClaudeService_implementGame anthropic_env [''/docs/a.md''] ''/proj/out'' ''a.zip''
               example_world)) =
     \<lparr>success = True, outputPath = Some ''/proj/out/a.txt-game-2025-01-02T03-04-05.zip'',
      error = None\<rparr> \<and>
   map fst (fs_writes (snd (the (ClaudeService_implementGame anthropic_env [''/docs/a.md'']
               ''/proj/out'' ''a.zip'' example_world)))) =
     [''/proj/out/a.txt-game-2025-01-02T03-04-05.zip''] \<and>
   ''/proj/out/a.txt-game-2025-01-02T03-04-05.zip'' \<noteq>
     path_join anthropic_env ''/proj/out'' (''a.zip'' @ ''-game-'' @ ''2025-01-02T03-04-05'' @ ''.txt'')"
  by (simp add: direct_defs service_defs example_defs Let_def)

text \<open>
  C4 as stated fails: a provider that answers with no text makes the request write an
  empty artifact and return a success.
\<close>

theorem success_with_empty_content:
  "ClaudeService_generateGameSpecification empty_answer_env [''/docs/a.md'']
     [''/docs/b.md''] ''/proj/out'' ''demo'' example_world \<noteq> None \<and>
   fst (the (ClaudeService_generateGameSpecification empty_answer_env [''/docs/a.md'']
               [''/docs/b.md''] ''/proj/out'' ''demo'' example_world)) =
     \<lparr>success = True, outputPath = Some ''/proj/out/demo-spec-2025-01-02T03-04-05.md'',
      error = None\<rparr> \<and>
   fs_writes (snd (the (ClaudeService_generateGameSpecification empty_answer_env [''/docs/a.md'']
               [''/docs/b.md''] ''/proj/out'' ''demo'' example_world))) =
     [(''/proj/out/demo-spec-2025-01-02T03-04-05.md'', [])]"
  by (simp add: direct_defs service_defs example_defs Let_def)

text \<open>
  C4 (amended). For each of the four public operations, the result is a success exactly
  when its output path is set and the request has written one artifact, at that path
  (its content may be empty); it is a failure exactly when its error is set and the
  request has written no artifact; and the output path is set exactly when the error is
  not.
\<close>

theorem results_are_atomic:
  "(\<forall>res w'. ClaudeService_generateGameSpecification env sourceDocuments promptingDocuments
               outputDirectory projectName w = Some (res, w') \<longrightarrow> atomic_result w res w') \<and>
   (\<forall>res w'. ClaudeService_implementGame env gameSpecifications outputDirectory projectName w =
               Some (res, w') \<longrightarrow> atomic_result w res w') \<and>
   (\<forall>res w'. GeminiService_generateGameSpecification env sourceDocuments promptingDocuments
               outputDirectory projectName model w = Some (res, w') \<longrightarrow> atomic_result w res w') \<and>
   (\<forall>res w'. GeminiService_implementGame env gameSpecifications outputDirectory projectName
               model w = Some (res, w') \<longrightarrow> atomic_result w res w')"
proof (intro conjI allI impI)
  fix res w'
  assume "ClaudeService_generateGameSpecification env sourceDocuments promptingDocuments
               outputDirectory projectName w = Some (res, w')"
  then show "atomic_result w res w'"
    unfolding claude_spec_catch
    by (rule claude_catch_outcome) (rule claude_spec_try_outcome)
next
  fix res w'
  assume "ClaudeService_implementGame env gameSpecifications outputDirectory projectName w =
               Some (res, w')"
  then show "atomic_result w res w'"
    unfolding claude_game_catch
    by (rule claude_catch_outcome) (rule claude_game_try_outcome)
next
  fix res w'
  assume "GeminiService_generateGameSpecification env sourceDocuments promptingDocuments
               outputDirectory projectName model w = Some (res, w')"
  then show "atomic_result w res w'"
    using gemini_spec_outcome by blast
next
  fix res w'
  assume "GeminiService_implementGame env gameSpecifications outputDirectory projectName
               model w = Some (res, w')"
  then show "atomic_result w res w'"
    using gemini_game_outcome by blast
qed

theorem results_are_atomic_witness:
  "ClaudeService_generateGameSpecification anthropic_env [''/docs/a.md''] [''/docs/b.md'']
     ''/proj/out'' ''demo'' example_world \<noteq> None \<and>
   fst (the (ClaudeService_generateGameSpecification anthropic_env [''/docs/a.md'']
               [''/docs/b.md''] ''/proj/out'' ''demo'' example_world)) =
     \<lparr>success = True, outputPath = Some ''/proj/out/demo-spec-2025-01-02T03-04-05.md'',
      error = None\<rparr> \<and>
   fs_writes (snd (the (ClaudeService_generateGameSpecification anthropic_env [''/docs/a.md'']
               [''/docs/b.md''] ''/proj/out'' ''demo'' example_world))) =
     [(''/proj/out/demo-spec-2025-01-02T03-04-05.md'', ''# Game'')] \<and>
   atomic_result example_world
     (fst (the (ClaudeService_generateGameSpecification anthropic_env [''/docs/a.md'']
               [''/docs/b.md''] ''/proj/out'' ''demo'' example_world)))
     (snd (the (ClaudeService_generateGameSpecification anthropic_env [''/docs/a.md'']
               [''/docs/b.md''] ''/proj/out'' ''demo'' example_world)))"
proof -
  let ?run = "ClaudeService_generateGameSpecification anthropic_env [''/docs/a.md'']
               [''/docs/b.md''] ''/proj/out'' ''demo'' example_world"
  have run: "?run \<noteq> None \<and>
     fst (the ?run) =
       \<lparr>success = True, outputPath = Some ''/proj/out/demo-spec-2025-01-02T03-04-05.md'',
        error = None\<rparr> \<and>
     fs_writes (snd (the ?run)) = [(''/proj/out/demo-spec-2025-01-02T03-04-05.md'', ''# Game'')]"
    by (simp add: direct_defs service_defs example_defs Let_def)
  then have some: "?run = Some (fst (the ?run), snd (the ?run))" by auto
  from results_are_atomic
         [where env = anthropic_env and sourceDocuments = "[''/docs/a.md'']"
            and promptingDocuments = "[''/docs/b.md'']" and outputDirectory = "''/proj/out''"
            and projectName = "''demo''" and w = example_world]
       some
  have "atomic_result example_world (fst (the ?run)) (snd (the ?run))"
    by blast
  with run show ?thesis by blast
qed

text \<open>
  C3 as stated fails for the exceptions that the code swallows. The first status query of
  the poll loop throws \<open>ECONNRESET\<close>: the loop sleeps, polls again, and the request returns
  a success, with two status queries in its log. And every deletion of the cleanup throws
  \<open>EBUSY\<close>: the request returns a success and the staged copy stays on the disk.
\<close>

theorem swallowed_exceptions_end_in_success:
  "files_get flaky_env example_world ''files/a.md'' = Inl (Error ''ECONNRESET'') \<and>
   GeminiService_implementGame flaky_env [''/docs/a.md''] ''/proj/out'' ''demo''
     ''gemini-2.5-flash'' example_world \<noteq> None \<and>
   fst (the (GeminiService_implementGame flaky_env [''/docs/a.md''] ''/proj/out'' ''demo''
     ''gemini-2.5-flash'' example_world)) =
     \<lparr>success = True, outputPath = Some ''/proj/out/demo-game-2025-01-02T03-04-05.txt'',
      error = None\<rparr> \<and>
   take 3 (net_log (snd (the (GeminiService_implementGame flaky_env [''/docs/a.md'']
     ''/proj/out'' ''demo'' ''gemini-2.5-flash'' example_world)))) =
     [FilesUpload ''k1'' ''/proj/uploads-to-GenAI/a.md'' ''application/octet-stream'' ''a.md'',
      FilesGet ''k1'' ''files/a.md'', FilesGet ''k1'' ''files/a.md''] \<and>
   clock (snd (the (GeminiService_implementGame flaky_env [''/docs/a.md'']
     ''/proj/out'' ''demo'' ''gemini-2.5-flash'' example_world))) = 2500 \<and>
   unlink busy_env ''/proj/uploads-to-GenAI/a.md''
     (example_world\<lparr>fs_files := (fs_files example_world)
        (''/proj/uploads-to-GenAI/a.md'' \<mapsto> ''alpha'')\<rparr>) =
     Inl (Error ''EBUSY: resource busy or locked'') \<and>
   GeminiService_implementGame busy_env [''/docs/a.md''] ''/proj/out'' ''demo''
     ''gemini-2.5-flash'' example_world \<noteq> None \<and>
   fst (the (GeminiService_implementGame busy_env [''/docs/a.md''] ''/proj/out'' ''demo''
     ''gemini-2.5-flash'' example_world)) =
     \<lparr>success = True, outputPath = Some ''/proj/out/demo-game-2025-01-02T03-04-05.txt'',
      error = None\<rparr> \<and>
   fs_files (snd (the (GeminiService_implementGame busy_env [''/docs/a.md''] ''/proj/out''
     ''demo'' ''gemini-2.5-flash'' example_world))) ''/proj/uploads-to-GenAI/a.md'' =
     Some ''alpha''"
  by (simp add: service_defs waitActive_loop_run example_defs poll_defs fault_defs)

text \<open>
  C3 (amended). Each of the four public operations returns a result for every input and
  every behaviour of the disk, the settings and the providers. A throw at a stage ends
  the operation with \<open>success: false\<close> and the message of what was thrown:
  for \<open>ClaudeService\<close>, the read of the settings, the read of any document (the failure
  carries the error of a document that fails to read), a missing key, the provider call
  and an unknown provider (these three with the prefix of \<open>sendToAI\<close>) and the write of
  the artifact, while the provider \<open>google\<close> returns what \<open>GeminiService\<close> returns;
  for \<open>GeminiService\<close>, the search for the anchor, the creation of the staging folder, the
  copy of any document once the documents before it are copied, the load of the
  credential, the upload of any file once the files before it are uploaded and active,
  an upload that returns no name, an error of the poll loop, the generation call and the
  write of the artifact. Two throws are not failures of the request: a status query that
  throws before the timeout is followed by a sleep and another query, and the result of a
  request does not depend on which deletions of the cleanup throw.
\<close>

theorem public_operations_fail_stagewise:
  "(\<exists>res w'. ClaudeService_generateGameSpecification env sourceDocuments promptingDocuments
               outputDirectory projectName w = Some (res, w')) \<and>
   (\<exists>res w'. ClaudeService_implementGame env gameSpecifications outputDirectory projectName w =
               Some (res, w')) \<and>
   (\<exists>res w'. GeminiService_generateGameSpecification env sourceDocuments promptingDocuments
               outputDirectory projectName model w = Some (res, w')) \<and>
   (\<exists>res w'. GeminiService_implementGame env gameSpecifications outputDirectory projectName
               model w = Some (res, w')) \<and>
   ((\<forall>e. getConfiguration env w = Inl e \<longrightarrow>
       ClaudeService_generateGameSpecification env sourceDocuments promptingDocuments
         outputDirectory projectName w =
         Some (failure_result e, w)) \<and>
    (\<forall>config. getConfiguration env w = Inr config \<longrightarrow>
       (js_or_default (aiProvider config) ''anthropic'' = ''google'' \<longrightarrow>
          ClaudeService_generateGameSpecification env sourceDocuments promptingDocuments
            outputDirectory projectName w =
            GeminiService_generateGameSpecification env sourceDocuments
               promptingDocuments outputDirectory projectName
               (if js_includes (js_or_default (aiModel config) ''gemini-2.5-flash'') ''gemini''
                then js_or_default (aiModel config) ''gemini-2.5-flash''
                else ''gemini-2.5-flash'') w) \<and>
       (js_or_default (aiProvider config) ''anthropic'' \<noteq> ''google'' \<longrightarrow>
          ((\<exists>d \<in> set (sourceDocuments @ promptingDocuments). \<exists>e. readFile env w d = Inl e) \<longrightarrow>
             (\<exists>d \<in> set (sourceDocuments @ promptingDocuments). \<exists>e.
                readFile env w d = Inl e \<and>
                ClaudeService_generateGameSpecification env sourceDocuments promptingDocuments
                  outputDirectory projectName w =
                  Some (failure_result e, w))) \<and>
          (\<forall>prompt.
             specification_prompt env w sourceDocuments promptingDocuments projectName = Inr prompt \<longrightarrow>
             (js_or_default (aiProvider config) ''anthropic'' = ''anthropic'' \<and>
              credential_missing (anthropicApiKey config) \<longrightarrow>
                ClaudeService_generateGameSpecification env sourceDocuments promptingDocuments
                  outputDirectory projectName w =
                  Some (failure_result (communication_error anthropic_key_error), w)) \<and>
             (\<forall>e. js_or_default (aiProvider config) ''anthropic'' = ''anthropic'' \<and>
                  \<not> credential_missing (anthropicApiKey config) \<and>
                  anthropic_messages_create env
                    (w\<lparr>net_log := net_log w @
                         [AnthropicMessagesCreate (js_or_default (anthropicApiKey config) [])
                            (js_or_default (aiModel config) ''claude-3-5-sonnet-20241022'')
                            8192 prompt]\<rparr>)
                    (js_or_default (aiModel config) ''claude-3-5-sonnet-20241022'') prompt =
                    Inl e \<longrightarrow>
                ClaudeService_generateGameSpecification env sourceDocuments promptingDocuments
                  outputDirectory projectName w =
                  Some (failure_result (communication_error e),
                        w\<lparr>net_log := net_log w @
                             [AnthropicMessagesCreate (js_or_default (anthropicApiKey config) [])
                                (js_or_default (aiModel config) ''claude-3-5-sonnet-20241022'')
                                8192 prompt]\<rparr>)) \<and>
             (js_or_default (aiProvider config) ''anthropic'' = ''openai'' \<and>
              credential_missing (openaiApiKey config) \<longrightarrow>
                ClaudeService_generateGameSpecification env sourceDocuments promptingDocuments
                  outputDirectory projectName w =
                  Some (failure_result (communication_error openai_key_error), w)) \<and>
             (\<forall>e. js_or_default (aiProvider config) ''anthropic'' = ''openai'' \<and>
                  \<not> credential_missing (openaiApiKey config) \<and>
                  openai_chat_create env
                    (w\<lparr>net_log := net_log w @
                         [OpenAIChatCreate (js_or_default (openaiApiKey config) [])
                            (js_or_default (aiModel config) ''claude-3-5-sonnet-20241022'')
                            prompt 8192]\<rparr>)
                    (js_or_default (aiModel config) ''claude-3-5-sonnet-20241022'') prompt =
                    Inl e \<longrightarrow>
                ClaudeService_generateGameSpecification env sourceDocuments promptingDocuments
                  outputDirectory projectName w =
                  Some (failure_result (communication_error e),
                        w\<lparr>net_log := net_log w @
                             [OpenAIChatCreate (js_or_default (openaiApiKey config) [])
                                (js_or_default (aiModel config) ''claude-3-5-sonnet-20241022'')
                                prompt 8192]\<rparr>)) \<and>
             (js_or_default (aiProvider config) ''anthropic'' \<noteq> ''anthropic'' \<and>
              js_or_default (aiProvider config) ''anthropic'' \<noteq> ''openai'' \<longrightarrow>
                ClaudeService_generateGameSpecification env sourceDocuments promptingDocuments
                  outputDirectory projectName w =
                  Some (failure_result
                          (communication_error
                             (Error (''Unknown AI provider: '' @
                                     js_or_default (aiProvider config) ''anthropic''))), w)) \<and>
             (\<forall>result w1 e.
                sendToAI env prompt w = (Inr result, w1) \<and>
                writeFile env
                  (path_join env outputDirectory
                     (projectName @ ''-spec-'' @ timestamp env w1 @ ''.md''))
                  result w1 = Inl e \<longrightarrow>
                ClaudeService_generateGameSpecification env sourceDocuments promptingDocuments
                  outputDirectory projectName w =
                  Some (failure_result e, w1)))))) \<and>
   ((\<forall>e. getConfiguration env w = Inl e \<longrightarrow>
       ClaudeService_implementGame env gameSpecifications outputDirectory projectName w =
         Some (failure_result e, w)) \<and>
    (\<forall>config. getConfiguration env w = Inr config \<longrightarrow>
       (js_or_default (aiProvider config) ''anthropic'' = ''google'' \<longrightarrow>
          ClaudeService_implementGame env gameSpecifications outputDirectory projectName w =
            GeminiService_implementGame env gameSpecifications outputDirectory projectName
               (if js_includes (js_or_default (aiModel config) ''gemini-2.5-flash'') ''gemini''
                then js_or_default (aiModel config) ''gemini-2.5-flash''
                else ''gemini-2.5-flash'') w) \<and>
       (js_or_default (aiProvider config) ''anthropic'' \<noteq> ''google'' \<longrightarrow>
          ((\<exists>d \<in> set gameSpecifications. \<exists>e. readFile env w d = Inl e) \<longrightarrow>
             (\<exists>d \<in> set gameSpecifications. \<exists>e.
                readFile env w d = Inl e \<and>
                ClaudeService_implementGame env gameSpecifications outputDirectory projectName w =
                  Some (failure_result e, w))) \<and>
          (\<forall>prompt.
             implementation_prompt env w gameSpecifications projectName = Inr prompt \<longrightarrow>
             (js_or_default (aiProvider config) ''anthropic'' = ''anthropic'' \<and>
              credential_missing (anthropicApiKey config) \<longrightarrow>
                ClaudeService_implementGame env gameSpecifications outputDirectory projectName w =
                  Some (failure_result (communication_error anthropic_key_error), w)) \<and>
             (\<forall>e. js_or_default (aiProvider config) ''anthropic'' = ''anthropic'' \<and>
                  \<not> credential_missing (anthropicApiKey config) \<and>
                  anthropic_messages_create env
                    (w\<lparr>net_log := net_log w @
                         [AnthropicMessagesCreate (js_or_default (anthropicApiKey config) [])
                            (js_or_default (aiModel config) ''claude-3-5-sonnet-20241022'')
                            8192 prompt]\<rparr>)
                    (js_or_default (aiModel config) ''claude-3-5-sonnet-20241022'') prompt =
                    Inl e \<longrightarrow>
                ClaudeService_implementGame env gameSpecifications outputDirectory projectName w =
                  Some (failure_result (communication_error e),
                        w\<lparr>net_log := net_log w @
                             [AnthropicMessagesCreate (js_or_default (anthropicApiKey config) [])
                                (js_or_default (aiModel config) ''claude-3-5-sonnet-20241022'')
                                8192 prompt]\<rparr>)) \<and>
             (js_or_default (aiProvider config) ''anthropic'' = ''openai'' \<and>
              credential_missing (openaiApiKey config) \<longrightarrow>
                ClaudeService_implementGame env gameSpecifications outputDirectory projectName w =
                  Some (failure_result (communication_error openai_key_error), w)) \<and>
             (\<forall>e. js_or_default (aiProvider config) ''anthropic'' = ''openai'' \<and>
                  \<not> credential_missing (openaiApiKey config) \<and>
                  openai_chat_create env
                    (w\<lparr>net_log := net_log w @
                         [OpenAIChatCreate (js_or_default (openaiApiKey config) [])
                            (js_or_default (aiModel config) ''claude-3-5-sonnet-20241022'')
                            prompt 8192]\<rparr>)
                    (js_or_default (aiModel config) ''claude-3-5-sonnet-20241022'') prompt =
                    Inl e \<longrightarrow>
                ClaudeService_implementGame env gameSpecifications outputDirectory projectName w =
                  Some (failure_result (communication_error e),
                        w\<lparr>net_log := net_log w @
                             [OpenAIChatCreate (js_or_default (openaiApiKey config) [])
                                (js_or_default (aiModel config) ''claude-3-5-sonnet-20241022'')
                                prompt 8192]\<rparr>)) \<and>
             (js_or_default (aiProvider config) ''anthropic'' \<noteq> ''anthropic'' \<and>
              js_or_default (aiProvider config) ''anthropic'' \<noteq> ''openai'' \<longrightarrow>
                ClaudeService_implementGame env gameSpecifications outputDirectory projectName w =
                  Some (failure_result
                          (communication_error
                             (Error (''Unknown AI provider: '' @
                                     js_or_default (aiProvider config) ''anthropic''))), w)) \<and>
             (\<forall>result w1 e.
                sendToAI env prompt w = (Inr result, w1) \<and>
                writeFile env
                  (js_replace
                     (path_join env outputDirectory
                        (projectName @ ''-game-'' @ timestamp env w1 @ ''.zip''))
                     ''.zip'' ''.txt'')
                  result w1 = Inl e \<longrightarrow>
                ClaudeService_implementGame env gameSpecifications outputDirectory projectName w =
                  Some (failure_result e, w1)))))) \<and>
   ((\<forall>e. findProjectRoot env w outputDirectory = Inl e \<longrightarrow>
       map_option fst
         (GeminiService_generateGameSpecification env sourceDocuments promptingDocuments
             outputDirectory projectName model w) =
         Some (failure_result e)) \<and>
    (\<forall>projectRoot. findProjectRoot env w outputDirectory = Inr projectRoot \<longrightarrow>
       (\<forall>e. \<not> existsSync w (getUploadsFolderPath env projectRoot) \<and>
            mkdirSync env (getUploadsFolderPath env projectRoot) w = Inl e \<longrightarrow>
          map_option fst
            (GeminiService_generateGameSpecification env sourceDocuments promptingDocuments
                outputDirectory projectName model w) =
            Some (failure_result e)) \<and>
       (\<forall>i copied w1 e.
          i < length (sourceDocuments @ promptingDocuments) \<and>
          copyFilesToUploadsFolder env (take i (sourceDocuments @ promptingDocuments)) projectRoot w = (Inr copied, w1) \<and>
          copyFile env (normalizePath ((sourceDocuments @ promptingDocuments) ! i))
            (path_join env (getUploadsFolderPath env projectRoot)
               (path_basename env (normalizePath ((sourceDocuments @ promptingDocuments) ! i)))) w1 = Inl e \<longrightarrow>
          map_option fst
            (GeminiService_generateGameSpecification env sourceDocuments promptingDocuments
                outputDirectory projectName model w) =
            Some (failure_result e)) \<and>
       (\<forall>copiedFiles w1.
          copyFilesToUploadsFolder env (sourceDocuments @ promptingDocuments) projectRoot w = (Inr copiedFiles, w1) \<longrightarrow>
          (\<forall>e w2. loadEnvApiKey env projectRoot w1 = (Inl e, w2) \<longrightarrow>
             map_option fst
               (GeminiService_generateGameSpecification env sourceDocuments promptingDocuments
                   outputDirectory projectName model w) =
               Some (failure_result e)) \<and>
          (\<forall>apiKey w2. loadEnvApiKey env projectRoot w1 = (Inr apiKey, w2) \<longrightarrow>
             (\<forall>i uploaded w3.
                i < length copiedFiles \<and>
                upload_loop env apiKey (take i copiedFiles) [] w2 = Some (Inr uploaded, w3) \<longrightarrow>
                (\<forall>e w4.
                   ai_files_upload env apiKey (copiedFiles ! i)
                     (js_or_default (mime_lookup env (copiedFiles ! i))
                        ''application/octet-stream'')
                     (path_basename env (copiedFiles ! i)) w3 = (Inl e, w4) \<longrightarrow>
                   map_option fst
                     (GeminiService_generateGameSpecification env sourceDocuments promptingDocuments
                         outputDirectory projectName model w) =
                     Some (failure_result e)) \<and>
                (\<forall>f w4.
                   ai_files_upload env apiKey (copiedFiles ! i)
                     (js_or_default (mime_lookup env (copiedFiles ! i))
                        ''application/octet-stream'')
                     (path_basename env (copiedFiles ! i)) w3 = (Inr f, w4) \<longrightarrow>
                   (js_or_default (rf_name f) [] = [] \<longrightarrow>
                      map_option fst
                        (GeminiService_generateGameSpecification env sourceDocuments promptingDocuments
                            outputDirectory projectName model w) =
                        Some (failure_result
                              (Error (''Upload failed for '' @
                                      path_basename env (copiedFiles ! i) @
                                      '': no file name returned'')))) \<and>
                   (\<forall>e w5.
                      js_or_default (rf_name f) [] \<noteq> [] \<and>
                      waitActive env apiKey (js_or_default (rf_name f) []) TIMEOUT_MS
                        POLL_INTERVAL_MS w4 = Some (Inl e, w5) \<longrightarrow>
                      map_option fst
                        (GeminiService_generateGameSpecification env sourceDocuments promptingDocuments
                            outputDirectory projectName model w) =
                        Some (failure_result e)))) \<and>
             (\<forall>uploaded w3.
                upload_loop env apiKey copiedFiles [] w2 = Some (Inr uploaded, w3) \<longrightarrow>
                (\<forall>e w4.
                   ai_models_generateContent env apiKey
                     \<lparr>rq_model = model, rq_text = (gemini_specification_prompt projectName (length sourceDocuments)
                                     (length promptingDocuments)),
                      rq_fileParts =
                        map (\<lambda>f. (rf_uri f, js_or_default (rf_mimeType f)
                                                ''application/octet-stream'')) uploaded,
                      rq_systemInstruction =
                        (if truthy (Some gemini_specification_system) then Some gemini_specification_system else None)\<rparr> w3 =
                     (Inl e, w4) \<longrightarrow>
                   map_option fst
                     (GeminiService_generateGameSpecification env sourceDocuments promptingDocuments
                         outputDirectory projectName model w) =
                     Some (failure_result e)) \<and>
                (\<forall>text w4 e.
                   ai_models_generateContent env apiKey
                     \<lparr>rq_model = model, rq_text = (gemini_specification_prompt projectName (length sourceDocuments)
                                     (length promptingDocuments)),
                      rq_fileParts =
                        map (\<lambda>f. (rf_uri f, js_or_default (rf_mimeType f)
                                                ''application/octet-stream'')) uploaded,
                      rq_systemInstruction =
                        (if truthy (Some gemini_specification_system) then Some gemini_specification_system else None)\<rparr> w3 =
                     (Inr text, w4) \<and>
                   writeFile env (path_join env outputDirectory (projectName @ ''-spec-'' @ timestamp env w4 @ ''.md''))
                     (case text of None \<Rightarrow> [] | Some t \<Rightarrow> t) w4 = Inl e \<longrightarrow>
                   map_option fst
                     (GeminiService_generateGameSpecification env sourceDocuments promptingDocuments
                         outputDirectory projectName model w) =
                     Some (failure_result e))))))) \<and>
   ((\<forall>e. findProjectRoot env w outputDirectory = Inl e \<longrightarrow>
       map_option fst
         (GeminiService_implementGame env gameSpecifications outputDirectory projectName
             model w) =
         Some (failure_result e)) \<and>
    (\<forall>projectRoot. findProjectRoot env w outputDirectory = Inr projectRoot \<longrightarrow>
       (\<forall>e. \<not> existsSync w (getUploadsFolderPath env projectRoot) \<and>
            mkdirSync env (getUploadsFolderPath env projectRoot) w = Inl e \<longrightarrow>
          map_option fst
            (GeminiService_implementGame env gameSpecifications outputDirectory projectName
                model w) =
            Some (failure_result e)) \<and>
       (\<forall>i copied w1 e.
          i < length gameSpecifications \<and>
          copyFilesToUploadsFolder env (take i gameSpecifications) projectRoot w = (Inr copied, w1) \<and>
          copyFile env (normalizePath (gameSpecifications ! i))
            (path_join env (getUploadsFolderPath env projectRoot)
               (path_basename env (normalizePath (gameSpecifications ! i)))) w1 = Inl e \<longrightarrow>
          map_option fst
            (GeminiService_implementGame env gameSpecifications outputDirectory projectName
                model w) =
            Some (failure_result e)) \<and>
       (\<forall>copiedFiles w1.
          copyFilesToUploadsFolder env gameSpecifications projectRoot w = (Inr copiedFiles, w1) \<longrightarrow>
          (\<forall>e w2. loadEnvApiKey env projectRoot w1 = (Inl e, w2) \<longrightarrow>
             map_option fst
               (GeminiService_implementGame env gameSpecifications outputDirectory projectName
                   model w) =
               Some (failure_result e)) \<and>
          (\<forall>apiKey w2. loadEnvApiKey env projectRoot w1 = (Inr apiKey, w2) \<longrightarrow>
             (\<forall>i uploaded w3.
                i < length copiedFiles \<and>
                upload_loop env apiKey (take i copiedFiles) [] w2 = Some (Inr uploaded, w3) \<longrightarrow>
                (\<forall>e w4.
                   ai_files_upload env apiKey (copiedFiles ! i)
                     (js_or_default (mime_lookup env (copiedFiles ! i))
                        ''application/octet-stream'')
                     (path_basename env (copiedFiles ! i)) w3 = (Inl e, w4) \<longrightarrow>
                   map_option fst
                     (GeminiService_implementGame env gameSpecifications outputDirectory projectName
                         model w) =
                     Some (failure_result e)) \<and>
                (\<forall>f w4.
                   ai_files_upload env apiKey (copiedFiles ! i)
                     (js_or_default (mime_lookup env (copiedFiles ! i))
                        ''application/octet-stream'')
                     (path_basename env (copiedFiles ! i)) w3 = (Inr f, w4) \<longrightarrow>
                   (js_or_default (rf_name f) [] = [] \<longrightarrow>
                      map_option fst
                        (GeminiService_implementGame env gameSpecifications outputDirectory projectName
                            model w) =
                        Some (failure_result
                              (Error (''Upload failed for '' @
                                      path_basename env (copiedFiles ! i) @
                                      '': no file name returned'')))) \<and>
                   (\<forall>e w5.
                      js_or_default (rf_name f) [] \<noteq> [] \<and>
                      waitActive env apiKey (js_or_default (rf_name f) []) TIMEOUT_MS
                        POLL_INTERVAL_MS w4 = Some (Inl e, w5) \<longrightarrow>
                      map_option fst
                        (GeminiService_implementGame env gameSpecifications outputDirectory projectName
                            model w) =
                        Some (failure_result e)))) \<and>
             (\<forall>uploaded w3.
                upload_loop env apiKey copiedFiles [] w2 = Some (Inr uploaded, w3) \<longrightarrow>
                (\<forall>e w4.
                   ai_models_generateContent env apiKey
                     \<lparr>rq_model = model, rq_text = gemini_implementation_prompt projectName,
                      rq_fileParts =
                        map (\<lambda>f. (rf_uri f, js_or_default (rf_mimeType f)
                                                ''application/octet-stream'')) uploaded,
                      rq_systemInstruction =
                        (if truthy (Some gemini_implementation_system) then Some gemini_implementation_system else None)\<rparr> w3 =
                     (Inl e, w4) \<longrightarrow>
                   map_option fst
                     (GeminiService_implementGame env gameSpecifications outputDirectory projectName
                         model w) =
                     Some (failure_result e)) \<and>
                (\<forall>text w4 e.
                   ai_models_generateContent env apiKey
                     \<lparr>rq_model = model, rq_text = gemini_implementation_prompt projectName,
                      rq_fileParts =
                        map (\<lambda>f. (rf_uri f, js_or_default (rf_mimeType f)
                                                ''application/octet-stream'')) uploaded,
                      rq_systemInstruction =
                        (if truthy (Some gemini_implementation_system) then Some gemini_implementation_system else None)\<rparr> w3 =
                     (Inr text, w4) \<and>
                   writeFile env (path_join env outputDirectory (projectName @ ''-game-'' @ timestamp env w4 @ ''.txt''))
                     (case text of None \<Rightarrow> [] | Some t \<Rightarrow> t) w4 = Inl e \<longrightarrow>
                   map_option fst
                     (GeminiService_implementGame env gameSpecifications outputDirectory projectName
                         model w) =
                     Some (failure_result e))))))) \<and>
   (\<forall>e w1. ai_files_get env apiKey fileName w = (Inl e, w1) \<and>
           \<not> timeoutMs < clock w1 - start \<longrightarrow>
      waitActive_loop env apiKey fileName timeoutMs intervalMs start w =
      waitActive_loop env apiKey fileName timeoutMs intervalMs start (setTimeout intervalMs w1)) \<and>
   (\<forall>fault.
      map_option fst (GeminiService_generateGameSpecification (env\<lparr>unlink_fault := fault\<rparr>)
        sourceDocuments promptingDocuments outputDirectory projectName model w) =
      map_option fst (GeminiService_generateGameSpecification env
        sourceDocuments promptingDocuments outputDirectory projectName model w)) \<and>
   (\<forall>fault.
      map_option fst (GeminiService_implementGame (env\<lparr>unlink_fault := fault\<rparr>)
        gameSpecifications outputDirectory projectName model w) =
      map_option fst (GeminiService_implementGame env
        gameSpecifications outputDirectory projectName model w))"
proof -
  have t1: "\<exists>res w'. ClaudeService_generateGameSpecification env sourceDocuments promptingDocuments
               outputDirectory projectName w = Some (res, w')"
    using claude_catch_terminates [OF claude_spec_try_terminates]
    unfolding claude_spec_catch by simp
  have t2: "\<exists>res w'. ClaudeService_implementGame env gameSpecifications outputDirectory projectName w =
               Some (res, w')"
    using claude_catch_terminates [OF claude_game_try_terminates]
    unfolding claude_game_catch by simp
  have t3: "\<exists>res w'. GeminiService_generateGameSpecification env sourceDocuments promptingDocuments
               outputDirectory projectName model w = Some (res, w')"
    using gemini_spec_terminates by simp
  have t4: "\<exists>res w'. GeminiService_implementGame env gameSpecifications outputDirectory projectName
               model w = Some (res, w')"
    using gemini_game_terminates by simp
  have s1: "\<forall>e w1. ai_files_get env apiKey fileName w = (Inl e, w1) \<and>
           \<not> timeoutMs < clock w1 - start \<longrightarrow>
      waitActive_loop env apiKey fileName timeoutMs intervalMs start w =
      waitActive_loop env apiKey fileName timeoutMs intervalMs start (setTimeout intervalMs w1)"
    by (auto intro: waitActive_loop_swallow)
  have s2: "\<forall>fault.
      map_option fst (GeminiService_generateGameSpecification (env\<lparr>unlink_fault := fault\<rparr>)
        sourceDocuments promptingDocuments outputDirectory projectName model w) =
      map_option fst (GeminiService_generateGameSpecification env
        sourceDocuments promptingDocuments outputDirectory projectName model w)"
    by (simp add: gemini_spec_unlink)
  have s3: "\<forall>fault.
      map_option fst (GeminiService_implementGame (env\<lparr>unlink_fault := fault\<rparr>)
        gameSpecifications outputDirectory projectName model w) =
      map_option fst (GeminiService_implementGame env
        gameSpecifications outputDirectory projectName model w)"
    by (simp add: gemini_game_unlink)
  show ?thesis
    by (rule conjI [OF t1 conjI [OF t2 conjI [OF t3 conjI [OF t4
          conjI [OF claude_spec_stages conjI [OF claude_game_stages
          conjI [OF gemini_spec_stages conjI [OF gemini_game_stages
          conjI [OF s1 conjI [OF s2 s3]]]]]]]]]])
qed

theorem public_operations_fail_stagewise_witness:
  "ClaudeService_generateGameSpecification settings_fault_env [''/docs/a.md''] [''/docs/b.md'']
     ''/proj/out'' ''demo'' example_world =
     Some (failure_result (Error ''settings unavailable''), example_world) \<and>
   ClaudeService_generateGameSpecification anthropic_env [''/docs/a.md'', ''/docs/zz.md'']
     [''/docs/b.md''] ''/proj/out'' ''demo'' example_world =
     Some (failure_result (enoent_open ''/docs/zz.md''), example_world) \<and>
   map_option fst (ClaudeService_generateGameSpecification provider_fault_env [''/docs/a.md'']
     [''/docs/b.md''] ''/proj/out'' ''demo'' example_world) =
     Some (failure_result (communication_error (Error ''overloaded''))) \<and>
   map_option fst (ClaudeService_generateGameSpecification anthropic_env [''/docs/a.md'']
     [''/docs/b.md''] ''/nowhere'' ''demo'' example_world) =
     Some (failure_result (enoent_open ''/nowhere/demo-spec-2025-01-02T03-04-05.md'')) \<and>
   ClaudeService_implementGame blank_key_env [''/docs/a.md''] ''/proj/out'' ''demo''
     example_world =
     Some (failure_result (communication_error openai_key_error), example_world) \<and>
   map_option fst (GeminiService_implementGame example_env [''/docs/a.md''] ''/docs'' ''demo''
     ''gemini-2.5-flash'' example_world) =
     Some (failure_result (anchor_not_found ''/docs'')) \<and>
   map_option fst (GeminiService_implementGame example_env [''/docs/a.md'', ''/docs/zz.md'']
     ''/proj/out'' ''demo'' ''gemini-2.5-flash'' example_world) =
     Some (failure_result (enoent_copyfile ''/docs/zz.md'' ''/proj/uploads-to-GenAI/zz.md'')) \<and>
   map_option fst (GeminiService_generateGameSpecification example_env [''/docs/a.md'']
     [''/docs/b.md''] ''/proj/out'' ''demo'' ''gemini-2.5-flash'' keyless_world) =
     Some (failure_result (Error (''GEMINI_API_KEY not found in .env file at /proj/.env'' @
                                  ''. Please add: GEMINI_API_KEY=your_key''))) \<and>
   map_option fst (GeminiService_implementGame upload_fault_env [''/docs/a.md''] ''/proj/out''
     ''demo'' ''gemini-2.5-flash'' example_world) =
     Some (failure_result (Error ''quota exceeded'')) \<and>
   map_option fst (GeminiService_implementGame rejecting_env [''/docs/a.md''] ''/proj/out''
     ''demo'' ''gemini-2.5-flash'' example_world) =
     Some (failure_result (failed_error ''files/a.md'')) \<and>
   map_option fst (GeminiService_implementGame generate_fault_env [''/docs/a.md''] ''/proj/out''
     ''demo'' ''gemini-2.5-flash'' example_world) =
     Some (failure_result (Error ''internal error'')) \<and>
   map_option fst (GeminiService_implementGame example_env [''/docs/a.md''] ''/proj/missing''
     ''demo'' ''gemini-2.5-flash'' example_world) =
     Some (failure_result (enoent_open ''/proj/missing/demo-game-2025-01-02T03-04-05.txt'')) \<and>
   ai_files_get flaky_env ''k1'' ''files/a.md'' example_world =
     (Inl (Error ''ECONNRESET''), snd (ai_files_get flaky_env ''k1'' ''files/a.md'' example_world)) \<and>
   waitActive_loop flaky_env ''k1'' ''files/a.md'' TIMEOUT_MS POLL_INTERVAL_MS 1000 example_world =
     waitActive_loop flaky_env ''k1'' ''files/a.md'' TIMEOUT_MS POLL_INTERVAL_MS 1000
       (setTimeout POLL_INTERVAL_MS
          (snd (ai_files_get flaky_env ''k1'' ''files/a.md'' example_world))) \<and>
   map_option fst (GeminiService_implementGame busy_env [''/docs/a.md''] ''/proj/out'' ''demo''
     ''gemini-2.5-flash'' example_world) =
     Some \<lparr>success = True, outputPath = Some ''/proj/out/demo-game-2025-01-02T03-04-05.txt'',
           error = None\<rparr> \<and>
   failure_result (Error ''quota exceeded'') =
     \<lparr>success = False, outputPath = None, error = Some ''quota exceeded''\<rparr>"
proof -
  let ?a = "[''/docs/a.md'']"
  let ?cf = "[''/proj/uploads-to-GenAI/a.md'']"
  let ?anthropic = "no_config\<lparr>anthropicApiKey := Some ''sk-a''\<rparr>"
  let ?openai = "no_config\<lparr>aiProvider := Some ''openai'', openaiApiKey := Some ''  ''\<rparr>"

  txt \<open>The settings cannot be read.\<close>
  have settings: "getConfiguration settings_fault_env example_world =
                    Inl (Error ''settings unavailable'')"
    by (simp add: run_defs)
  note c1 = public_operations_fail_stagewise
      [where env = settings_fault_env and sourceDocuments = ?a
         and promptingDocuments = "[''/docs/b.md'']" and outputDirectory = "''/proj/out''"
         and projectName = "''demo''" and w = example_world,
       THEN conjunct2, THEN conjunct2, THEN conjunct2, THEN conjunct2, THEN conjunct1,
       THEN conjunct1, rule_format, OF settings]

  txt \<open>A source document does not exist.\<close>
  have cfg_a: "getConfiguration anthropic_env example_world = Inr ?anthropic"
    by (simp add: run_defs direct_defs)
  have direct_a: "js_or_default (aiProvider ?anthropic) ''anthropic'' \<noteq> ''google''"
    by (simp add: run_defs)
  have missing: "\<exists>d \<in> set ([''/docs/a.md'', ''/docs/zz.md''] @ [''/docs/b.md'']).
                   \<exists>e. readFile anthropic_env example_world d = Inl e"
    by (simp add: run_defs direct_defs)
  note spec_a = public_operations_fail_stagewise
      [where env = anthropic_env and sourceDocuments = "[''/docs/a.md'', ''/docs/zz.md'']"
         and promptingDocuments = "[''/docs/b.md'']" and outputDirectory = "''/proj/out''"
         and projectName = "''demo''" and w = example_world,
       THEN conjunct2, THEN conjunct2, THEN conjunct2, THEN conjunct2, THEN conjunct1,
       THEN conjunct2, rule_format, OF cfg_a, THEN conjunct2, rule_format, OF direct_a]
  from spec_a [THEN conjunct1, rule_format, OF missing]
  obtain d e where d: "d \<in> set ([''/docs/a.md'', ''/docs/zz.md''] @ [''/docs/b.md''])"
    and e: "readFile anthropic_env example_world d = Inl e"
    and r: "ClaudeService_generateGameSpecification anthropic_env
              [''/docs/a.md'', ''/docs/zz.md''] [''/docs/b.md''] ''/proj/out'' ''demo''
              example_world = Some (failure_result e, example_world)"
    by blast
  have "readFile anthropic_env example_world ''/docs/a.md'' = Inr ''alpha''"
    and "readFile anthropic_env example_world ''/docs/b.md'' = Inr ''beta''"
    and zz: "readFile anthropic_env example_world ''/docs/zz.md'' = Inl (enoent_open ''/docs/zz.md'')"
    by (simp_all add: run_defs direct_defs)
  with d e have "e = enoent_open ''/docs/zz.md''" by auto
  with r have c2: "ClaudeService_generateGameSpecification anthropic_env
              [''/docs/a.md'', ''/docs/zz.md''] [''/docs/b.md''] ''/proj/out'' ''demo''
              example_world = Some (failure_result (enoent_open ''/docs/zz.md''), example_world)"
    by simp

  txt \<open>The provider call throws.\<close>
  have cfg_p: "getConfiguration provider_fault_env example_world = Inr ?anthropic"
    by (simp add: run_defs direct_defs)
  have "\<exists>prompt. specification_prompt provider_fault_env example_world ?a [''/docs/b.md'']
                    ''demo'' = Inr prompt"
    by (simp add: run_defs direct_defs)
  then obtain prompt where prompt:
    "specification_prompt provider_fault_env example_world ?a [''/docs/b.md''] ''demo'' =
       Inr prompt" ..
  have keyed: "js_or_default (aiProvider ?anthropic) ''anthropic'' = ''anthropic'' \<and>
      \<not> credential_missing (anthropicApiKey ?anthropic) \<and>
      anthropic_messages_create provider_fault_env
        (example_world\<lparr>net_log := net_log example_world @
           [AnthropicMessagesCreate (js_or_default (anthropicApiKey ?anthropic) [])
              (js_or_default (aiModel ?anthropic) ''claude-3-5-sonnet-20241022'')
              8192 prompt]\<rparr>)
        (js_or_default (aiModel ?anthropic) ''claude-3-5-sonnet-20241022'') prompt =
        Inl (Error ''overloaded'')"
    by (simp add: run_defs direct_defs)
  note spec_p = public_operations_fail_stagewise
      [where env = provider_fault_env and sourceDocuments = ?a
         and promptingDocuments = "[''/docs/b.md'']" and outputDirectory = "''/proj/out''"
         and projectName = "''demo''" and w = example_world,
       THEN conjunct2, THEN conjunct2, THEN conjunct2, THEN conjunct2, THEN conjunct1,
       THEN conjunct2, rule_format, OF cfg_p, THEN conjunct2, rule_format, OF direct_a,
       THEN conjunct2, rule_format, OF prompt]
  from spec_p [THEN conjunct2, THEN conjunct1, rule_format, OF keyed]
  have c3: "map_option fst (ClaudeService_generateGameSpecification provider_fault_env ?a
     [''/docs/b.md''] ''/proj/out'' ''demo'' example_world) =
     Some (failure_result (communication_error (Error ''overloaded'')))"
    by simp

  txt \<open>The output directory does not exist.\<close>
  have "\<exists>prompt. specification_prompt anthropic_env example_world ?a [''/docs/b.md'']
                    ''demo'' = Inr prompt"
    by (simp add: run_defs direct_defs)
  then obtain prompt' where prompt':
    "specification_prompt anthropic_env example_world ?a [''/docs/b.md''] ''demo'' =
       Inr prompt'" ..
  let ?sent = "snd (sendToAI anthropic_env prompt' example_world)"
  have unwritten: "sendToAI anthropic_env prompt' example_world = (Inr ''# Game'', ?sent) \<and>
      writeFile anthropic_env
        (path_join anthropic_env ''/nowhere''
           (''demo'' @ ''-spec-'' @ timestamp anthropic_env ?sent @ ''.md''))
        ''# Game'' ?sent =
        Inl (enoent_open ''/nowhere/demo-spec-2025-01-02T03-04-05.md'')"
    by (simp add: prod_eq_iff run_defs direct_defs)
  note spec_w = public_operations_fail_stagewise
      [where env = anthropic_env and sourceDocuments = ?a
         and promptingDocuments = "[''/docs/b.md'']" and outputDirectory = "''/nowhere''"
         and projectName = "''demo''" and w = example_world,
       THEN conjunct2, THEN conjunct2, THEN conjunct2, THEN conjunct2, THEN conjunct1,
       THEN conjunct2, rule_format, OF cfg_a, THEN conjunct2, rule_format, OF direct_a,
       THEN conjunct2, rule_format, OF prompt']
  from spec_w [THEN conjunct2, THEN conjunct2, THEN conjunct2, THEN conjunct2, THEN conjunct2,
               rule_format, OF unwritten]
  have c4: "map_option fst (ClaudeService_generateGameSpecification anthropic_env ?a
     [''/docs/b.md''] ''/nowhere'' ''demo'' example_world) =
     Some (failure_result (enoent_open ''/nowhere/demo-spec-2025-01-02T03-04-05.md''))"
    by simp

  txt \<open>The key of the provider is made of white space.\<close>
  have cfg_o: "getConfiguration blank_key_env example_world = Inr ?openai"
    by (simp add: run_defs direct_defs)
  have direct_o: "js_or_default (aiProvider ?openai) ''anthropic'' \<noteq> ''google''"
    by (simp add: run_defs)
  have "\<exists>prompt. implementation_prompt blank_key_env example_world ?a ''demo'' = Inr prompt"
    by (simp add: run_defs direct_defs)
  then obtain prompt'' where prompt'':
    "implementation_prompt blank_key_env example_world ?a ''demo'' = Inr prompt''" ..
  have blank: "js_or_default (aiProvider ?openai) ''anthropic'' = ''openai'' \<and>
      credential_missing (openaiApiKey ?openai)"
    by (simp add: run_defs direct_defs)
  note c5 = public_operations_fail_stagewise
      [where env = blank_key_env and gameSpecifications = ?a
         and outputDirectory = "''/proj/out''"
         and projectName = "''demo''" and w = example_world,
       THEN conjunct2, THEN conjunct2, THEN conjunct2, THEN conjunct2, THEN conjunct2,
       THEN conjunct1,
       THEN conjunct2, rule_format, OF cfg_o, THEN conjunct2, rule_format, OF direct_o,
       THEN conjunct2, rule_format, OF prompt'',
       THEN conjunct2, THEN conjunct2, THEN conjunct1, rule_format, OF blank]

  txt \<open>No \<open>.env\<close> above the output directory.\<close>
  have unanchored: "findProjectRoot example_env example_world ''/docs'' =
                      Inl (anchor_not_found ''/docs'')"
    by (simp add: run_defs)
  note c6 = public_operations_fail_stagewise
      [where env = example_env and gameSpecifications = "[''/docs/a.md'']"
         and outputDirectory = "''/docs''" and projectName = "''demo''"
         and model = "''gemini-2.5-flash''" and w = example_world,
       THEN conjunct2, THEN conjunct2, THEN conjunct2, THEN conjunct2, THEN conjunct2,
       THEN conjunct2, THEN conjunct2, THEN conjunct1,
       THEN conjunct1, rule_format, OF unanchored]

  txt \<open>The second document does not exist: its copy throws.\<close>
  let ?two = "[''/docs/a.md'', ''/docs/zz.md'']"
  let ?w1_c = "snd (copyFilesToUploadsFolder example_env (take 1 ?two) ''/proj'' example_world)"
  have root_c: "findProjectRoot example_env example_world ''/proj/out'' = Inr ''/proj''"
    by (simp add: run_defs)
  have uncopied: "1 < length ?two \<and>
      copyFilesToUploadsFolder example_env (take 1 ?two) ''/proj'' example_world =
        (Inr ?cf, ?w1_c) \<and>
      copyFile example_env (normalizePath (?two ! 1))
        (path_join example_env (getUploadsFolderPath example_env ''/proj'')
           (path_basename example_env (normalizePath (?two ! 1)))) ?w1_c =
        Inl (enoent_copyfile ''/docs/zz.md'' ''/proj/uploads-to-GenAI/zz.md'')"
    by (simp add: prod_eq_iff run_defs)
  note c7 = public_operations_fail_stagewise
      [where env = example_env and gameSpecifications = "[''/docs/a.md'', ''/docs/zz.md'']"
         and outputDirectory = "''/proj/out''" and projectName = "''demo''"
         and model = "''gemini-2.5-flash''" and w = example_world,
       THEN conjunct2, THEN conjunct2, THEN conjunct2, THEN conjunct2, THEN conjunct2,
       THEN conjunct2, THEN conjunct2, THEN conjunct1,
       THEN conjunct2, rule_format, OF root_c,
       THEN conjunct2, THEN conjunct1, rule_format, OF uncopied]

  txt \<open>The file \<open>.env\<close> holds no key.\<close>
  let ?both = "[''/docs/a.md''] @ [''/docs/b.md'']"
  let ?w1_k = "snd (copyFilesToUploadsFolder example_env ?both ''/proj'' keyless_world)"
  have root_k: "findProjectRoot example_env keyless_world ''/proj/out'' = Inr ''/proj''"
    by (simp add: run_defs)
  have staged_k: "copyFilesToUploadsFolder example_env ?both ''/proj'' keyless_world =
      (Inr [''/proj/uploads-to-GenAI/a.md'', ''/proj/uploads-to-GenAI/b.md''], ?w1_k)"
    by (simp add: prod_eq_iff run_defs)
  have keyless: "loadEnvApiKey example_env ''/proj'' ?w1_k =
      (Inl (Error (''GEMINI_API_KEY not found in .env file at /proj/.env'' @
                   ''. Please add: GEMINI_API_KEY=your_key'')),
       snd (loadEnvApiKey example_env ''/proj'' ?w1_k))"
    by (simp add: prod_eq_iff run_defs)
  note c8 = public_operations_fail_stagewise
      [where env = example_env and sourceDocuments = ?a
         and promptingDocuments = "[''/docs/b.md'']" and outputDirectory = "''/proj/out''"
         and projectName = "''demo''" and model = "''gemini-2.5-flash''" and w = keyless_world,
       THEN conjunct2, THEN conjunct2, THEN conjunct2, THEN conjunct2, THEN conjunct2,
       THEN conjunct2, THEN conjunct1,
       THEN conjunct2, rule_format, OF root_k,
       THEN conjunct2, THEN conjunct2, rule_format, OF staged_k,
       THEN conjunct1, rule_format, OF keyless]

  txt \<open>The upload throws.\<close>
  let ?w1_u = "snd (copyFilesToUploadsFolder upload_fault_env ?a ''/proj'' example_world)"
  let ?w2_u = "snd (loadEnvApiKey upload_fault_env ''/proj'' ?w1_u)"
  have root_u: "findProjectRoot upload_fault_env example_world ''/proj/out'' = Inr ''/proj''"
    by (simp add: run_defs)
  have staged_u: "copyFilesToUploadsFolder upload_fault_env ?a ''/proj'' example_world =
                  (Inr ?cf, ?w1_u)"
    by (simp add: prod_eq_iff run_defs)
  have key_u: "loadEnvApiKey upload_fault_env ''/proj'' ?w1_u = (Inr ''k1'', ?w2_u)"
    by (simp add: prod_eq_iff run_defs)
  note at_key_u = public_operations_fail_stagewise
      [where env = upload_fault_env and gameSpecifications = "[''/docs/a.md'']"
         and outputDirectory = "''/proj/out''" and projectName = "''demo''"
         and model = "''gemini-2.5-flash''" and w = example_world,
       THEN conjunct2, THEN conjunct2, THEN conjunct2, THEN conjunct2, THEN conjunct2,
       THEN conjunct2, THEN conjunct2, THEN conjunct1,
       THEN conjunct2, rule_format, OF root_u,
       THEN conjunct2, THEN conjunct2, rule_format, OF staged_u,
       THEN conjunct2, rule_format, OF key_u]
  have first_u: "0 < length ?cf \<and>
      upload_loop upload_fault_env ''k1'' (take 0 ?cf) [] ?w2_u = Some (Inr [], ?w2_u)"
    by simp
  have thrown_u: "ai_files_upload upload_fault_env ''k1'' (?cf ! 0)
               (js_or_default (mime_lookup upload_fault_env (?cf ! 0)) ''application/octet-stream'')
               (path_basename upload_fault_env (?cf ! 0)) ?w2_u =
      (Inl (Error ''quota exceeded''), snd (ai_files_upload upload_fault_env ''k1'' (?cf ! 0)
               (js_or_default (mime_lookup upload_fault_env (?cf ! 0)) ''application/octet-stream'')
               (path_basename upload_fault_env (?cf ! 0)) ?w2_u))"
    by (simp add: prod_eq_iff run_defs)
  note c9 = at_key_u [THEN conjunct1, rule_format, OF first_u,
                      THEN conjunct1, rule_format, OF thrown_u]

  txt \<open>The Files API reports \<open>FAILED\<close>.\<close>
  let ?w1_r = "snd (copyFilesToUploadsFolder rejecting_env ?a ''/proj'' example_world)"
  let ?w2_r = "snd (loadEnvApiKey rejecting_env ''/proj'' ?w1_r)"
  have root_r: "findProjectRoot rejecting_env example_world ''/proj/out'' = Inr ''/proj''"
    by (simp add: run_defs)
  have staged_r: "copyFilesToUploadsFolder rejecting_env ?a ''/proj'' example_world =
                  (Inr ?cf, ?w1_r)"
    by (simp add: prod_eq_iff run_defs)
  have key_r: "loadEnvApiKey rejecting_env ''/proj'' ?w1_r = (Inr ''k1'', ?w2_r)"
    by (simp add: prod_eq_iff run_defs)
  note at_key_r = public_operations_fail_stagewise
      [where env = rejecting_env and gameSpecifications = "[''/docs/a.md'']"
         and outputDirectory = "''/proj/out''" and projectName = "''demo''"
         and model = "''gemini-2.5-flash''" and w = example_world,
       THEN conjunct2, THEN conjunct2, THEN conjunct2, THEN conjunct2, THEN conjunct2,
       THEN conjunct2, THEN conjunct2, THEN conjunct1,
       THEN conjunct2, rule_format, OF root_r,
       THEN conjunct2, THEN conjunct2, rule_format, OF staged_r,
       THEN conjunct2, rule_format, OF key_r]
  let ?w3_r = "snd (ai_files_upload rejecting_env ''k1'' (?cf ! 0)
               (js_or_default (mime_lookup rejecting_env (?cf ! 0)) ''application/octet-stream'')
               (path_basename rejecting_env (?cf ! 0)) ?w2_r)"
  have first_r: "0 < length ?cf \<and>
      upload_loop rejecting_env ''k1'' (take 0 ?cf) [] ?w2_r = Some (Inr [], ?w2_r)"
    by simp
  have uploaded_r: "ai_files_upload rejecting_env ''k1'' (?cf ! 0)
               (js_or_default (mime_lookup rejecting_env (?cf ! 0)) ''application/octet-stream'')
               (path_basename rejecting_env (?cf ! 0)) ?w2_r =
      (Inr (pending_file ''files/a.md''), ?w3_r)"
    by (simp add: prod_eq_iff run_defs)
  have "waitActive rejecting_env ''k1'' (js_or_default (rf_name (pending_file ''files/a.md'')) [])
          TIMEOUT_MS POLL_INTERVAL_MS ?w3_r \<noteq> None"
    by (simp add: run_defs)
  moreover have "fst (the (waitActive rejecting_env ''k1''
          (js_or_default (rf_name (pending_file ''files/a.md'')) [])
          TIMEOUT_MS POLL_INTERVAL_MS ?w3_r)) = Inl (failed_error ''files/a.md'')"
    by (simp add: run_defs)
  moreover have "js_or_default (rf_name (pending_file ''files/a.md'')) [] \<noteq> []"
    by (simp add: run_defs)
  ultimately have rejected_r:
    "js_or_default (rf_name (pending_file ''files/a.md'')) [] \<noteq> [] \<and>
     waitActive rejecting_env ''k1'' (js_or_default (rf_name (pending_file ''files/a.md'')) [])
       TIMEOUT_MS POLL_INTERVAL_MS ?w3_r =
       Some (Inl (failed_error ''files/a.md''),
             snd (the (waitActive rejecting_env ''k1''
                         (js_or_default (rf_name (pending_file ''files/a.md'')) [])
                         TIMEOUT_MS POLL_INTERVAL_MS ?w3_r)))"
    by (auto simp: prod_eq_iff)
  note c10 = at_key_r [THEN conjunct1, rule_format, OF first_r,
                       THEN conjunct2, rule_format, OF uploaded_r,
                       THEN conjunct2, rule_format, OF rejected_r]

  txt \<open>The generation call throws.\<close>
  let ?w1_g = "snd (copyFilesToUploadsFolder generate_fault_env ?a ''/proj'' example_world)"
  let ?w2_g = "snd (loadEnvApiKey generate_fault_env ''/proj'' ?w1_g)"
  have root_g: "findProjectRoot generate_fault_env example_world ''/proj/out'' = Inr ''/proj''"
    by (simp add: run_defs)
  have staged_g: "copyFilesToUploadsFolder generate_fault_env ?a ''/proj'' example_world =
                  (Inr ?cf, ?w1_g)"
    by (simp add: prod_eq_iff run_defs)
  have key_g: "loadEnvApiKey generate_fault_env ''/proj'' ?w1_g = (Inr ''k1'', ?w2_g)"
    by (simp add: prod_eq_iff run_defs)
  note at_key_g = public_operations_fail_stagewise
      [where env = generate_fault_env and gameSpecifications = "[''/docs/a.md'']"
         and outputDirectory = "''/proj/out''" and projectName = "''demo''"
         and model = "''gemini-2.5-flash''" and w = example_world,
       THEN conjunct2, THEN conjunct2, THEN conjunct2, THEN conjunct2, THEN conjunct2,
       THEN conjunct2, THEN conjunct2, THEN conjunct1,
       THEN conjunct2, rule_format, OF root_g,
       THEN conjunct2, THEN conjunct2, rule_format, OF staged_g,
       THEN conjunct2, rule_format, OF key_g]
  let ?loop_g = "upload_loop generate_fault_env ''k1'' ?cf [] ?w2_g"
  have "?loop_g \<noteq> None" and "fst (the ?loop_g) = Inr [active_file ''files/a.md'']"
    by (simp_all add: run_defs)
  then have loop_g: "?loop_g = Some (Inr [active_file ''files/a.md''], snd (the ?loop_g))"
    by (auto simp: prod_eq_iff)
  have thrown_g: "ai_models_generateContent generate_fault_env ''k1''
                \<lparr>rq_model = ''gemini-2.5-flash'',
                 rq_text = gemini_implementation_prompt ''demo'',
                 rq_fileParts =
                   map (\<lambda>f. (rf_uri f, js_or_default (rf_mimeType f)
                                           ''application/octet-stream'')) [active_file ''files/a.md''],
                 rq_systemInstruction =
                   (if truthy (Some gemini_implementation_system)
                    then Some gemini_implementation_system else None)\<rparr>
                (snd (the ?loop_g)) =
       (Inl (Error ''internal error''),
        snd (ai_models_generateContent generate_fault_env ''k1''
                \<lparr>rq_model = ''gemini-2.5-flash'',
                 rq_text = gemini_implementation_prompt ''demo'',
                 rq_fileParts =
                   map (\<lambda>f. (rf_uri f, js_or_default (rf_mimeType f)
                                           ''application/octet-stream'')) [active_file ''files/a.md''],
                 rq_systemInstruction =
                   (if truthy (Some gemini_implementation_system)
                    then Some gemini_implementation_system else None)\<rparr>
                (snd (the ?loop_g))))"
    by (simp add: prod_eq_iff ai_models_generateContent_def generate_fault_env_def Let_def)
  note c11 = at_key_g [THEN conjunct2, rule_format, OF loop_g,
                       THEN conjunct1, rule_format, OF thrown_g]

  txt \<open>The output directory does not exist.\<close>
  let ?w1_m = "snd (copyFilesToUploadsFolder example_env ?a ''/proj'' example_world)"
  let ?w2_m = "snd (loadEnvApiKey example_env ''/proj'' ?w1_m)"
  have root_m: "findProjectRoot example_env example_world ''/proj/missing'' = Inr ''/proj''"
    by (simp add: run_defs)
  have staged_m: "copyFilesToUploadsFolder example_env ?a ''/proj'' example_world =
                  (Inr ?cf, ?w1_m)"
    by (simp add: prod_eq_iff run_defs)
  have key_m: "loadEnvApiKey example_env ''/proj'' ?w1_m = (Inr ''k1'', ?w2_m)"
    by (simp add: prod_eq_iff run_defs)
  note at_key_m = public_operations_fail_stagewise
      [where env = example_env and gameSpecifications = "[''/docs/a.md'']"
         and outputDirectory = "''/proj/missing''" and projectName = "''demo''"
         and model = "''gemini-2.5-flash''" and w = example_world,
       THEN conjunct2, THEN conjunct2, THEN conjunct2, THEN conjunct2, THEN conjunct2,
       THEN conjunct2, THEN conjunct2, THEN conjunct1,
       THEN conjunct2, rule_format, OF root_m,
       THEN conjunct2, THEN conjunct2, rule_format, OF staged_m,
       THEN conjunct2, rule_format, OF key_m]
  let ?loop_m = "upload_loop example_env ''k1'' ?cf [] ?w2_m"
  let ?gen_m = "ai_models_generateContent example_env ''k1''
                \<lparr>rq_model = ''gemini-2.5-flash'',
                 rq_text = gemini_implementation_prompt ''demo'',
                 rq_fileParts =
                   map (\<lambda>f. (rf_uri f, js_or_default (rf_mimeType f)
                                           ''application/octet-stream'')) [active_file ''files/a.md''],
                 rq_systemInstruction =
                   (if truthy (Some gemini_implementation_system)
                    then Some gemini_implementation_system else None)\<rparr>
                (snd (the ?loop_m))"
  have "?loop_m \<noteq> None" and "fst (the ?loop_m) = Inr [active_file ''files/a.md'']"
    by (simp_all add: run_defs)
  then have loop_m: "?loop_m = Some (Inr [active_file ''files/a.md''], snd (the ?loop_m))"
    by (auto simp: prod_eq_iff)
  have "fst ?gen_m = Inr (Some ''# Game'')"
    by (simp add: ai_models_generateContent_def example_env_def Let_def)
  moreover have "writeFile example_env
        (path_join example_env ''/proj/missing''
           (''demo'' @ ''-game-'' @ timestamp example_env (snd ?gen_m) @ ''.txt''))
        (case Some ''# Game'' of None \<Rightarrow> [] | Some t \<Rightarrow> t) (snd ?gen_m) =
        Inl (enoent_open ''/proj/missing/demo-game-2025-01-02T03-04-05.txt'')"
    by (simp add: run_defs)
  ultimately have unwritten_m: "?gen_m = (Inr (Some ''# Game''), snd ?gen_m) \<and>
      writeFile example_env
        (path_join example_env ''/proj/missing''
           (''demo'' @ ''-game-'' @ timestamp example_env (snd ?gen_m) @ ''.txt''))
        (case Some ''# Game'' of None \<Rightarrow> [] | Some t \<Rightarrow> t) (snd ?gen_m) =
        Inl (enoent_open ''/proj/missing/demo-game-2025-01-02T03-04-05.txt'')"
    by (simp add: prod_eq_iff)
  note c12 = at_key_m [THEN conjunct2, rule_format, OF loop_m,
                       THEN conjunct2, rule_format, OF unwritten_m]

  txt \<open>A status query throws and the loop polls again; a deletion throws and the request
    succeeds.\<close>
  let ?get = "ai_files_get flaky_env ''k1'' ''files/a.md'' example_world"
  have c13: "?get = (Inl (Error ''ECONNRESET''), snd ?get)"
    by (simp add: prod_eq_iff run_defs)
  have early: "\<not> TIMEOUT_MS < clock (snd ?get) - 1000"
    by (simp add: run_defs)
  note c14 = public_operations_fail_stagewise
      [where env = flaky_env and apiKey = "''k1''" and fileName = "''files/a.md''"
         and w = example_world and timeoutMs = TIMEOUT_MS and start = 1000
         and intervalMs = POLL_INTERVAL_MS,
       THEN conjunct2, THEN conjunct2, THEN conjunct2, THEN conjunct2, THEN conjunct2,
       THEN conjunct2, THEN conjunct2, THEN conjunct2, THEN conjunct1,
       rule_format, OF conjI [OF c13 early]]
  have "map_option fst (GeminiService_implementGame example_env ?a ''/proj/out'' ''demo''
     ''gemini-2.5-flash'' example_world) =
     Some \<lparr>success = True, outputPath = Some ''/proj/out/demo-game-2025-01-02T03-04-05.txt'',
           error = None\<rparr>"
    by (simp add: run_defs)
  with public_operations_fail_stagewise
      [where env = example_env and gameSpecifications = ?a
         and outputDirectory = "''/proj/out''" and projectName = "''demo''"
         and model = "''gemini-2.5-flash''" and w = example_world,
       THEN conjunct2, THEN conjunct2, THEN conjunct2, THEN conjunct2, THEN conjunct2,
       THEN conjunct2, THEN conjunct2, THEN conjunct2, THEN conjunct2, THEN conjunct2,
       rule_format, of "\<lambda>w p. Some (Error ''EBUSY: resource busy or locked'')"]
  have c15: "map_option fst (GeminiService_implementGame busy_env ?a ''/proj/out'' ''demo''
     ''gemini-2.5-flash'' example_world) =
     Some \<lparr>success = True, outputPath = Some ''/proj/out/demo-game-2025-01-02T03-04-05.txt'',
           error = None\<rparr>"
    unfolding busy_env_def by simp
  have c16: "failure_result (Error ''quota exceeded'') =
     \<lparr>success = False, outputPath = None, error = Some ''quota exceeded''\<rparr>"
    by (simp add: failure_result_def)
  from c1 c2 c3 c4 c5 c6 c7 c8 c9 c10 c11 c12 c13 c14 c15 c16 show ?thesis
    by (intro conjI)
qed

end
